theory Spec2Isabelle
  imports Main "HOL-Library.Sublist"
begin

section \<open>The configuration-language library, as the extractor observes it\<close>

text \<open>
  \<^verbatim>\<open>loadModule\<close> (load_hcl.go) never looks inside a parsed document: it calls the
  parser library on bodies and expressions and branches on what comes back. A body or an
  expression is therefore modelled by the results of the calls the extractor makes on
  it; any behaviour of the library is an instance, and nothing about the library is assumed.
\<close>

record Pos =
  Line :: int
  Column :: int
  Byte :: int

record Range =
  Filename :: string
  Start :: Pos
  End :: Pos

datatype DiagnosticSeverity = DiagError | DiagWarning

record hcl_Diagnostic =
  Severity :: DiagnosticSeverity
  Summary :: string
  Detail :: string
  Subject :: "Range option"

type_synonym hcl_Diagnostics = "hcl_Diagnostic list"

text \<open>\<^verbatim>\<open>diags.HasErrors()\<close>: some diagnostic of the list has severity \<^verbatim>\<open>DiagError\<close>.\<close>

fun HasErrors :: "hcl_Diagnostics \<Rightarrow> bool" where
  "HasErrors [] = False"
| "HasErrors (d # ds) = (hcl_Diagnostic.Severity d = DiagError \<or> HasErrors ds)"

text \<open>
  A \<^verbatim>\<open>cty.Value\<close>: whether it is wholly known, and what \<^verbatim>\<open>ctyjson.Marshal(val, val.Type())\<close>
  returns for it (\<open>Inl\<close> the error, \<open>Inr\<close> the JSON bytes).
\<close>

record cty_Value =
  IsWhollyKnown :: bool
  Marshal :: "string + string"

datatype Traverser =
    TraverseRoot string
  | TraverseAttr string
  | TraverseIndex cty_Value
  | TraverseSplat

type_synonym Traversal = "Traverser list"

text \<open>
  The ways \<^verbatim>\<open>loadModule\<close> can abort: its three explicit \<^verbatim>\<open>panic\<close> calls, the runtime
  panic of indexing \<^verbatim>\<open>block.Labels\<close> out of range, and the panic of
  \<^verbatim>\<open>Traversal.RootName\<close> on a traversal that does not start with a root.
\<close>

datatype panic =
    SerializeFailed string
  | ReparseFailed string
  | UnhandledBlockType string
  | IndexOutOfRange
  | RelativeTraversal

fun RootName :: "Traversal \<Rightarrow> panic + string" where
  "RootName (TraverseRoot name # _) = Inr name"
| "RootName _ = Inl RelativeTraversal"

text \<open>
  An expression, by the four calls made on it:
  \<^item> \<^verbatim>\<open>hcl.ExprAsKeyword(expr)\<close>, the keyword or the empty string;
  \<^item> \<^verbatim>\<open>gohcl.DecodeExpression(expr, nil, &s)\<close> on a fresh string \<^verbatim>\<open>s\<close>: the diagnostics
    and the content of \<^verbatim>\<open>s\<close> afterwards;
  \<^item> \<^verbatim>\<open>hcl.AbsTraversalForExpr(expr)\<close>;
  \<^item> \<^verbatim>\<open>expr.Value(nil)\<close>;
  and its source range.
\<close>

record Expression =
  ExprAsKeyword :: string
  DecodeExpression :: "hcl_Diagnostics \<times> string"
  AbsTraversalForExpr :: "Traversal \<times> hcl_Diagnostics"
  Value :: "cty_Value \<times> hcl_Diagnostics"
  Range :: Range

record Attribute =
  Name :: string
  Expr :: Expression

text \<open>
  The schema tables are package-level variables declared outside load_hcl.go; the
  extractor only passes them on to the library, so they are modelled by their names.
\<close>

datatype BodySchema =
    rootSchema
  | terraformBlockSchema
  | variableSchema
  | outputSchema
  | providerConfigSchema
  | resourceSchema

text \<open>
  A body answers \<^verbatim>\<open>PartialContent(schema)\<close> with a content and diagnostics (the
  remaining body is never used), and \<^verbatim>\<open>JustAttributes()\<close> with attributes and
  diagnostics. \<^verbatim>\<open>JustAttributes\<close> returns a Go map that is then walked by \<^verbatim>\<open>range\<close>;
  the association list gives its entries in the order that walk visits them.
\<close>

datatype Body = MkBody
    (PartialContent: "BodySchema \<Rightarrow> BodyContent \<times> hcl_Diagnostics")
    (JustAttributes: "(string \<times> Attribute) list \<times> hcl_Diagnostics")
and BodyContent = MkBodyContent
    (Attributes: "string \<Rightarrow> Attribute option")
    (Blocks: "Block list")
and Block = MkBlock
    (Type: string)
    (Labels: "string list")
    (DefRange: Range)
    (Body: Body)

record File =
  Body :: Body

section \<open>The module model\<close>

record SourcePos =
  Filename :: string
  Line :: int

datatype DiagSeverity = DiagError | DiagWarning

record Diagnostic =
  Severity :: DiagSeverity
  Summary :: string
  Detail :: string
  Pos :: "SourcePos option"

type_synonym Diagnostics = "Diagnostic list"

text \<open>\<open>'v\<close> is what \<^verbatim>\<open>json.Unmarshal\<close> puts into an \<^verbatim>\<open>interface{}\<close>; \<open>None\<close> is \<^verbatim>\<open>nil\<close>.\<close>

record 'v Variable =
  Name :: string
  TypeHint :: string
  Description :: string
  Default :: "'v option"
  Pos :: SourcePos

record Output =
  Name :: string
  Description :: string
  Pos :: SourcePos

record ProviderRef =
  Name :: string
  Alias :: string

datatype ResourceMode = ManagedResourceMode | DataResourceMode

record Resource =
  Mode :: ResourceMode
  Type :: string
  Name :: string
  Provider :: ProviderRef
  Pos :: SourcePos

text \<open>
  The maps of a \<^verbatim>\<open>Module\<close> hold pointers (\<^verbatim>\<open>map[string]*Variable\<close> and so on), and
  \<^verbatim>\<open>loadModule\<close> stores a pointer in its map before it fills in the object's fields.
  A pointer is the index of its object in the list of the objects allocated so far.
\<close>

record Module =
  Path :: string
  Variables :: "string \<rightharpoonup> nat"
  Outputs :: "string \<rightharpoonup> nat"
  RequiredCore :: "string list"
  RequiredProviders :: "string \<rightharpoonup> string list"
  ManagedResources :: "string \<rightharpoonup> nat"
  DataResources :: "string \<rightharpoonup> nat"

record 'v state =
  Mod :: Module
  diags :: hcl_Diagnostics
  variables :: "'v Variable list"
  outputs :: "Output list"
  resources :: "Resource list"

text \<open>
  What \<^verbatim>\<open>loadModule\<close> calls that is neither a method of a body, an expression or a
  value nor defined in load_hcl.go: the directory listing, the two file parsers, the
  traversal parser, \<^verbatim>\<open>json.Unmarshal\<close> into an \<^verbatim>\<open>interface{}\<close>, and
  \<^verbatim>\<open>Resource.MapKey\<close>, the composite key of a resource's mode, type and name, whose
  format is left open.
\<close>

record 'v env =
  dirFiles :: "string \<Rightarrow> string list \<times> string list \<times> hcl_Diagnostics"
  ParseJSONFile :: "string \<Rightarrow> File option \<times> hcl_Diagnostics"
  ParseHCLFile :: "string \<Rightarrow> File option \<times> hcl_Diagnostics"
  ParseTraversalAbs :: "string \<Rightarrow> Traversal \<times> hcl_Diagnostics"
  Unmarshal :: "string \<Rightarrow> string + 'v option"
  MapKey :: "ResourceMode \<Rightarrow> string \<Rightarrow> string \<Rightarrow> string"

text \<open>
  Modelled from the spec: \<^verbatim>\<open>newModule\<close> is not in load_hcl.go. The Module and its child
  collections are created once per extraction call, empty.
\<close>

definition newModule :: "string \<Rightarrow> Module" where
  "newModule dir =
     \<lparr>Path = dir, Variables = Map.empty, Outputs = Map.empty, RequiredCore = [],
      RequiredProviders = Map.empty, ManagedResources = Map.empty,
      DataResources = Map.empty\<rparr>"

text \<open>
  Modelled from the spec: \<^verbatim>\<open>sourcePosHCL\<close> is not in load_hcl.go. A position is the
  source file and line of the declaring block.
\<close>

definition sourcePosHCL :: "Range \<Rightarrow> SourcePos" where
  "sourcePosHCL rng =
     \<lparr>SourcePos.Filename = Range.Filename rng, SourcePos.Line = Pos.Line (Start rng)\<rparr>"

text \<open>
  Modelled from the spec: \<^verbatim>\<open>diagnosticsHCL\<close> is not in load_hcl.go. The diagnostics are
  returned as one ordered list, each with its severity, summary, detail and optional
  position.
\<close>

definition diagnosticHCL :: "hcl_Diagnostic \<Rightarrow> Diagnostic" where
  "diagnosticHCL d =
     \<lparr>Diagnostic.Severity =
        (case hcl_Diagnostic.Severity d of
           DiagnosticSeverity.DiagError \<Rightarrow> DiagSeverity.DiagError
         | DiagnosticSeverity.DiagWarning \<Rightarrow> DiagSeverity.DiagWarning),
      Diagnostic.Summary = hcl_Diagnostic.Summary d,
      Diagnostic.Detail = hcl_Diagnostic.Detail d,
      Diagnostic.Pos = map_option sourcePosHCL (Subject d)\<rparr>"

definition diagnosticsHCL :: "hcl_Diagnostics \<Rightarrow> Diagnostics" where
  "diagnosticsHCL ds = map diagnosticHCL ds"

text \<open>
  Modelled from the spec: \<^verbatim>\<open>resourceTypeDefaultProviderName\<close> is not in load_hcl.go. It
  takes the substring of the resource type up to (and excluding) the first \<^verbatim>\<open>_\<close>
  separator, or the whole type if no separator exists.
\<close>

definition resourceTypeDefaultProviderName :: "string \<Rightarrow> string" where
  "resourceTypeDefaultProviderName typeName = takeWhile (\<lambda>c. c \<noteq> CHR ''_'') typeName"

section \<open>loadModule\<close>

definition HasSuffix :: "string \<Rightarrow> string \<Rightarrow> bool" where
  "HasSuffix s suf =
     (length suf \<le> length s \<and> drop (length s - length suf) s = suf)"

text \<open>\<^verbatim>\<open>diags = append(diags, ds...)\<close>\<close>

definition appendDiags :: "'v state \<Rightarrow> hcl_Diagnostics \<Rightarrow> 'v state" where
  "appendDiags st ds = st\<lparr>diags := diags st @ ds\<rparr>"

text \<open>\<^verbatim>\<open>mod.RequiredProviders[name] = append(mod.RequiredProviders[name], version)\<close>\<close>

definition appendRequiredProvider :: "'v state \<Rightarrow> string \<Rightarrow> string \<Rightarrow> 'v state" where
  "appendRequiredProvider st name version =
     st\<lparr>Mod := (Mod st)\<lparr>RequiredProviders := (RequiredProviders (Mod st))
        (name \<mapsto> (case RequiredProviders (Mod st) name of None \<Rightarrow> [] | Some vs \<Rightarrow> vs) @ [version])\<rparr>\<rparr>"

text \<open>Assignments through the pointers \<^verbatim>\<open>v\<close>, \<^verbatim>\<open>o\<close> and \<^verbatim>\<open>r\<close>.\<close>

definition setVariable :: "nat \<Rightarrow> ('v Variable \<Rightarrow> 'v Variable) \<Rightarrow> 'v state \<Rightarrow> 'v state" where
  "setVariable v f st = st\<lparr>variables := (variables st)[v := f (variables st ! v)]\<rparr>"

definition setOutput :: "nat \<Rightarrow> (Output \<Rightarrow> Output) \<Rightarrow> 'v state \<Rightarrow> 'v state" where
  "setOutput o' f st = st\<lparr>outputs := (outputs st)[o' := f (outputs st ! o')]\<rparr>"

definition setResource :: "nat \<Rightarrow> (Resource \<Rightarrow> Resource) \<Rightarrow> 'v state \<Rightarrow> 'v state" where
  "setResource r f st = st\<lparr>resources := (resources st)[r := f (resources st ! r)]\<rparr>"

subsection \<open>case "terraform" (lines 49-76)\<close>

fun requiredProvidersAttrs :: "'v state \<Rightarrow> (string \<times> Attribute) list \<Rightarrow> 'v state" where
  "requiredProvidersAttrs st [] = st"
| "requiredProvidersAttrs st ((name, attr) # attrs) =
     (let (valDiags, version) = DecodeExpression (Expr attr);
          st = appendDiags st valDiags;
          st = (if \<not> HasErrors valDiags then appendRequiredProvider st name version else st)
      in requiredProvidersAttrs st attrs)"

fun requiredProvidersBlocks :: "'v state \<Rightarrow> Block list \<Rightarrow> 'v state" where
  "requiredProvidersBlocks st [] = st"
| "requiredProvidersBlocks st (block # blocks) =
     (let (attrs, attrDiags) = JustAttributes (Block.Body block);
          st = appendDiags st attrDiags
      in requiredProvidersBlocks (requiredProvidersAttrs st attrs) blocks)"

definition requiredVersion :: "'v state \<Rightarrow> BodyContent \<Rightarrow> 'v state" where
  "requiredVersion st content =
     (case Attributes content ''required_version'' of
        None \<Rightarrow> st
      | Some attr \<Rightarrow>
          (let (valDiags, version) = DecodeExpression (Expr attr);
               st = appendDiags st valDiags
           in if \<not> HasErrors valDiags
              then st\<lparr>Mod := (Mod st)\<lparr>RequiredCore := RequiredCore (Mod st) @ [version]\<rparr>\<rparr>
              else st))"

definition case_terraform :: "'v state \<Rightarrow> Block \<Rightarrow> 'v state" where
  "case_terraform st block =
     (let (content, contentDiags) = PartialContent (Block.Body block) terraformBlockSchema;
          st = appendDiags st contentDiags;
          st = requiredVersion st content
      in requiredProvidersBlocks st (Blocks content))"

subsection \<open>case "variable" (lines 78-144)\<close>

definition invalidTypeHint :: "Expression \<Rightarrow> hcl_Diagnostic" where
  "invalidTypeHint expr =
     \<lparr>hcl_Diagnostic.Severity = DiagnosticSeverity.DiagError,
      hcl_Diagnostic.Summary = ''Invalid variable type hint'',
      hcl_Diagnostic.Detail =
        ''The '' @ [CHR 0x22] @ ''type'' @ [CHR 0x22] @
        '' argument must either be a type keyword or a quoted string.'',
      Subject = Some (Range expr)\<rparr>"

definition variableType :: "nat \<Rightarrow> 'v state \<Rightarrow> BodyContent \<Rightarrow> 'v state" where
  "variableType v st content =
     (case Attributes content ''type'' of
        None \<Rightarrow> st
      | Some attr \<Rightarrow>
          (let typeHint = ExprAsKeyword (Expr attr);
               typeHint =
                 (if typeHint = ''''
                  then (let (valDiags, typeHintAsStr) = DecodeExpression (Expr attr)
                        in if \<not> HasErrors valDiags then typeHintAsStr else typeHint)
                  else typeHint);
               st = (if typeHint = ''''
                     then appendDiags st [invalidTypeHint (Expr attr)]
                     else st)
           in setVariable v (\<lambda>x. x\<lparr>TypeHint := typeHint\<rparr>) st))"

definition variableDescription :: "nat \<Rightarrow> 'v state \<Rightarrow> BodyContent \<Rightarrow> 'v state" where
  "variableDescription v st content =
     (case Attributes content ''description'' of
        None \<Rightarrow> st
      | Some attr \<Rightarrow>
          (let (valDiags, description) = DecodeExpression (Expr attr);
               st = appendDiags st valDiags
           in setVariable v (\<lambda>x. x\<lparr>Variable.Description := description\<rparr>) st))"

definition variableDefault ::
  "'v env \<Rightarrow> nat \<Rightarrow> 'v state \<Rightarrow> BodyContent \<Rightarrow> panic + 'v state" where
  "variableDefault env v st content =
     (case Attributes content ''default'' of
        None \<Rightarrow> Inr st
      | Some attr \<Rightarrow>
          (let (val, valDiags) = Value (Expr attr);
               st = appendDiags st valDiags
           in if IsWhollyKnown val
              then (case Marshal val of
                      Inl err \<Rightarrow> Inl (SerializeFailed err)
                    | Inr valJSON \<Rightarrow>
                        (case Unmarshal env valJSON of
                           Inl err \<Rightarrow> Inl (ReparseFailed err)
                         | Inr def \<Rightarrow> Inr (setVariable v (\<lambda>x. x\<lparr>Default := def\<rparr>) st)))
              else Inr st))"

definition case_variable :: "'v env \<Rightarrow> 'v state \<Rightarrow> Block \<Rightarrow> panic + 'v state" where
  "case_variable env st block =
     (let (content, contentDiags) = PartialContent (Block.Body block) variableSchema;
          st = appendDiags st contentDiags
      in case Labels block of
           [] \<Rightarrow> Inl IndexOutOfRange
         | name # _ \<Rightarrow>
             (let v = length (variables st);
                  st = st\<lparr>variables := variables st @
                         [\<lparr>Variable.Name = name, TypeHint = '''', Variable.Description = '''',
                           Default = None,
                           Variable.Pos = sourcePosHCL (DefRange block)\<rparr>]\<rparr>;
                  st = st\<lparr>Mod := (Mod st)\<lparr>Variables := (Variables (Mod st))(name \<mapsto> v)\<rparr>\<rparr>;
                  st = variableType v st content;
                  st = variableDescription v st content
              in variableDefault env v st content))"

subsection \<open>case "output" (lines 146-163)\<close>

definition outputDescription :: "nat \<Rightarrow> 'v state \<Rightarrow> BodyContent \<Rightarrow> 'v state" where
  "outputDescription o' st content =
     (case Attributes content ''description'' of
        None \<Rightarrow> st
      | Some attr \<Rightarrow>
          (let (valDiags, description) = DecodeExpression (Expr attr);
               st = appendDiags st valDiags
           in setOutput o' (\<lambda>x. x\<lparr>Output.Description := description\<rparr>) st))"

definition case_output :: "'v state \<Rightarrow> Block \<Rightarrow> panic + 'v state" where
  "case_output st block =
     (let (content, contentDiags) = PartialContent (Block.Body block) outputSchema;
          st = appendDiags st contentDiags
      in case Labels block of
           [] \<Rightarrow> Inl IndexOutOfRange
         | name # _ \<Rightarrow>
             (let o' = length (outputs st);
                  st = st\<lparr>outputs := outputs st @
                         [\<lparr>Output.Name = name, Output.Description = '''',
                           Output.Pos = sourcePosHCL (DefRange block)\<rparr>]\<rparr>;
                  st = st\<lparr>Mod := (Mod st)\<lparr>Outputs := (Outputs (Mod st))(name \<mapsto> o')\<rparr>\<rparr>
              in Inr (outputDescription o' st content)))"

subsection \<open>case "provider" (lines 165-185)\<close>

definition providerVersion :: "'v state \<Rightarrow> string \<Rightarrow> BodyContent \<Rightarrow> 'v state" where
  "providerVersion st name content =
     (case Attributes content ''version'' of
        None \<Rightarrow> st
      | Some attr \<Rightarrow>
          (let (valDiags, version) = DecodeExpression (Expr attr);
               st = appendDiags st valDiags
           in if \<not> HasErrors valDiags then appendRequiredProvider st name version else st))"

definition case_provider :: "'v state \<Rightarrow> Block \<Rightarrow> panic + 'v state" where
  "case_provider st block =
     (let (content, contentDiags) = PartialContent (Block.Body block) providerConfigSchema;
          st = appendDiags st contentDiags
      in case Labels block of
           [] \<Rightarrow> Inl IndexOutOfRange
         | name # _ \<Rightarrow>
             (let st = providerVersion st name content
              in if RequiredProviders (Mod st) name = None
                 then Inr (st\<lparr>Mod := (Mod st)\<lparr>RequiredProviders :=
                             (RequiredProviders (Mod st))(name \<mapsto> [])\<rparr>\<rparr>)
                 else Inr st))"

subsection \<open>case "resource", "data" (lines 187-273)\<close>

definition duplicateResource :: "string \<Rightarrow> Block \<Rightarrow> hcl_Diagnostic" where
  "duplicateResource key block =
     \<lparr>hcl_Diagnostic.Severity = DiagnosticSeverity.DiagError,
      hcl_Diagnostic.Summary = ''Duplicate resource block'',
      hcl_Diagnostic.Detail = ''The resource '' @ key @ '' was already defined.'',
      Subject = Some (DefRange block)\<rparr>"

definition invalidProviderReference :: "Expression \<Rightarrow> hcl_Diagnostic" where
  "invalidProviderReference expr =
     \<lparr>hcl_Diagnostic.Severity = DiagnosticSeverity.DiagError,
      hcl_Diagnostic.Summary = ''Invalid provider reference'',
      hcl_Diagnostic.Detail =
        ''Provider argument requires a provider name followed by an optional alias, like '' @
        [CHR 0x22] @ ''aws.foo'' @ [CHR 0x22] @ ''.'',
      Subject = Some (Range expr)\<rparr>"

text \<open>Lines 229-243: the traversal of a \<^verbatim>\<open>provider\<close> attribute; \<open>[]\<close> is \<^verbatim>\<open>nil\<close>.\<close>

definition providerTraversal :: "'v env \<Rightarrow> Expression \<Rightarrow> Traversal" where
  "providerTraversal env expr =
     (let (traversal, travDiags) = AbsTraversalForExpr expr
      in if HasErrors travDiags
         then (let (valDiags, travStr) = DecodeExpression expr
               in if \<not> HasErrors valDiags
                  then (let (traversal, strDiags) = ParseTraversalAbs env travStr
                        in if HasErrors strDiags then [] else traversal)
                  else [])
         else traversal)"

definition resourceProvider ::
  "'v env \<Rightarrow> nat \<Rightarrow> 'v state \<Rightarrow> BodyContent \<Rightarrow> panic + 'v state" where
  "resourceProvider env r st content =
     (case Attributes content ''provider'' of
        Some attr \<Rightarrow>
          (let traversal = providerTraversal env (Expr attr)
           in if length traversal > 0
              then (case RootName traversal of
                      Inl p \<Rightarrow> Inl p
                    | Inr providerName \<Rightarrow>
                        (let alias =
                               (if length traversal > 1
                                then (case traversal ! 1 of
                                        TraverseAttr name \<Rightarrow> name
                                      | _ \<Rightarrow> '''')
                                else '''')
                         in Inr (setResource r
                                   (\<lambda>x. x\<lparr>Provider :=
                                      \<lparr>ProviderRef.Name = providerName, Alias = alias\<rparr>\<rparr>) st)))
              else Inr (appendDiags st [invalidProviderReference (Expr attr)]))
      | None \<Rightarrow>
          Inr (setResource r
                 (\<lambda>x. x\<lparr>Provider :=
                    \<lparr>ProviderRef.Name = resourceTypeDefaultProviderName (Resource.Type x),
                     Alias = ''''\<rparr>\<rparr>) st))"

text \<open>
  The inner switch (lines 203-210) runs only when the block type is \<^verbatim>\<open>resource\<close> or
  \<^verbatim>\<open>data\<close>; \<open>managed\<close> says which. The new \<^verbatim>\<open>Resource\<close> is allocated before the key is
  looked up, and on a duplicate key it stays unreferenced.
\<close>

definition case_resource :: "'v env \<Rightarrow> 'v state \<Rightarrow> Block \<Rightarrow> panic + 'v state" where
  "case_resource env st block =
     (let (content, contentDiags) = PartialContent (Block.Body block) resourceSchema;
          st = appendDiags st contentDiags
      in case Labels block of
           typeName # name # _ \<Rightarrow>
             (let managed = (Block.Type block = ''resource'');
                  r = length (resources st);
                  st = st\<lparr>resources := resources st @
                         [\<lparr>Mode = (if managed then ManagedResourceMode else DataResourceMode),
                           Resource.Type = typeName, Resource.Name = name,
                           Provider = \<lparr>ProviderRef.Name = '''', Alias = ''''\<rparr>,
                           Resource.Pos = sourcePosHCL (DefRange block)\<rparr>]\<rparr>;
                  resourcesMap =
                    (if managed then ManagedResources (Mod st) else DataResources (Mod st));
                  key = MapKey env (Mode (resources st ! r)) (Resource.Type (resources st ! r))
                          (Resource.Name (resources st ! r))
              in if resourcesMap key \<noteq> None
                 then Inr (appendDiags st [duplicateResource key block])
                 else (let st =
                             (if managed
                              then st\<lparr>Mod := (Mod st)\<lparr>ManagedResources :=
                                     (ManagedResources (Mod st))(key \<mapsto> r)\<rparr>\<rparr>
                              else st\<lparr>Mod := (Mod st)\<lparr>DataResources :=
                                     (DataResources (Mod st))(key \<mapsto> r)\<rparr>\<rparr>)
                       in resourceProvider env r st content))
         | _ \<Rightarrow> Inl IndexOutOfRange)"

subsection \<open>The loops over blocks and files, and loadModule\<close>

definition loadBlock :: "'v env \<Rightarrow> 'v state \<Rightarrow> Block \<Rightarrow> panic + 'v state" where
  "loadBlock env st block =
     (if Block.Type block = ''terraform'' then Inr (case_terraform st block)
      else if Block.Type block = ''variable'' then case_variable env st block
      else if Block.Type block = ''output'' then case_output st block
      else if Block.Type block = ''provider'' then case_provider st block
      else if Block.Type block = ''resource'' \<or> Block.Type block = ''data''
      then case_resource env st block
      else if Block.Type block = ''module'' then Inr st
      else Inl (UnhandledBlockType (Block.Type block)))"

fun loadBlocks :: "'v env \<Rightarrow> 'v state \<Rightarrow> Block list \<Rightarrow> panic + 'v state" where
  "loadBlocks env st [] = Inr st"
| "loadBlocks env st (block # blocks) =
     (case loadBlock env st block of
        Inl p \<Rightarrow> Inl p
      | Inr st \<Rightarrow> loadBlocks env st blocks)"

definition parseFile :: "'v env \<Rightarrow> string \<Rightarrow> File option \<times> hcl_Diagnostics" where
  "parseFile env filename =
     (if HasSuffix filename ''.json'' then ParseJSONFile env filename
      else ParseHCLFile env filename)"

definition loadFile :: "'v env \<Rightarrow> 'v state \<Rightarrow> string \<Rightarrow> panic + 'v state" where
  "loadFile env st filename =
     (let (file, fileDiags) = parseFile env filename;
          st = appendDiags st fileDiags
      in case file of
           None \<Rightarrow> Inr st
         | Some f \<Rightarrow>
             (let (content, contentDiags) = PartialContent (File.Body f) rootSchema;
                  st = appendDiags st contentDiags
              in loadBlocks env st (Blocks content)))"

fun loadFiles :: "'v env \<Rightarrow> 'v state \<Rightarrow> string list \<Rightarrow> panic + 'v state" where
  "loadFiles env st [] = Inr st"
| "loadFiles env st (filename # filenames) =
     (case loadFile env st filename of
        Inl p \<Rightarrow> Inl p
      | Inr st \<Rightarrow> loadFiles env st filenames)"

definition noConfigurationFiles :: "string \<Rightarrow> hcl_Diagnostic" where
  "noConfigurationFiles dir =
     \<lparr>hcl_Diagnostic.Severity = DiagnosticSeverity.DiagError,
      hcl_Diagnostic.Summary = ''No Terraform configuration files'',
      hcl_Diagnostic.Detail =
        ''Module directory '' @ dir @ '' does not contain any .tf or .tf.json files.'',
      Subject = None\<rparr>"

text \<open>
  \<^verbatim>\<open>loadModule\<close> returns the module (here with the objects its maps point to) and the
  converted diagnostics, or panics.
\<close>

definition loadModule :: "'v env \<Rightarrow> string \<Rightarrow> panic + 'v state \<times> Diagnostics" where
  "loadModule env dir =
     (let (primaryPaths, overridePaths, ds) = dirFiles env dir;
          ds = (if length primaryPaths = 0 \<and> length overridePaths = 0
                then ds @ [noConfigurationFiles dir]
                else ds);
          st = \<lparr>Mod = newModule dir, diags = ds, variables = [], outputs = [], resources = []\<rparr>
      in case loadFiles env st primaryPaths of
           Inl p \<Rightarrow> Inl p
         | Inr st \<Rightarrow> Inr (st, diagnosticsHCL (diags st)))"

section \<open>The vocabulary of the properties\<close>

definition typeHintOf :: "Expression \<Rightarrow> string" where
  "typeHintOf expr =
     (if ExprAsKeyword expr \<noteq> '''' then ExprAsKeyword expr
      else if \<not> HasErrors (fst (DecodeExpression expr)) then snd (DecodeExpression expr)
      else '''')"

definition blockTypeHint :: "BodyContent \<Rightarrow> string" where
  "blockTypeHint content =
     (case Attributes content ''type'' of None \<Rightarrow> '''' | Some attr \<Rightarrow> typeHintOf (Expr attr))"

definition typeDiags :: "BodyContent \<Rightarrow> hcl_Diagnostics" where
  "typeDiags content =
     (case Attributes content ''type'' of None \<Rightarrow> []
      | Some attr \<Rightarrow> if typeHintOf (Expr attr) = '''' then [invalidTypeHint (Expr attr)] else [])"

definition blockDescription :: "BodyContent \<Rightarrow> string" where
  "blockDescription content =
     (case Attributes content ''description'' of None \<Rightarrow> ''''
      | Some attr \<Rightarrow> snd (DecodeExpression (Expr attr)))"

definition descriptionDiags :: "BodyContent \<Rightarrow> hcl_Diagnostics" where
  "descriptionDiags content =
     (case Attributes content ''description'' of None \<Rightarrow> []
      | Some attr \<Rightarrow> fst (DecodeExpression (Expr attr)))"

definition blockDefault :: "'v env \<Rightarrow> BodyContent \<Rightarrow> 'v option" where
  "blockDefault env content =
     (case Attributes content ''default'' of None \<Rightarrow> None
      | Some attr \<Rightarrow>
          if IsWhollyKnown (fst (Value (Expr attr)))
          then (case Marshal (fst (Value (Expr attr))) of
                  Inl err \<Rightarrow> None
                | Inr valJSON \<Rightarrow> (case Unmarshal env valJSON of Inl err \<Rightarrow> None | Inr def \<Rightarrow> def))
          else None)"

definition defaultDiags :: "BodyContent \<Rightarrow> hcl_Diagnostics" where
  "defaultDiags content =
     (case Attributes content ''default'' of None \<Rightarrow> []
      | Some attr \<Rightarrow> snd (Value (Expr attr)))"

definition blockVariable :: "'v env \<Rightarrow> Block \<Rightarrow> 'v Variable" where
  "blockVariable env block =
     (let content = fst (PartialContent (Block.Body block) variableSchema)
      in \<lparr>Variable.Name = hd (Labels block), TypeHint = blockTypeHint content,
          Variable.Description = blockDescription content,
          Default = blockDefault env content,
          Variable.Pos = sourcePosHCL (DefRange block)\<rparr>)"

definition variableDiags :: "Block \<Rightarrow> hcl_Diagnostics" where
  "variableDiags block =
     (let (content, contentDiags) = PartialContent (Block.Body block) variableSchema
      in contentDiags @ typeDiags content @ descriptionDiags content @ defaultDiags content)"

definition blockOutput :: "Block \<Rightarrow> Output" where
  "blockOutput block =
     (let content = fst (PartialContent (Block.Body block) outputSchema)
      in \<lparr>Output.Name = hd (Labels block),
          Output.Description = blockDescription content,
          Output.Pos = sourcePosHCL (DefRange block)\<rparr>)"

definition outputDiags :: "Block \<Rightarrow> hcl_Diagnostics" where
  "outputDiags block =
     (let (content, contentDiags) = PartialContent (Block.Body block) outputSchema
      in contentDiags @ descriptionDiags content)"

definition providerVersions :: "BodyContent \<Rightarrow> string list" where
  "providerVersions content =
     (case Attributes content ''version'' of None \<Rightarrow> []
      | Some attr \<Rightarrow>
          if \<not> HasErrors (fst (DecodeExpression (Expr attr)))
          then [snd (DecodeExpression (Expr attr))] else [])"

definition versionDiags :: "BodyContent \<Rightarrow> hcl_Diagnostics" where
  "versionDiags content =
     (case Attributes content ''version'' of None \<Rightarrow> []
      | Some attr \<Rightarrow> fst (DecodeExpression (Expr attr)))"

definition providerDiags :: "Block \<Rightarrow> hcl_Diagnostics" where
  "providerDiags block =
     (let (content, contentDiags) = PartialContent (Block.Body block) providerConfigSchema
      in contentDiags @ versionDiags content)"

definition constraints :: "(string \<rightharpoonup> string list) \<Rightarrow> string \<Rightarrow> string list" where
  "constraints m name = (case m name of None \<Rightarrow> [] | Some vs \<Rightarrow> vs)"

definition requiredVersions :: "BodyContent \<Rightarrow> string list" where
  "requiredVersions content =
     (case Attributes content ''required_version'' of None \<Rightarrow> []
      | Some attr \<Rightarrow>
          if \<not> HasErrors (fst (DecodeExpression (Expr attr)))
          then [snd (DecodeExpression (Expr attr))] else [])"

definition requiredVersionDiags :: "BodyContent \<Rightarrow> hcl_Diagnostics" where
  "requiredVersionDiags content =
     (case Attributes content ''required_version'' of None \<Rightarrow> []
      | Some attr \<Rightarrow> fst (DecodeExpression (Expr attr)))"

definition requiredProvidersDiags :: "Block \<Rightarrow> hcl_Diagnostics" where
  "requiredProvidersDiags block =
     (let (attrs, attrDiags) = JustAttributes (Block.Body block)
      in attrDiags @ concat (map (\<lambda>(name, attr). fst (DecodeExpression (Expr attr))) attrs))"

definition terraformDiags :: "Block \<Rightarrow> hcl_Diagnostics" where
  "terraformDiags block =
     (let (content, contentDiags) = PartialContent (Block.Body block) terraformBlockSchema
      in contentDiags @ requiredVersionDiags content @
         concat (map requiredProvidersDiags (Blocks content)))"

definition resourceMode :: "Block \<Rightarrow> ResourceMode" where
  "resourceMode block =
     (if Block.Type block = ''resource'' then ManagedResourceMode else DataResourceMode)"

definition resourceKey :: "'v env \<Rightarrow> Block \<Rightarrow> string" where
  "resourceKey env block =
     MapKey env (resourceMode block) (hd (Labels block)) (hd (tl (Labels block)))"

definition resourcesMap :: "Block \<Rightarrow> Module \<Rightarrow> (string \<rightharpoonup> nat)" where
  "resourcesMap block m =
     (if Block.Type block = ''resource'' then ManagedResources m else DataResources m)"

definition storeResource :: "Block \<Rightarrow> string \<Rightarrow> nat \<Rightarrow> Module \<Rightarrow> Module" where
  "storeResource block key r m =
     (if Block.Type block = ''resource''
      then m\<lparr>ManagedResources := (ManagedResources m)(key \<mapsto> r)\<rparr>
      else m\<lparr>DataResources := (DataResources m)(key \<mapsto> r)\<rparr>)"

definition newResource :: "Block \<Rightarrow> Resource" where
  "newResource block =
     \<lparr>Mode = resourceMode block, Resource.Type = hd (Labels block),
      Resource.Name = hd (tl (Labels block)),
      Provider = \<lparr>ProviderRef.Name = '''', Alias = ''''\<rparr>,
      Resource.Pos = sourcePosHCL (DefRange block)\<rparr>"

definition providerRef :: "Traversal \<Rightarrow> ProviderRef" where
  "providerRef traversal =
     \<lparr>ProviderRef.Name = (case traversal of TraverseRoot name # _ \<Rightarrow> name | _ \<Rightarrow> ''''),
      Alias = (case traversal of _ # TraverseAttr name # _ \<Rightarrow> name | _ \<Rightarrow> '''')\<rparr>"

definition blockProvider :: "'v env \<Rightarrow> Block \<Rightarrow> ProviderRef" where
  "blockProvider env block =
     (case Attributes (fst (PartialContent (Block.Body block) resourceSchema)) ''provider'' of
        None \<Rightarrow> \<lparr>ProviderRef.Name = resourceTypeDefaultProviderName (hd (Labels block)),
                 Alias = ''''\<rparr>
      | Some attr \<Rightarrow> providerRef (providerTraversal env (Expr attr)))"

definition providerAttrDiags :: "'v env \<Rightarrow> BodyContent \<Rightarrow> hcl_Diagnostics" where
  "providerAttrDiags env content =
     (case Attributes content ''provider'' of
        None \<Rightarrow> []
      | Some attr \<Rightarrow>
          if providerTraversal env (Expr attr) = []
          then [invalidProviderReference (Expr attr)] else [])"

definition lookupVariable :: "'v state \<Rightarrow> string \<Rightarrow> 'v Variable option" where
  "lookupVariable st name =
     (case Variables (Mod st) name of
        None \<Rightarrow> None
      | Some v \<Rightarrow> if v < length (variables st) then Some (variables st ! v) else None)"

definition lookupOutput :: "'v state \<Rightarrow> string \<Rightarrow> Output option" where
  "lookupOutput st name =
     (case Outputs (Mod st) name of
        None \<Rightarrow> None
      | Some v \<Rightarrow> if v < length (outputs st) then Some (outputs st ! v) else None)"

definition resourcesOf :: "ResourceMode \<Rightarrow> Module \<Rightarrow> (string \<rightharpoonup> nat)" where
  "resourcesOf mode m =
     (case mode of ManagedResourceMode \<Rightarrow> ManagedResources m
                 | DataResourceMode \<Rightarrow> DataResources m)"

definition lookupResource :: "ResourceMode \<Rightarrow> 'v state \<Rightarrow> string \<Rightarrow> Resource option" where
  "lookupResource mode st key =
     (case resourcesOf mode (Mod st) key of
        None \<Rightarrow> None
      | Some r \<Rightarrow> if r < length (resources st) then Some (resources st ! r) else None)"

definition aliasOf :: "Traversal \<Rightarrow> string" where
  "aliasOf rest = (case rest of TraverseAttr name # _ \<Rightarrow> name | _ \<Rightarrow> '''')"

definition resourceStored ::
  "'v env \<Rightarrow> 'v state \<Rightarrow> Block \<Rightarrow> ProviderRef \<Rightarrow> hcl_Diagnostics \<Rightarrow> bool" where
  "resourceStored env st block provider ds =
     (case loadBlock env st block of
        Inl p \<Rightarrow> False
      | Inr st' \<Rightarrow>
          (case lookupResource (resourceMode block) st' (resourceKey env block) of
             None \<Rightarrow> False
           | Some x \<Rightarrow>
               Mode x = resourceMode block \<and> Resource.Type x = hd (Labels block) \<and>
               Resource.Name x = hd (tl (Labels block)) \<and> Provider x = provider) \<and>
          diags st' = diags st @ ds)"

definition fileBlocks :: "'v env \<Rightarrow> string \<Rightarrow> Block list" where
  "fileBlocks env filename =
     (case fst (parseFile env filename) of
        None \<Rightarrow> []
      | Some f \<Rightarrow> Blocks (fst (PartialContent (File.Body f) rootSchema)))"

definition allBlocks :: "'v env \<Rightarrow> string \<Rightarrow> Block list" where
  "allBlocks env dir = concat (map (fileBlocks env) (fst (dirFiles env dir)))"

inductive run :: "'v env \<Rightarrow> 'v state \<Rightarrow> Block list \<Rightarrow> 'v state \<Rightarrow> bool" for env where
  run_done: "run env st [] st"
| run_diags: "run env (appendDiags st ds) blocks st' \<Longrightarrow> run env st blocks st'"
| run_block: "loadBlock env st block = Inr st1 \<Longrightarrow> run env st1 blocks st' \<Longrightarrow>
              run env st (block # blocks) st'"

definition blockRequiredCore :: "Block \<Rightarrow> string list" where
  "blockRequiredCore b =
     (if Block.Type b = ''terraform''
      then requiredVersions (fst (PartialContent (Block.Body b) terraformBlockSchema))
      else [])"

definition requiredVersionAttr :: "Block \<Rightarrow> Attribute list" where
  "requiredVersionAttr b =
     (if Block.Type b = ''terraform''
      then (case Attributes (fst (PartialContent (Block.Body b) terraformBlockSchema))
                   ''required_version'' of
              None \<Rightarrow> []
            | Some attr \<Rightarrow> [attr])
      else [])"

definition requiredVersionAttrs :: "'v env \<Rightarrow> string \<Rightarrow> Attribute list" where
  "requiredVersionAttrs env dir = concat (map requiredVersionAttr (allBlocks env dir))"

definition declares :: "string \<Rightarrow> string \<Rightarrow> Block \<Rightarrow> bool" where
  "declares type name b =
     (Block.Type b = type \<and> (case Labels b of [] \<Rightarrow> False | label # _ \<Rightarrow> label = name))"

fun lastDeclaration :: "string \<Rightarrow> string \<Rightarrow> Block list \<Rightarrow> Block option" where
  "lastDeclaration type name [] = None"
| "lastDeclaration type name (b # bs) =
     (case lastDeclaration type name bs of
        Some later \<Rightarrow> Some later
      | None \<Rightarrow> if declares type name b then Some b else None)"

definition validVariables :: "'v state \<Rightarrow> bool" where
  "validVariables st = (\<forall>name v. Variables (Mod st) name = Some v \<longrightarrow> v < length (variables st))"

definition validOutputs :: "'v state \<Rightarrow> bool" where
  "validOutputs st = (\<forall>name v. Outputs (Mod st) name = Some v \<longrightarrow> v < length (outputs st))"

definition resourcesKeyed :: "'v env \<Rightarrow> 'v state \<Rightarrow> bool" where
  "resourcesKeyed env st =
     (\<forall>mode key r. resourcesOf mode (Mod st) key = Some r \<longrightarrow>
        r < length (resources st) \<and> Mode (resources st ! r) = mode \<and>
        MapKey env mode (Resource.Type (resources st ! r)) (Resource.Name (resources st ! r)) = key)"

definition blockReported :: "Block \<Rightarrow> hcl_Diagnostics" where
  "blockReported b =
     (if Block.Type b = ''terraform'' then terraformDiags b
      else if Block.Type b = ''variable''
      then (let (content, contentDiags) = PartialContent (Block.Body b) variableSchema
            in contentDiags @ descriptionDiags content @ defaultDiags content)
      else if Block.Type b = ''output'' then outputDiags b
      else if Block.Type b = ''provider'' then providerDiags b
      else if Block.Type b = ''resource'' \<or> Block.Type b = ''data''
      then snd (PartialContent (Block.Body b) resourceSchema)
      else [])"

definition fileReported :: "'v env \<Rightarrow> string \<Rightarrow> hcl_Diagnostics" where
  "fileReported env filename =
     (let (parsed, fileDiags) = parseFile env filename
      in fileDiags @
         (case parsed of
            None \<Rightarrow> []
          | Some f \<Rightarrow>
              (let (content, contentDiags) = PartialContent (File.Body f) rootSchema
               in contentDiags @ concat (map blockReported (Blocks content)))))"

definition reported :: "'v env \<Rightarrow> string \<Rightarrow> hcl_Diagnostics" where
  "reported env dir =
     (let (primaryPaths, overridePaths, ds) = dirFiles env dir
      in ds @ concat (map (fileReported env) primaryPaths))"

text \<open>
  The diagnostics the extractor builds itself for a block: the invalid-type-hint error for
  the \<^verbatim>\<open>type\<close> attribute of a \<^verbatim>\<open>variable\<close> block (lines 103-108), and for a
  \<^verbatim>\<open>resource\<close> or \<^verbatim>\<open>data\<close> block the duplicate-resource error (lines 214-219) and the
  invalid-provider-reference error for its \<^verbatim>\<open>provider\<close> attribute (lines 260-265). For
  the module they are these and the no-configuration-files error (lines 23-27).
\<close>

definition blockOwn :: "'v env \<Rightarrow> Block \<Rightarrow> hcl_Diagnostics" where
  "blockOwn env b =
     (if Block.Type b = ''variable''
      then (case Attributes (fst (PartialContent (Block.Body b) variableSchema)) ''type'' of
              None \<Rightarrow> []
            | Some attr \<Rightarrow> [invalidTypeHint (Expr attr)])
      else if Block.Type b = ''resource'' \<or> Block.Type b = ''data''
      then duplicateResource (resourceKey env b) b #
           (case Attributes (fst (PartialContent (Block.Body b) resourceSchema)) ''provider'' of
              None \<Rightarrow> []
            | Some attr \<Rightarrow> [invalidProviderReference (Expr attr)])
      else [])"

definition ownDiagnostics :: "'v env \<Rightarrow> string \<Rightarrow> hcl_Diagnostics" where
  "ownDiagnostics env dir =
     noConfigurationFiles dir # concat (map (blockOwn env) (allBlocks env dir))"

section \<open>A sample module\<close>

definition sampleRange :: Range where
  "sampleRange =
     \<lparr>Range.Filename = ''main.tf'',
      Start = \<lparr>Pos.Line = 1, Column = 1, Byte = 0\<rparr>,
      End = \<lparr>Pos.Line = 1, Column = 1, Byte = 0\<rparr>\<rparr>"

definition sampleError :: "string \<Rightarrow> hcl_Diagnostic" where
  "sampleError summary =
     \<lparr>hcl_Diagnostic.Severity = DiagnosticSeverity.DiagError,
      hcl_Diagnostic.Summary = summary, hcl_Diagnostic.Detail = '''',
      Subject = Some sampleRange\<rparr>"

definition quoted :: "string \<Rightarrow> Expression" where
  "quoted s =
     \<lparr>ExprAsKeyword = '''',
      DecodeExpression = ([], s),
      AbsTraversalForExpr = ([], [sampleError ''Invalid expression'']),
      Value = (\<lparr>IsWhollyKnown = True, Marshal = Inr (CHR 0x22 # s @ [CHR 0x22])\<rparr>, []),
      Range = sampleRange\<rparr>"

definition reference :: "string \<Rightarrow> string list \<Rightarrow> Expression" where
  "reference root attrs =
     \<lparr>ExprAsKeyword = (if attrs = [] then root else ''''),
      DecodeExpression = ([sampleError (''Unsuitable value: '' @ root)], ''''),
      AbsTraversalForExpr = (TraverseRoot root # map TraverseAttr attrs, []),
      Value = (\<lparr>IsWhollyKnown = False, Marshal = Inl ''value is not known''\<rparr>,
               [sampleError ''Variables not allowed'']),
      Range = sampleRange\<rparr>"

text \<open>
  A number literal such as \<^verbatim>\<open>42\<close>: no keyword and no traversal, a known value, and
  decoding it into a Go string converts it to its digits and reports nothing.
\<close>

definition numberLiteral :: "string \<Rightarrow> Expression" where
  "numberLiteral digits =
     \<lparr>ExprAsKeyword = '''',
      DecodeExpression = ([], digits),
      AbsTraversalForExpr = ([], [sampleError ''Invalid expression'']),
      Value = (\<lparr>IsWhollyKnown = True, Marshal = Inr digits\<rparr>, []),
      Range = sampleRange\<rparr>"

definition sampleAttrs :: "(string \<times> Expression) list \<Rightarrow> (string \<times> Attribute) list" where
  "sampleAttrs xs = map (\<lambda>(name, expr). (name, \<lparr>Attribute.Name = name, Expr = expr\<rparr>)) xs"

definition sampleContent :: "(string \<times> Expression) list \<Rightarrow> Block list \<Rightarrow> BodyContent" where
  "sampleContent xs blocks = MkBodyContent (map_of (sampleAttrs xs)) blocks"

definition sampleBody :: "(string \<times> Expression) list \<Rightarrow> Block list \<Rightarrow> Body" where
  "sampleBody xs blocks = MkBody (\<lambda>schema. (sampleContent xs blocks, [])) (sampleAttrs xs, [])"

definition sampleBlock :: "string \<Rightarrow> string list \<Rightarrow> (string \<times> Expression) list \<Rightarrow> Block" where
  "sampleBlock type labels xs = MkBlock type labels sampleRange (sampleBody xs [])"

definition sampleKey :: "ResourceMode \<Rightarrow> string \<Rightarrow> string \<Rightarrow> string" where
  "sampleKey mode type name =
     (case mode of ManagedResourceMode \<Rightarrow> '''' | DataResourceMode \<Rightarrow> ''data.'') @
     type @ ''.'' @ name"

definition sampleTerraform :: Block where
  "sampleTerraform =
     MkBlock ''terraform'' [] sampleRange
       (sampleBody [(''required_version'', quoted ''>= 0.12'')]
          [sampleBlock ''required_providers'' [] [(''aws'', quoted ''~> 2.0'')]])"

definition sampleTerraformUndecodable :: Block where
  "sampleTerraformUndecodable =
     sampleBlock ''terraform'' [] [(''required_version'', reference ''var'' [''version''])]"

definition sampleVariableFirst :: Block where
  "sampleVariableFirst =
     sampleBlock ''variable'' [''x'']
       [(''type'', reference ''string'' []), (''description'', quoted ''first''),
        (''default'', quoted ''hi'')]"

definition sampleVariableLast :: Block where
  "sampleVariableLast = sampleBlock ''variable'' [''x''] [(''type'', quoted ''string'')]"

definition sampleVariableY :: Block where
  "sampleVariableY =
     sampleBlock ''variable'' [''y'']
       [(''type'', reference ''local'' [''t'']), (''default'', reference ''var'' [''d''])]"

definition sampleOutput :: Block where
  "sampleOutput = sampleBlock ''output'' [''o''] [(''description'', quoted ''out'')]"

definition sampleProvider :: Block where
  "sampleProvider = sampleBlock ''provider'' [''google''] [(''version'', reference ''var'' [''v''])]"

definition sampleResource :: Block where
  "sampleResource =
     sampleBlock ''resource'' [''aws_instance'', ''a''] [(''provider'', reference ''aws'' [''east''])]"

definition sampleDuplicate :: Block where
  "sampleDuplicate =
     sampleBlock ''resource'' [''aws_instance'', ''a''] [(''provider'', quoted ''???'')]"

definition sampleData :: Block where
  "sampleData = sampleBlock ''data'' [''aws_ami'', ''b''] []"

definition sampleBlocks :: "Block list" where
  "sampleBlocks =
     [sampleTerraform, sampleTerraformUndecodable, sampleVariableFirst, sampleVariableLast,
      sampleVariableY, sampleOutput, sampleProvider, sampleResource, sampleDuplicate,
      sampleData, sampleBlock ''module'' [''m''] []]"

definition sampleEnv :: "string env" where
  "sampleEnv =
     \<lparr>dirFiles = (\<lambda>dir. ([''main.tf''], [], [])),
      ParseJSONFile = (\<lambda>filename. (None, [sampleError ''Failed to read file''])),
      ParseHCLFile = (\<lambda>filename.
        if filename = ''main.tf''
        then (Some \<lparr>File.Body = sampleBody [] sampleBlocks\<rparr>, [])
        else (None, [sampleError ''Failed to read file''])),
      ParseTraversalAbs = (\<lambda>s.
        if s = ''aws.east'' then ([TraverseRoot ''aws'', TraverseAttr ''east''], [])
        else ([], [sampleError ''Invalid character''])),
      Unmarshal = (\<lambda>valJSON. if valJSON = ''null'' then Inr None else Inr (Some valJSON)),
      MapKey = sampleKey\<rparr>"

definition sampleState :: "string state" where
  "sampleState =
     \<lparr>Mod = newModule ''m'', diags = [], variables = [], outputs = [], resources = []\<rparr>"

definition sampleLoaded :: "string state" where
  "sampleLoaded =
     \<lparr>Mod =
        \<lparr>Path = ''m'',
         Variables = [''x'' \<mapsto> 1, ''y'' \<mapsto> 2],
         Outputs = [''o'' \<mapsto> 0],
         RequiredCore = [''>= 0.12''],
         RequiredProviders = [''aws'' \<mapsto> [''~> 2.0''], ''google'' \<mapsto> []],
         ManagedResources = [''aws_instance.a'' \<mapsto> 0],
         DataResources = [''data.aws_ami.b'' \<mapsto> 2]\<rparr>,
      diags =
        [sampleError ''Unsuitable value: var'',
         invalidTypeHint (reference ''local'' [''t'']),
         sampleError ''Variables not allowed'',
         sampleError ''Unsuitable value: var'',
         duplicateResource ''aws_instance.a'' sampleDuplicate],
      variables =
        [\<lparr>Variable.Name = ''x'', TypeHint = ''string'', Variable.Description = ''first'',
          Default = Some (CHR 0x22 # ''hi'' @ [CHR 0x22]),
          Variable.Pos = sourcePosHCL sampleRange\<rparr>,
         \<lparr>Variable.Name = ''x'', TypeHint = ''string'', Variable.Description = '''',
          Default = None, Variable.Pos = sourcePosHCL sampleRange\<rparr>,
         \<lparr>Variable.Name = ''y'', TypeHint = '''', Variable.Description = '''',
          Default = None, Variable.Pos = sourcePosHCL sampleRange\<rparr>],
      outputs =
        [\<lparr>Output.Name = ''o'', Output.Description = ''out'',
          Output.Pos = sourcePosHCL sampleRange\<rparr>],
      resources =
        [\<lparr>Mode = ManagedResourceMode, Resource.Type = ''aws_instance'', Resource.Name = ''a'',
          Provider = \<lparr>ProviderRef.Name = ''aws'', Alias = ''east''\<rparr>,
          Resource.Pos = sourcePosHCL sampleRange\<rparr>,
         \<lparr>Mode = ManagedResourceMode, Resource.Type = ''aws_instance'', Resource.Name = ''a'',
          Provider = \<lparr>ProviderRef.Name = '''', Alias = ''''\<rparr>,
          Resource.Pos = sourcePosHCL sampleRange\<rparr>,
         \<lparr>Mode = DataResourceMode, Resource.Type = ''aws_ami'', Resource.Name = ''b'',
          Provider = \<lparr>ProviderRef.Name = ''aws'', Alias = ''''\<rparr>,
          Resource.Pos = sourcePosHCL sampleRange\<rparr>]\<rparr>"

section \<open>What each case does\<close>

lemma appendDiags_simps [simp]:
  "diags (appendDiags st ds) = diags st @ ds"
  "Mod (appendDiags st ds) = Mod st"
  "variables (appendDiags st ds) = variables st"
  "outputs (appendDiags st ds) = outputs st"
  "resources (appendDiags st ds) = resources st"
  by (simp_all add: appendDiags_def)

lemma setVariable_simps [simp]:
  "diags (setVariable v f st) = diags st"
  "Mod (setVariable v f st) = Mod st"
  "variables (setVariable v f st) = (variables st)[v := f (variables st ! v)]"
  "outputs (setVariable v f st) = outputs st"
  "resources (setVariable v f st) = resources st"
  by (simp_all add: setVariable_def)

lemma setOutput_simps [simp]:
  "diags (setOutput v f st) = diags st"
  "Mod (setOutput v f st) = Mod st"
  "variables (setOutput v f st) = variables st"
  "outputs (setOutput v f st) = (outputs st)[v := f (outputs st ! v)]"
  "resources (setOutput v f st) = resources st"
  by (simp_all add: setOutput_def)

lemma setResource_simps [simp]:
  "diags (setResource v f st) = diags st"
  "Mod (setResource v f st) = Mod st"
  "variables (setResource v f st) = variables st"
  "outputs (setResource v f st) = outputs st"
  "resources (setResource v f st) = (resources st)[v := f (resources st ! v)]"
  by (simp_all add: setResource_def)

lemma appendRequiredProvider_simps [simp]:
  "diags (appendRequiredProvider st n x) = diags st"
  "variables (appendRequiredProvider st n x) = variables st"
  "outputs (appendRequiredProvider st n x) = outputs st"
  "resources (appendRequiredProvider st n x) = resources st"
  "Variables (Mod (appendRequiredProvider st n x)) = Variables (Mod st)"
  "Outputs (Mod (appendRequiredProvider st n x)) = Outputs (Mod st)"
  "RequiredCore (Mod (appendRequiredProvider st n x)) = RequiredCore (Mod st)"
  "ManagedResources (Mod (appendRequiredProvider st n x)) = ManagedResources (Mod st)"
  "DataResources (Mod (appendRequiredProvider st n x)) = DataResources (Mod st)"
  "Path (Mod (appendRequiredProvider st n x)) = Path (Mod st)"
  by (simp_all add: appendRequiredProvider_def)

lemma variableType_eq:
  "variableType v st content =
     (case Attributes content ''type'' of None \<Rightarrow> st
      | Some attr \<Rightarrow> setVariable v (\<lambda>x. x\<lparr>TypeHint := blockTypeHint content\<rparr>)
          (appendDiags st (typeDiags content)))"
  by (auto simp: variableType_def blockTypeHint_def typeDiags_def typeHintOf_def Let_def
        appendDiags_def setVariable_def split: option.splits prod.splits)

lemma variableType_fresh:
  assumes "variables st = xs @ [x]" "TypeHint x = ''''"
  shows "variableType (length xs) st content =
     st\<lparr>diags := diags st @ typeDiags content,
        variables := xs @ [x\<lparr>TypeHint := blockTypeHint content\<rparr>]\<rparr>"
  using assms
  by (cases "Attributes content ''type''")
     (auto simp: variableType_eq blockTypeHint_def typeDiags_def setVariable_def appendDiags_def)

lemma variableDescription_fresh:
  assumes "variables st = xs @ [x]" "Variable.Description x = ''''"
  shows "variableDescription (length xs) st content =
     st\<lparr>diags := diags st @ descriptionDiags content,
        variables := xs @ [x\<lparr>Variable.Description := blockDescription content\<rparr>]\<rparr>"
  using assms
  by (cases "Attributes content ''description''")
     (auto simp: variableDescription_def blockDescription_def descriptionDiags_def
        setVariable_def appendDiags_def split: prod.splits)

lemma variableDefault_fresh:
  assumes "variables st = xs @ [x]" "Default x = None"
      and "variableDefault env (length xs) st content = Inr st'"
  shows "st' = st\<lparr>diags := diags st @ defaultDiags content,
        variables := xs @ [x\<lparr>Default := blockDefault env content\<rparr>]\<rparr>"
  using assms
  by (cases "Attributes content ''default''")
     (auto simp: variableDefault_def blockDefault_def defaultDiags_def Let_def
        setVariable_def appendDiags_def split: prod.splits sum.splits if_splits)

lemma case_variable_Inr:
  assumes "case_variable env st block = Inr st'"
  shows "\<exists>name rest. Labels block = name # rest \<and>
     st' = st\<lparr>Mod := (Mod st)\<lparr>Variables := (Variables (Mod st))(name \<mapsto> length (variables st))\<rparr>,
             diags := diags st @ variableDiags block,
             variables := variables st @ [blockVariable env block]\<rparr>"
proof -
  obtain content contentDiags where pc:
    "PartialContent (Block.Body block) variableSchema = (content, contentDiags)"
    by (cases "PartialContent (Block.Body block) variableSchema")
  from assms pc obtain name rest where lab: "Labels block = name # rest"
    by (cases "Labels block") (auto simp: case_variable_def)
  define m where "m = (Mod st)\<lparr>Variables := (Variables (Mod st))(name \<mapsto> length (variables st))\<rparr>"
  define x0 :: "'a Variable" where
    "x0 = \<lparr>Variable.Name = name, TypeHint = '''', Variable.Description = '''',
            Default = None, Variable.Pos = sourcePosHCL (DefRange block)\<rparr>"
  define s1 where "s1 = st\<lparr>diags := diags st @ contentDiags,
                            variables := variables st @ [x0], Mod := m\<rparr>"
  define s2 where "s2 = variableType (length (variables st)) s1 content"
  define s3 where "s3 = variableDescription (length (variables st)) s2 content"
  have run: "variableDefault env (length (variables st)) s3 content = Inr st'"
    using assms pc lab
    by (simp add: case_variable_def Let_def appendDiags_def s3_def s2_def s1_def m_def x0_def)
  have s2: "s2 = s1\<lparr>diags := diags s1 @ typeDiags content,
        variables := variables st @ [x0\<lparr>TypeHint := blockTypeHint content\<rparr>]\<rparr>"
    unfolding s2_def by (rule variableType_fresh) (simp_all add: s1_def x0_def)
  have s3: "s3 = s2\<lparr>diags := diags s2 @ descriptionDiags content,
        variables := variables st @ [x0\<lparr>TypeHint := blockTypeHint content,
           Variable.Description := blockDescription content\<rparr>]\<rparr>"
    unfolding s3_def by (rule variableDescription_fresh) (simp_all add: s2 x0_def)
  have "st' = s3\<lparr>diags := diags s3 @ defaultDiags content,
        variables := variables st @ [x0\<lparr>TypeHint := blockTypeHint content,
           Variable.Description := blockDescription content,
           Default := blockDefault env content\<rparr>]\<rparr>"
    by (rule variableDefault_fresh [OF _ _ run]) (simp_all add: s3 x0_def)
  then have "st' = st\<lparr>Mod := (Mod st)\<lparr>Variables := (Variables (Mod st))(name \<mapsto> length (variables st))\<rparr>,
             diags := diags st @ variableDiags block,
             variables := variables st @ [blockVariable env block]\<rparr>"
    by (simp add: s3 s2 s1_def m_def x0_def variableDiags_def blockVariable_def pc lab)
  with lab show ?thesis by blast
qed

lemma case_output_Inr:
  assumes "case_output st block = Inr st'"
  shows "\<exists>name rest. Labels block = name # rest \<and>
     st' = st\<lparr>Mod := (Mod st)\<lparr>Outputs := (Outputs (Mod st))(name \<mapsto> length (outputs st))\<rparr>,
             diags := diags st @ outputDiags block,
             outputs := outputs st @ [blockOutput block]\<rparr>"
proof -
  obtain content contentDiags where pc:
    "PartialContent (Block.Body block) outputSchema = (content, contentDiags)"
    by (cases "PartialContent (Block.Body block) outputSchema")
  from assms pc obtain name rest where lab: "Labels block = name # rest"
    by (cases "Labels block") (auto simp: case_output_def)
  have "st' = st\<lparr>Mod := (Mod st)\<lparr>Outputs := (Outputs (Mod st))(name \<mapsto> length (outputs st))\<rparr>,
             diags := diags st @ outputDiags block,
             outputs := outputs st @ [blockOutput block]\<rparr>"
    using assms pc lab
    by (cases "Attributes content ''description''")
       (auto simp: case_output_def outputDescription_def Let_def appendDiags_def setOutput_def
          outputDiags_def blockOutput_def blockDescription_def descriptionDiags_def
          split: prod.splits)
  with lab show ?thesis by blast
qed

lemma case_provider_Inr:
  assumes "case_provider st block = Inr st'"
  shows "\<exists>name rest. Labels block = name # rest \<and>
     st' = st\<lparr>Mod := (Mod st)\<lparr>RequiredProviders := (RequiredProviders (Mod st))
               (name \<mapsto> constraints (RequiredProviders (Mod st)) name @
                  providerVersions (fst (PartialContent (Block.Body block) providerConfigSchema)))\<rparr>,
             diags := diags st @ providerDiags block\<rparr>"
proof -
  obtain content contentDiags where pc:
    "PartialContent (Block.Body block) providerConfigSchema = (content, contentDiags)"
    by (cases "PartialContent (Block.Body block) providerConfigSchema")
  from assms pc obtain name rest where lab: "Labels block = name # rest"
    by (cases "Labels block") (auto simp: case_provider_def)
  have triv: "\<And>m vs. m name = Some vs \<Longrightarrow> m(name \<mapsto> vs) = (m :: string \<rightharpoonup> string list)"
    by (rule map_upd_triv)
  have "st' = st\<lparr>Mod := (Mod st)\<lparr>RequiredProviders := (RequiredProviders (Mod st))
               (name \<mapsto> constraints (RequiredProviders (Mod st)) name @ providerVersions content)\<rparr>,
             diags := diags st @ providerDiags block\<rparr>"
    using assms pc lab
    by (cases "Attributes content ''version''")
       (auto simp: case_provider_def providerVersion_def Let_def appendDiags_def
          appendRequiredProvider_def providerDiags_def providerVersions_def versionDiags_def
          constraints_def triv split: prod.splits if_splits option.splits)
  with lab pc show ?thesis by auto
qed

lemma requiredProvidersAttrs_eq:
  "\<exists>rp. requiredProvidersAttrs st attrs =
     st\<lparr>Mod := (Mod st)\<lparr>RequiredProviders := rp\<rparr>,
        diags := diags st @ concat (map (\<lambda>(name, attr). fst (DecodeExpression (Expr attr))) attrs)\<rparr>"
proof (induction attrs arbitrary: st)
  case Nil
  show ?case by (rule exI [of _ "RequiredProviders (Mod st)"]) simp
next
  case (Cons a attrs)
  obtain name attr where a: "a = (name, attr)" by (cases a)
  obtain valDiags version where d: "DecodeExpression (Expr attr) = (valDiags, version)"
    by (cases "DecodeExpression (Expr attr)")
  define s1 where "s1 = (if \<not> HasErrors valDiags
      then appendRequiredProvider (appendDiags st valDiags) name version
      else appendDiags st valDiags)"
  define rp1 where "rp1 = RequiredProviders (Mod s1)"
  define s1' where "s1' = st\<lparr>Mod := (Mod st)\<lparr>RequiredProviders := rp1\<rparr>,
                    diags := diags st @ valDiags\<rparr>"
  have s1: "s1 = s1'"
    by (simp add: rp1_def s1_def s1'_def appendRequiredProvider_def appendDiags_def)
  from Cons.IH [of s1'] obtain rp where
    "requiredProvidersAttrs s1' attrs =
       s1'\<lparr>Mod := (Mod s1')\<lparr>RequiredProviders := rp\<rparr>,
          diags := diags s1' @ concat (map (\<lambda>(name, attr). fst (DecodeExpression (Expr attr))) attrs)\<rparr>"
    by blast
  then have "requiredProvidersAttrs s1 attrs =
     st\<lparr>Mod := (Mod st)\<lparr>RequiredProviders := rp\<rparr>,
        diags := diags st @ concat (map (\<lambda>(name, attr). fst (DecodeExpression (Expr attr))) (a # attrs))\<rparr>"
    by (simp add: s1 s1'_def a d)
  then have "requiredProvidersAttrs st (a # attrs) =
     st\<lparr>Mod := (Mod st)\<lparr>RequiredProviders := rp\<rparr>,
        diags := diags st @ concat (map (\<lambda>(name, attr). fst (DecodeExpression (Expr attr))) (a # attrs))\<rparr>"
    by (simp add: a d Let_def s1_def [symmetric])
  then show ?case by blast
qed

lemma requiredProvidersBlocks_eq:
  "\<exists>rp. requiredProvidersBlocks st blocks =
     st\<lparr>Mod := (Mod st)\<lparr>RequiredProviders := rp\<rparr>,
        diags := diags st @ concat (map requiredProvidersDiags blocks)\<rparr>"
proof (induction blocks arbitrary: st)
  case Nil
  show ?case by (rule exI [of _ "RequiredProviders (Mod st)"]) simp
next
  case (Cons block blocks)
  obtain attrs attrDiags where j: "JustAttributes (Block.Body block) = (attrs, attrDiags)"
    by (cases "JustAttributes (Block.Body block)")
  obtain rp1 where s1: "requiredProvidersAttrs (appendDiags st attrDiags) attrs =
     st\<lparr>Mod := (Mod st)\<lparr>RequiredProviders := rp1\<rparr>,
        diags := diags st @ requiredProvidersDiags block\<rparr>"
    using requiredProvidersAttrs_eq [of "appendDiags st attrDiags" attrs]
    by (auto simp: requiredProvidersDiags_def j appendDiags_def)
  obtain rp where "requiredProvidersBlocks (st\<lparr>Mod := (Mod st)\<lparr>RequiredProviders := rp1\<rparr>,
        diags := diags st @ requiredProvidersDiags block\<rparr>) blocks =
     st\<lparr>Mod := (Mod st)\<lparr>RequiredProviders := rp\<rparr>,
        diags := diags st @ requiredProvidersDiags block @ concat (map requiredProvidersDiags blocks)\<rparr>"
    using Cons.IH [of "st\<lparr>Mod := (Mod st)\<lparr>RequiredProviders := rp1\<rparr>,
        diags := diags st @ requiredProvidersDiags block\<rparr>"]
    by auto
  then show ?case
    by (auto simp: j Let_def s1)
qed

lemma case_terraform_eq:
  "\<exists>rp. case_terraform st block =
     st\<lparr>Mod := (Mod st)\<lparr>RequiredCore := RequiredCore (Mod st) @
                  requiredVersions (fst (PartialContent (Block.Body block) terraformBlockSchema)),
               RequiredProviders := rp\<rparr>,
        diags := diags st @ terraformDiags block\<rparr>"
proof -
  obtain content contentDiags where pc:
    "PartialContent (Block.Body block) terraformBlockSchema = (content, contentDiags)"
    by (cases "PartialContent (Block.Body block) terraformBlockSchema")
  define s1 where "s1 = requiredVersion (appendDiags st contentDiags) content"
  have s1: "s1 = st\<lparr>Mod := (Mod st)\<lparr>RequiredCore := RequiredCore (Mod st) @ requiredVersions content\<rparr>,
                   diags := diags st @ contentDiags @ requiredVersionDiags content\<rparr>"
    by (cases "Attributes content ''required_version''")
       (auto simp: s1_def requiredVersion_def requiredVersions_def requiredVersionDiags_def
          appendDiags_def Let_def split: prod.splits)
  obtain rp where "requiredProvidersBlocks s1 (Blocks content) =
     s1\<lparr>Mod := (Mod s1)\<lparr>RequiredProviders := rp\<rparr>,
        diags := diags s1 @ concat (map requiredProvidersDiags (Blocks content))\<rparr>"
    using requiredProvidersBlocks_eq [of s1 "Blocks content"] by blast
  then have "case_terraform st block =
     st\<lparr>Mod := (Mod st)\<lparr>RequiredCore := RequiredCore (Mod st) @ requiredVersions content,
               RequiredProviders := rp\<rparr>,
        diags := diags st @ terraformDiags block\<rparr>"
    by (simp add: case_terraform_def pc Let_def s1_def [symmetric] terraformDiags_def)
       (simp add: s1)
  then show ?thesis by (auto simp: pc)
qed

lemma resourceProvider_fresh:
  assumes "resources st = xs @ [x]"
      and "Provider x = \<lparr>ProviderRef.Name = '''', Alias = ''''\<rparr>"
      and "resourceProvider env (length xs) st content = Inr st'"
  shows "st' = st\<lparr>diags := diags st @ providerAttrDiags env content,
        resources := xs @ [x\<lparr>Provider :=
          (case Attributes content ''provider'' of
             None \<Rightarrow> \<lparr>ProviderRef.Name = resourceTypeDefaultProviderName (Resource.Type x),
                      Alias = ''''\<rparr>
           | Some attr \<Rightarrow> providerRef (providerTraversal env (Expr attr)))\<rparr>]\<rparr>"
proof (cases "Attributes content ''provider''")
  case None
  with assms show ?thesis
    by (auto simp: resourceProvider_def providerAttrDiags_def setResource_def)
next
  case (Some attr)
  show ?thesis
  proof (cases "providerTraversal env (Expr attr)")
    case Nil
    with assms Some show ?thesis
      by (auto simp: resourceProvider_def providerAttrDiags_def appendDiags_def providerRef_def)
  next
    case (Cons t ts)
    with assms Some obtain name where t: "t = TraverseRoot name"
      by (cases t) (auto simp: resourceProvider_def)
    from assms Some Cons t show ?thesis
      by (cases ts)
         (auto simp: resourceProvider_def providerAttrDiags_def setResource_def providerRef_def
            Let_def split: Traverser.splits)
  qed
qed

lemma case_resource_Inr:
  assumes "case_resource env st block = Inr st'"
  shows "\<exists>typeName name rest. Labels block = typeName # name # rest \<and>
     st' =
       (if resourcesMap block (Mod st) (resourceKey env block) \<noteq> None
        then st\<lparr>diags := diags st @ snd (PartialContent (Block.Body block) resourceSchema) @
                    [duplicateResource (resourceKey env block) block],
                resources := resources st @ [newResource block]\<rparr>
        else st\<lparr>Mod := storeResource block (resourceKey env block) (length (resources st)) (Mod st),
                diags := diags st @ snd (PartialContent (Block.Body block) resourceSchema) @
                    providerAttrDiags env (fst (PartialContent (Block.Body block) resourceSchema)),
                resources := resources st @
                    [(newResource block)\<lparr>Provider := blockProvider env block\<rparr>]\<rparr>)"
proof -
  obtain content contentDiags where pc:
    "PartialContent (Block.Body block) resourceSchema = (content, contentDiags)"
    by (cases "PartialContent (Block.Body block) resourceSchema")
  from assms pc obtain typeName name rest where lab: "Labels block = typeName # name # rest"
    by (cases "Labels block"; cases "tl (Labels block)") (auto simp: case_resource_def)
  define key where "key = resourceKey env block"
  show ?thesis
  proof (cases "resourcesMap block (Mod st) key \<noteq> None")
    case True
    with assms have "st' = st\<lparr>diags := diags st @ contentDiags @ [duplicateResource key block],
                resources := resources st @ [newResource block]\<rparr>"
      by (auto simp: case_resource_def pc lab Let_def key_def resourceKey_def resourceMode_def
            newResource_def appendDiags_def resourcesMap_def split: if_splits)
    with True lab show ?thesis by (simp add: key_def pc)
  next
    case False
    define s1 where "s1 = st\<lparr>diags := diags st @ contentDiags,
        resources := resources st @ [newResource block],
        Mod := storeResource block key (length (resources st)) (Mod st)\<rparr>"
    from assms False have run: "resourceProvider env (length (resources st)) s1 content = Inr st'"
      by (auto simp: case_resource_def pc lab Let_def key_def resourceKey_def resourceMode_def
            newResource_def appendDiags_def resourcesMap_def s1_def storeResource_def
            split: if_splits)
    have "st' = s1\<lparr>diags := diags s1 @ providerAttrDiags env content,
        resources := resources st @ [(newResource block)\<lparr>Provider :=
          (case Attributes content ''provider'' of
             None \<Rightarrow> \<lparr>ProviderRef.Name =
                        resourceTypeDefaultProviderName (Resource.Type (newResource block)),
                      Alias = ''''\<rparr>
           | Some attr \<Rightarrow> providerRef (providerTraversal env (Expr attr)))\<rparr>]\<rparr>"
      by (rule resourceProvider_fresh [OF _ _ run]) (simp_all add: s1_def newResource_def)
    then have "st' = st\<lparr>Mod := storeResource block key (length (resources st)) (Mod st),
                diags := diags st @ contentDiags @ providerAttrDiags env content,
                resources := resources st @
                    [(newResource block)\<lparr>Provider := blockProvider env block\<rparr>]\<rparr>"
      by (simp add: s1_def blockProvider_def pc newResource_def split: option.splits)
    with False lab show ?thesis by (simp add: key_def pc)
  qed
qed

lemma loadBlock_variable:
  "Block.Type block = ''variable'' \<Longrightarrow> loadBlock env st block = case_variable env st block"
  by (simp add: loadBlock_def)

lemma loadBlock_output:
  "Block.Type block = ''output'' \<Longrightarrow> loadBlock env st block = case_output st block"
  by (simp add: loadBlock_def)

lemma loadBlock_provider:
  "Block.Type block = ''provider'' \<Longrightarrow> loadBlock env st block = case_provider st block"
  by (simp add: loadBlock_def)

lemma loadBlock_terraform:
  "Block.Type block = ''terraform'' \<Longrightarrow> loadBlock env st block = Inr (case_terraform st block)"
  by (simp add: loadBlock_def)

lemma loadBlock_resource:
  "Block.Type block = ''resource'' \<or> Block.Type block = ''data'' \<Longrightarrow>
   loadBlock env st block = case_resource env st block"
  by (auto simp: loadBlock_def)

lemma resourcesMap_resourcesOf:
  "resourcesMap block m = resourcesOf (resourceMode block) m"
  by (simp add: resourcesMap_def resourcesOf_def resourceMode_def)

lemma variableDefault_unknown:
  assumes "Attributes content ''default'' = Some attr"
      and "Value (Expr attr) = (val, valDiags)"
      and "\<not> IsWhollyKnown val"
  shows "variableDefault env v st content = Inr (appendDiags st valDiags)"
  using assms by (simp add: variableDefault_def)

lemma providerTraversal_bare:
  "\<not> HasErrors (snd (AbsTraversalForExpr expr)) \<Longrightarrow>
   providerTraversal env expr = fst (AbsTraversalForExpr expr)"
  by (simp add: providerTraversal_def case_prod_beta)

lemma providerTraversal_quoted:
  "HasErrors (snd (AbsTraversalForExpr expr)) \<Longrightarrow>
   \<not> HasErrors (fst (DecodeExpression expr)) \<Longrightarrow>
   \<not> HasErrors (snd (ParseTraversalAbs env (snd (DecodeExpression expr)))) \<Longrightarrow>
   providerTraversal env expr = fst (ParseTraversalAbs env (snd (DecodeExpression expr)))"
  by (simp add: providerTraversal_def case_prod_beta)

lemma providerTraversal_failed:
  "HasErrors (snd (AbsTraversalForExpr expr)) \<Longrightarrow>
   HasErrors (fst (DecodeExpression expr)) \<or>
   HasErrors (snd (ParseTraversalAbs env (snd (DecodeExpression expr)))) \<Longrightarrow>
   providerTraversal env expr = []"
  by (auto simp: providerTraversal_def case_prod_beta)

lemma providerRef_root:
  "providerRef (TraverseRoot name # rest) = \<lparr>ProviderRef.Name = name, Alias = aliasOf rest\<rparr>"
  by (simp add: providerRef_def aliasOf_def split: list.splits Traverser.splits)

lemma providerRef_nil: "providerRef [] = \<lparr>ProviderRef.Name = '''', Alias = ''''\<rparr>"
  by (simp add: providerRef_def)

lemma new_resource_stored:
  assumes ty: "Block.Type block = ''resource'' \<or> Block.Type block = ''data''"
      and lab: "Labels block = typeName # name # rest"
      and pc: "PartialContent (Block.Body block) resourceSchema = (content, contentDiags)"
      and new: "resourcesMap block (Mod st) (resourceKey env block) = None"
      and ok: "\<And>attr. Attributes content ''provider'' = Some attr \<Longrightarrow>
                 providerTraversal env (Expr attr) = [] \<or>
                 (\<exists>n ts. providerTraversal env (Expr attr) = TraverseRoot n # ts)"
  shows "resourceStored env st block (blockProvider env block)
           (contentDiags @ providerAttrDiags env content)"
proof -
  have key: "MapKey env (if Block.Type block = ''resource'' then ManagedResourceMode
                         else DataResourceMode) typeName name = resourceKey env block"
    by (simp add: resourceKey_def resourceMode_def lab)
  have "\<exists>st'. resourceProvider env r s content = Inr st'" for r and s :: "'a state"
  proof (cases "Attributes content ''provider''")
    case None
    then show ?thesis by (simp add: resourceProvider_def)
  next
    case (Some attr)
    from ok [OF Some] show ?thesis
      by (auto simp: resourceProvider_def Some Let_def)
  qed
  then have "\<exists>st'. case_resource env st block = Inr st'"
    using new
    by (cases "Block.Type block = ''resource''")
       (simp_all add: case_resource_def pc lab Let_def resourcesMap_def resourceKey_def
          resourceMode_def)
  then obtain st' where run: "case_resource env st block = Inr st'" ..
  from case_resource_Inr [OF run] new
  have st': "st' = st\<lparr>Mod := storeResource block (resourceKey env block) (length (resources st)) (Mod st),
                diags := diags st @ contentDiags @ providerAttrDiags env content,
                resources := resources st @
                    [(newResource block)\<lparr>Provider := blockProvider env block\<rparr>]\<rparr>"
    by (auto simp: pc)
  have "lookupResource (resourceMode block) st' (resourceKey env block) =
          Some ((newResource block)\<lparr>Provider := blockProvider env block\<rparr>)"
    by (simp add: st' lookupResource_def resourcesOf_def resourceMode_def storeResource_def)
  with run ty show ?thesis
    by (simp add: resourceStored_def loadBlock_resource st' newResource_def)
qed

lemma resourceTypeDefaultProviderName_whole:
  "CHR ''_'' \<notin> set typeName \<Longrightarrow> resourceTypeDefaultProviderName typeName = typeName"
  by (auto simp: resourceTypeDefaultProviderName_def takeWhile_eq_all_conv)

lemma resourceTypeDefaultProviderName_prefix:
  "CHR ''_'' \<notin> set pre \<Longrightarrow>
   resourceTypeDefaultProviderName (pre @ CHR ''_'' # post) = pre"
  by (induction pre) (auto simp: resourceTypeDefaultProviderName_def)

lemmas sample_defs =
  sampleRange_def sampleError_def quoted_def reference_def sampleAttrs_def sampleContent_def
  sampleBody_def sampleBlock_def sampleKey_def sampleEnv_def sampleState_def newModule_def
  sampleTerraform_def sampleTerraformUndecodable_def sampleVariableFirst_def
  sampleVariableLast_def sampleVariableY_def sampleOutput_def sampleProvider_def
  sampleResource_def sampleDuplicate_def sampleData_def sampleBlocks_def

lemmas model_defs =
  loadBlock_def case_variable_def variableType_def variableDescription_def
  variableDefault_def case_output_def outputDescription_def case_provider_def
  providerVersion_def case_resource_def resourceProvider_def providerTraversal_def
  case_terraform_def requiredVersion_def appendDiags_def appendRequiredProvider_def
  setVariable_def setOutput_def setResource_def Let_def

lemma loadBlock_Inr_cases [consumes 1, case_names Terraform Variable Output Provider
    Duplicate Resource Module]:
  assumes "loadBlock env st b = Inr st'"
  obtains
    rp where "Block.Type b = ''terraform''"
      "st' = st\<lparr>Mod := (Mod st)\<lparr>RequiredCore := RequiredCore (Mod st) @
                    requiredVersions (fst (PartialContent (Block.Body b) terraformBlockSchema)),
                 RequiredProviders := rp\<rparr>,
               diags := diags st @ terraformDiags b\<rparr>"
  | name rest where "Block.Type b = ''variable''" "Labels b = name # rest"
      "st' = st\<lparr>Mod := (Mod st)\<lparr>Variables := (Variables (Mod st))(name \<mapsto> length (variables st))\<rparr>,
               diags := diags st @ variableDiags b,
               variables := variables st @ [blockVariable env b]\<rparr>"
  | name rest where "Block.Type b = ''output''" "Labels b = name # rest"
      "st' = st\<lparr>Mod := (Mod st)\<lparr>Outputs := (Outputs (Mod st))(name \<mapsto> length (outputs st))\<rparr>,
               diags := diags st @ outputDiags b,
               outputs := outputs st @ [blockOutput b]\<rparr>"
  | name rest where "Block.Type b = ''provider''" "Labels b = name # rest"
      "st' = st\<lparr>Mod := (Mod st)\<lparr>RequiredProviders := (RequiredProviders (Mod st))
                 (name \<mapsto> constraints (RequiredProviders (Mod st)) name @
                    providerVersions (fst (PartialContent (Block.Body b) providerConfigSchema)))\<rparr>,
               diags := diags st @ providerDiags b\<rparr>"
  | typeName name rest where "Block.Type b = ''resource'' \<or> Block.Type b = ''data''"
      "Labels b = typeName # name # rest"
      "resourcesMap b (Mod st) (resourceKey env b) \<noteq> None"
      "st' = st\<lparr>diags := diags st @ snd (PartialContent (Block.Body b) resourceSchema) @
                    [duplicateResource (resourceKey env b) b],
               resources := resources st @ [newResource b]\<rparr>"
  | typeName name rest where "Block.Type b = ''resource'' \<or> Block.Type b = ''data''"
      "Labels b = typeName # name # rest"
      "resourcesMap b (Mod st) (resourceKey env b) = None"
      "st' = st\<lparr>Mod := storeResource b (resourceKey env b) (length (resources st)) (Mod st),
               diags := diags st @ snd (PartialContent (Block.Body b) resourceSchema) @
                    providerAttrDiags env (fst (PartialContent (Block.Body b) resourceSchema)),
               resources := resources st @ [(newResource b)\<lparr>Provider := blockProvider env b\<rparr>]\<rparr>"
  | "Block.Type b = ''module''" "st' = st"
proof -
  consider "Block.Type b = ''terraform''" | "Block.Type b = ''variable''"
    | "Block.Type b = ''output''" | "Block.Type b = ''provider''"
    | "Block.Type b = ''resource'' \<or> Block.Type b = ''data''" | "Block.Type b = ''module''"
    using assms by (auto simp: loadBlock_def split: if_splits)
  then show thesis
  proof cases
    case 1
    with assms have "st' = case_terraform st b" by (simp add: loadBlock_terraform)
    with case_terraform_eq [of st b] obtain rp where
      "st' = st\<lparr>Mod := (Mod st)\<lparr>RequiredCore := RequiredCore (Mod st) @
                    requiredVersions (fst (PartialContent (Block.Body b) terraformBlockSchema)),
                 RequiredProviders := rp\<rparr>,
               diags := diags st @ terraformDiags b\<rparr>"
      by auto
    with 1 show ?thesis by (rule that(1))
  next
    case 2
    with assms have "case_variable env st b = Inr st'" by (simp add: loadBlock_variable)
    from case_variable_Inr [OF this] obtain name rest where
      "Labels b = name # rest"
      "st' = st\<lparr>Mod := (Mod st)\<lparr>Variables := (Variables (Mod st))(name \<mapsto> length (variables st))\<rparr>,
               diags := diags st @ variableDiags b,
               variables := variables st @ [blockVariable env b]\<rparr>"
      by blast
    with 2 show ?thesis by (rule that(2))
  next
    case 3
    with assms have "case_output st b = Inr st'" by (simp add: loadBlock_output)
    from case_output_Inr [OF this] obtain name rest where
      "Labels b = name # rest"
      "st' = st\<lparr>Mod := (Mod st)\<lparr>Outputs := (Outputs (Mod st))(name \<mapsto> length (outputs st))\<rparr>,
               diags := diags st @ outputDiags b,
               outputs := outputs st @ [blockOutput b]\<rparr>"
      by blast
    with 3 show ?thesis by (rule that(3))
  next
    case 4
    with assms have "case_provider st b = Inr st'" by (simp add: loadBlock_provider)
    from case_provider_Inr [OF this] obtain name rest where
      "Labels b = name # rest"
      "st' = st\<lparr>Mod := (Mod st)\<lparr>RequiredProviders := (RequiredProviders (Mod st))
                 (name \<mapsto> constraints (RequiredProviders (Mod st)) name @
                    providerVersions (fst (PartialContent (Block.Body b) providerConfigSchema)))\<rparr>,
               diags := diags st @ providerDiags b\<rparr>"
      by blast
    with 4 show ?thesis by (rule that(4))
  next
    case 5
    with assms have "case_resource env st b = Inr st'" by (simp add: loadBlock_resource)
    from case_resource_Inr [OF this] obtain typeName name rest where
      lab: "Labels b = typeName # name # rest" and
      st': "st' =
       (if resourcesMap b (Mod st) (resourceKey env b) \<noteq> None
        then st\<lparr>diags := diags st @ snd (PartialContent (Block.Body b) resourceSchema) @
                    [duplicateResource (resourceKey env b) b],
                resources := resources st @ [newResource b]\<rparr>
        else st\<lparr>Mod := storeResource b (resourceKey env b) (length (resources st)) (Mod st),
                diags := diags st @ snd (PartialContent (Block.Body b) resourceSchema) @
                    providerAttrDiags env (fst (PartialContent (Block.Body b) resourceSchema)),
                resources := resources st @
                    [(newResource b)\<lparr>Provider := blockProvider env b\<rparr>]\<rparr>)"
      by blast
    show ?thesis
    proof (cases "resourcesMap b (Mod st) (resourceKey env b) = None")
      case True
      with st' have "st' = st\<lparr>Mod := storeResource b (resourceKey env b) (length (resources st)) (Mod st),
                diags := diags st @ snd (PartialContent (Block.Body b) resourceSchema) @
                    providerAttrDiags env (fst (PartialContent (Block.Body b) resourceSchema)),
                resources := resources st @
                    [(newResource b)\<lparr>Provider := blockProvider env b\<rparr>]\<rparr>"
        by simp
      with 5 lab True show ?thesis by (rule that(6))
    next
      case False
      with st' have "st' = st\<lparr>diags := diags st @ snd (PartialContent (Block.Body b) resourceSchema) @
                    [duplicateResource (resourceKey env b) b],
                resources := resources st @ [newResource b]\<rparr>"
        by simp
      with 5 lab False show ?thesis by (rule that(5))
    qed
  next
    case 6
    with assms have "st' = st" by (simp add: loadBlock_def)
    with 6 show ?thesis by (rule that(7))
  qed
qed

lemma loadBlocks_run: "loadBlocks env st blocks = Inr st' \<Longrightarrow> run env st blocks st'"
proof (induction blocks arbitrary: st)
  case Nil
  then show ?case by (simp add: run_done)
next
  case (Cons block blocks)
  then show ?case
    by (auto split: sum.splits intro: run_block)
qed

lemma run_append:
  "run env st blocks st1 \<Longrightarrow> run env st1 blocks' st2 \<Longrightarrow> run env st (blocks @ blocks') st2"
proof (induction rule: run.induct)
  case (run_done st)
  then show ?case by simp
next
  case (run_diags st ds blocks st')
  then show ?case by (simp add: run.run_diags)
next
  case (run_block st block st1 blocks st')
  then show ?case by (simp add: run.run_block)
qed

lemma loadFile_run:
  assumes "loadFile env st filename = Inr st'"
  shows "run env st (fileBlocks env filename) st'"
proof -
  obtain parsed fileDiags where p: "parseFile env filename = (parsed, fileDiags)"
    by (cases "parseFile env filename")
  show ?thesis
  proof (cases parsed)
    case None
    with assms p have "st' = appendDiags st fileDiags"
      by (simp add: loadFile_def)
    moreover have "run env st [] (appendDiags st fileDiags)"
      by (rule run_diags) (rule run_done)
    ultimately show ?thesis
      using None p by (simp add: fileBlocks_def)
  next
    case (Some f)
    obtain content contentDiags where
      c: "PartialContent (File.Body f) rootSchema = (content, contentDiags)"
      by (cases "PartialContent (File.Body f) rootSchema")
    from assms p Some c
    have "loadBlocks env (appendDiags (appendDiags st fileDiags) contentDiags) (Blocks content) = Inr st'"
      by (simp add: loadFile_def)
    then have "run env (appendDiags (appendDiags st fileDiags) contentDiags) (Blocks content) st'"
      by (rule loadBlocks_run)
    then have "run env st (Blocks content) st'"
      by (rule run_diags [OF run_diags])
    with p Some c show ?thesis
      by (simp add: fileBlocks_def)
  qed
qed

lemma loadFiles_run:
  "loadFiles env st filenames = Inr st' \<Longrightarrow>
   run env st (concat (map (fileBlocks env) filenames)) st'"
proof (induction filenames arbitrary: st)
  case Nil
  then show ?case by (simp add: run_done)
next
  case (Cons filename filenames)
  then obtain st1 where "loadFile env st filename = Inr st1"
    and "loadFiles env st1 filenames = Inr st'"
    by (auto split: sum.splits)
  then have "run env st (fileBlocks env filename) st1"
    and "run env st1 (concat (map (fileBlocks env) filenames)) st'"
    by (simp_all add: loadFile_run Cons.IH)
  then have "run env st (fileBlocks env filename @ concat (map (fileBlocks env) filenames)) st'"
    by (rule run_append)
  then show ?case by simp
qed

lemma loadModule_run:
  assumes "loadModule env dir = Inr (st, ds)"
  shows "\<exists>ds0. run env \<lparr>Mod = newModule dir, diags = ds0, variables = [], outputs = [],
                          resources = []\<rparr> (allBlocks env dir) st"
proof -
  obtain primaryPaths overridePaths ds0 where
    d: "dirFiles env dir = (primaryPaths, overridePaths, ds0)"
    by (cases "dirFiles env dir") auto
  define ds1 where "ds1 = (if length primaryPaths = 0 \<and> length overridePaths = 0
                            then ds0 @ [noConfigurationFiles dir] else ds0)"
  from assms d have "loadFiles env \<lparr>Mod = newModule dir, diags = ds1, variables = [],
      outputs = [], resources = []\<rparr> primaryPaths = Inr st"
    by (auto simp: loadModule_def ds1_def split: sum.splits if_splits)
  then have "run env \<lparr>Mod = newModule dir, diags = ds1, variables = [],
      outputs = [], resources = []\<rparr> (allBlocks env dir) st"
    using d by (simp add: allBlocks_def loadFiles_run)
  then show ?thesis ..
qed

lemma storeResource_simps [simp]:
  "RequiredCore (storeResource b key r m) = RequiredCore m"
  "RequiredProviders (storeResource b key r m) = RequiredProviders m"
  "Variables (storeResource b key r m) = Variables m"
  "Outputs (storeResource b key r m) = Outputs m"
  "Path (storeResource b key r m) = Path m"
  by (simp_all add: storeResource_def)

lemma loadBlock_RequiredCore:
  assumes "loadBlock env st b = Inr st'"
  shows "RequiredCore (Mod st') = RequiredCore (Mod st) @ blockRequiredCore b"
  by (rule loadBlock_Inr_cases [OF assms]) (auto simp: blockRequiredCore_def)

lemma run_RequiredCore:
  "run env st bs st' \<Longrightarrow>
   RequiredCore (Mod st') = RequiredCore (Mod st) @ concat (map blockRequiredCore bs)"
  by (induction rule: run.induct) (simp_all add: loadBlock_RequiredCore)

lemma blockRequiredCore_attrs:
  "blockRequiredCore b =
     map (\<lambda>attr. snd (DecodeExpression (Expr attr)))
       (filter (\<lambda>attr. \<not> HasErrors (fst (DecodeExpression (Expr attr)))) (requiredVersionAttr b))"
proof (cases "Block.Type b = ''terraform''")
  case True
  then show ?thesis
    by (cases "Attributes (fst (PartialContent (Block.Body b) terraformBlockSchema))
                 ''required_version''")
       (simp_all add: blockRequiredCore_def requiredVersionAttr_def requiredVersions_def)
next
  case False
  then show ?thesis by (simp add: blockRequiredCore_def requiredVersionAttr_def)
qed

lemma concat_blockRequiredCore:
  "concat (map blockRequiredCore bs) =
     map (\<lambda>attr. snd (DecodeExpression (Expr attr)))
       (filter (\<lambda>attr. \<not> HasErrors (fst (DecodeExpression (Expr attr))))
          (concat (map requiredVersionAttr bs)))"
  by (induction bs) (simp_all add: blockRequiredCore_attrs)

lemma loadBlock_variables:
  assumes "loadBlock env st b = Inr st'"
  shows "if Block.Type b = ''variable''
         then \<exists>name rest. Labels b = name # rest \<and>
                Variables (Mod st') = (Variables (Mod st))(name \<mapsto> length (variables st)) \<and>
                variables st' = variables st @ [blockVariable env b]
         else Variables (Mod st') = Variables (Mod st) \<and> variables st' = variables st"
  by (rule loadBlock_Inr_cases [OF assms]) auto

lemma loadBlock_outputs:
  assumes "loadBlock env st b = Inr st'"
  shows "if Block.Type b = ''output''
         then \<exists>name rest. Labels b = name # rest \<and>
                Outputs (Mod st') = (Outputs (Mod st))(name \<mapsto> length (outputs st)) \<and>
                outputs st' = outputs st @ [blockOutput b]
         else Outputs (Mod st') = Outputs (Mod st) \<and> outputs st' = outputs st"
  by (rule loadBlock_Inr_cases [OF assms]) auto

lemma loadBlock_validVariables:
  assumes "loadBlock env st b = Inr st'" and "validVariables st"
  shows "validVariables st'"
  using loadBlock_variables [OF assms(1)] assms(2)
  by (auto simp: validVariables_def less_Suc_eq split: if_splits)

lemma loadBlock_validOutputs:
  assumes "loadBlock env st b = Inr st'" and "validOutputs st"
  shows "validOutputs st'"
  using loadBlock_outputs [OF assms(1)] assms(2)
  by (auto simp: validOutputs_def less_Suc_eq split: if_splits)

lemma run_variables_grow: "run env st bs st' \<Longrightarrow> \<exists>xs. variables st' = variables st @ xs"
proof (induction rule: run.induct)
  case (run_block st block st1 blocks st')
  from loadBlock_variables [OF run_block.hyps(1)]
  obtain ys where "variables st1 = variables st @ ys"
    by (auto split: if_splits)
  with run_block.IH show ?case by auto
qed simp_all

lemma run_outputs_grow: "run env st bs st' \<Longrightarrow> \<exists>xs. outputs st' = outputs st @ xs"
proof (induction rule: run.induct)
  case (run_block st block st1 blocks st')
  from loadBlock_outputs [OF run_block.hyps(1)]
  obtain ys where "outputs st1 = outputs st @ ys"
    by (auto split: if_splits)
  with run_block.IH show ?case by auto
qed simp_all

lemma run_last_variable:
  "run env st bs st' \<Longrightarrow> validVariables st \<Longrightarrow>
   (case lastDeclaration ''variable'' name bs of
      None \<Rightarrow> Variables (Mod st') name = Variables (Mod st) name
    | Some b \<Rightarrow> lookupVariable st' name = Some (blockVariable env b))"
proof (induction rule: run.induct)
  case (run_done st)
  then show ?case by simp
next
  case (run_diags st ds blocks st')
  then show ?case by (simp add: validVariables_def cong: option.case_cong)
next
  case (run_block st block st1 blocks st')
  have valid1: "validVariables st1"
    using run_block.hyps(1) run_block.prems by (rule loadBlock_validVariables)
  note IH = run_block.IH [OF valid1]
  show ?case
  proof (cases "lastDeclaration ''variable'' name blocks")
    case (Some later)
    with IH show ?thesis by simp
  next
    case None
    with IH have same: "Variables (Mod st') name = Variables (Mod st1) name" by simp
    show ?thesis
    proof (cases "declares ''variable'' name block")
      case True
      then have ty: "Block.Type block = ''variable''"
        and lab: "\<exists>rest. Labels block = name # rest"
        by (auto simp: declares_def split: list.splits)
      from loadBlock_variables [OF run_block.hyps(1)] ty lab
      have v1: "Variables (Mod st1) name = Some (length (variables st))"
        and h1: "variables st1 = variables st @ [blockVariable env block]"
        by auto
      from run_variables_grow [OF run_block.hyps(2)] h1
      obtain xs where "variables st' = variables st @ blockVariable env block # xs"
        by auto
      with same v1 have "lookupVariable st' name = Some (blockVariable env block)"
        by (simp add: lookupVariable_def)
      with None True show ?thesis by simp
    next
      case False
      from loadBlock_variables [OF run_block.hyps(1)] False
      have "Variables (Mod st1) name = Variables (Mod st) name"
        by (auto simp: declares_def split: if_splits)
      with same None False show ?thesis by simp
    qed
  qed
qed

lemma run_last_output:
  "run env st bs st' \<Longrightarrow> validOutputs st \<Longrightarrow>
   (case lastDeclaration ''output'' name bs of
      None \<Rightarrow> Outputs (Mod st') name = Outputs (Mod st) name
    | Some b \<Rightarrow> lookupOutput st' name = Some (blockOutput b))"
proof (induction rule: run.induct)
  case (run_done st)
  then show ?case by simp
next
  case (run_diags st ds blocks st')
  then show ?case by (simp add: validOutputs_def cong: option.case_cong)
next
  case (run_block st block st1 blocks st')
  have valid1: "validOutputs st1"
    using run_block.hyps(1) run_block.prems by (rule loadBlock_validOutputs)
  note IH = run_block.IH [OF valid1]
  show ?case
  proof (cases "lastDeclaration ''output'' name blocks")
    case (Some later)
    with IH show ?thesis by simp
  next
    case None
    with IH have same: "Outputs (Mod st') name = Outputs (Mod st1) name" by simp
    show ?thesis
    proof (cases "declares ''output'' name block")
      case True
      then have ty: "Block.Type block = ''output''"
        and lab: "\<exists>rest. Labels block = name # rest"
        by (auto simp: declares_def split: list.splits)
      from loadBlock_outputs [OF run_block.hyps(1)] ty lab
      have v1: "Outputs (Mod st1) name = Some (length (outputs st))"
        and h1: "outputs st1 = outputs st @ [blockOutput block]"
        by auto
      from run_outputs_grow [OF run_block.hyps(2)] h1
      obtain xs where "outputs st' = outputs st @ blockOutput block # xs"
        by auto
      with same v1 have "lookupOutput st' name = Some (blockOutput block)"
        by (simp add: lookupOutput_def)
      with None True show ?thesis by simp
    next
      case False
      from loadBlock_outputs [OF run_block.hyps(1)] False
      have "Outputs (Mod st1) name = Outputs (Mod st) name"
        by (auto simp: declares_def split: if_splits)
      with same None False show ?thesis by simp
    qed
  qed
qed

lemma loadBlock_variable_diags:
  assumes "Block.Type b = ''variable''" and "loadBlock env st b = Inr st'"
  shows "diags st' = diags st @ variableDiags b"
  by (rule loadBlock_Inr_cases [OF assms(2)]) (use assms(1) in auto)

lemma loadBlock_output_diags:
  assumes "Block.Type b = ''output''" and "loadBlock env st b = Inr st'"
  shows "diags st' = diags st @ outputDiags b"
  by (rule loadBlock_Inr_cases [OF assms(2)]) (use assms(1) in auto)

lemma resourcesOf_storeResource:
  "resourcesOf mode (storeResource b key r m) =
     (if mode = resourceMode b then (resourcesOf mode m)(key \<mapsto> r) else resourcesOf mode m)"
  by (cases mode) (auto simp: resourcesOf_def storeResource_def resourceMode_def)

lemma resourcesOf_other [simp]:
  "resourcesOf mode (m\<lparr>Variables := vs\<rparr>) = resourcesOf mode m"
  "resourcesOf mode (m\<lparr>Outputs := os\<rparr>) = resourcesOf mode m"
  "resourcesOf mode (m\<lparr>RequiredCore := rc\<rparr>) = resourcesOf mode m"
  "resourcesOf mode (m\<lparr>RequiredProviders := rp\<rparr>) = resourcesOf mode m"
  by (simp_all add: resourcesOf_def split: ResourceMode.splits)

lemma newResource_simps [simp]:
  "Mode (newResource b) = resourceMode b"
  "Resource.Type (newResource b) = hd (Labels b)"
  "Resource.Name (newResource b) = hd (tl (Labels b))"
  by (simp_all add: newResource_def)

lemma resourcesKeyed_frame:
  assumes "resourcesKeyed env st"
      and "\<And>mode. resourcesOf mode (Mod st') = resourcesOf mode (Mod st)"
      and "resources st' = resources st @ xs"
  shows "resourcesKeyed env st'"
  unfolding resourcesKeyed_def
proof (intro allI impI)
  fix mode key r
  assume "resourcesOf mode (Mod st') key = Some r"
  with assms(2) have "resourcesOf mode (Mod st) key = Some r" by simp
  with assms(1) have "r < length (resources st) \<and> Mode (resources st ! r) = mode \<and>
      MapKey env mode (Resource.Type (resources st ! r)) (Resource.Name (resources st ! r)) = key"
    unfolding resourcesKeyed_def by blast
  then show "r < length (resources st') \<and> Mode (resources st' ! r) = mode \<and>
      MapKey env mode (Resource.Type (resources st' ! r)) (Resource.Name (resources st' ! r)) = key"
    by (simp add: assms(3) nth_append)
qed

lemma resourcesKeyed_same:
  assumes "resourcesKeyed env st"
      and "\<And>mode. resourcesOf mode (Mod st') = resourcesOf mode (Mod st)"
      and "resources st' = resources st"
  shows "resourcesKeyed env st'"
  using assms by (simp add: resourcesKeyed_def)

lemma loadBlock_resourcesKeyed:
  assumes "loadBlock env st b = Inr st'" and inv: "resourcesKeyed env st"
  shows "resourcesKeyed env st'"
proof (rule loadBlock_Inr_cases [OF assms(1)])
  fix rp
  assume "st' = st\<lparr>Mod := (Mod st)\<lparr>RequiredCore := RequiredCore (Mod st) @
                    requiredVersions (fst (PartialContent (Block.Body b) terraformBlockSchema)),
                 RequiredProviders := rp\<rparr>,
               diags := diags st @ terraformDiags b\<rparr>"
  then show ?thesis by (intro resourcesKeyed_same [OF inv]) simp_all
next
  fix name rest
  assume "st' = st\<lparr>Mod := (Mod st)\<lparr>Variables := (Variables (Mod st))(name \<mapsto> length (variables st))\<rparr>,
               diags := diags st @ variableDiags b,
               variables := variables st @ [blockVariable env b]\<rparr>"
  then show ?thesis by (intro resourcesKeyed_same [OF inv]) simp_all
next
  fix name rest
  assume "st' = st\<lparr>Mod := (Mod st)\<lparr>Outputs := (Outputs (Mod st))(name \<mapsto> length (outputs st))\<rparr>,
               diags := diags st @ outputDiags b,
               outputs := outputs st @ [blockOutput b]\<rparr>"
  then show ?thesis by (intro resourcesKeyed_same [OF inv]) simp_all
next
  fix name rest
  assume "st' = st\<lparr>Mod := (Mod st)\<lparr>RequiredProviders := (RequiredProviders (Mod st))
                 (name \<mapsto> constraints (RequiredProviders (Mod st)) name @
                    providerVersions (fst (PartialContent (Block.Body b) providerConfigSchema)))\<rparr>,
               diags := diags st @ providerDiags b\<rparr>"
  then show ?thesis by (intro resourcesKeyed_same [OF inv]) simp_all
next
  fix typeName name rest
  assume "st' = st\<lparr>diags := diags st @ snd (PartialContent (Block.Body b) resourceSchema) @
                    [duplicateResource (resourceKey env b) b],
               resources := resources st @ [newResource b]\<rparr>"
  then show ?thesis
    by (intro resourcesKeyed_frame [OF inv, where xs = "[newResource b]"]) simp_all
next
  fix typeName name rest
  assume "Labels b = typeName # name # rest"
     and st': "st' = st\<lparr>Mod := storeResource b (resourceKey env b) (length (resources st)) (Mod st),
               diags := diags st @ snd (PartialContent (Block.Body b) resourceSchema) @
                    providerAttrDiags env (fst (PartialContent (Block.Body b) resourceSchema)),
               resources := resources st @ [(newResource b)\<lparr>Provider := blockProvider env b\<rparr>]\<rparr>"
  show "resourcesKeyed env st'"
    unfolding resourcesKeyed_def
  proof (intro allI impI)
    fix mode key r
    assume look: "resourcesOf mode (Mod st') key = Some r"
    show "r < length (resources st') \<and> Mode (resources st' ! r) = mode \<and>
          MapKey env mode (Resource.Type (resources st' ! r)) (Resource.Name (resources st' ! r)) = key"
    proof (cases "mode = resourceMode b \<and> key = resourceKey env b")
      case True
      with look have "r = length (resources st)"
        by (simp add: st' resourcesOf_storeResource)
      with True show ?thesis
        by (simp add: st' resourceKey_def)
    next
      case False
      with look have "resourcesOf mode (Mod st) key = Some r"
        by (auto simp: st' resourcesOf_storeResource split: if_splits)
      with inv have "r < length (resources st) \<and> Mode (resources st ! r) = mode \<and>
          MapKey env mode (Resource.Type (resources st ! r)) (Resource.Name (resources st ! r)) = key"
        unfolding resourcesKeyed_def by blast
      then show ?thesis
        by (simp add: st' nth_append)
    qed
  qed
next
  assume "st' = st"
  with inv show ?thesis by simp
qed

lemma run_resourcesKeyed:
  "run env st bs st' \<Longrightarrow> resourcesKeyed env st \<Longrightarrow> resourcesKeyed env st'"
proof (induction rule: run.induct)
  case (run_diags st ds blocks st')
  then show ?case by (simp add: resourcesKeyed_def)
next
  case (run_block st block st1 blocks st')
  then show ?case by (simp add: loadBlock_resourcesKeyed)
qed simp

lemma loadModule_resourcesKeyed:
  assumes "loadModule env dir = Inr (st, ds)"
  shows "resourcesKeyed env st"
proof -
  from loadModule_run [OF assms] obtain ds0 where
    run: "run env \<lparr>Mod = newModule dir, diags = ds0, variables = [], outputs = [],
               resources = []\<rparr> (allBlocks env dir) st" ..
  have "resourcesKeyed env \<lparr>Mod = newModule dir, diags = ds0, variables = [], outputs = [],
               resources = []\<rparr>"
    by (simp add: resourcesKeyed_def resourcesOf_def newModule_def split: ResourceMode.splits)
  with run show ?thesis by (rule run_resourcesKeyed)
qed

lemma lookupResource_keyed:
  assumes "resourcesKeyed env st" and "lookupResource mode st key = Some x"
  shows "Mode x = mode \<and> MapKey env mode (Resource.Type x) (Resource.Name x) = key"
  using assms
  by (auto simp: resourcesKeyed_def lookupResource_def split: option.splits if_splits)

lemma duplicate_resource_skipped:
  assumes "Block.Type block = ''resource'' \<or> Block.Type block = ''data''"
      and "Labels block = typeName # name # rest"
      and "resourcesMap block (Mod st) (resourceKey env block) \<noteq> None"
  shows "loadBlock env st block =
     Inr (st\<lparr>diags := diags st @ snd (PartialContent (Block.Body block) resourceSchema) @
                    [duplicateResource (resourceKey env block) block],
             resources := resources st @ [newResource block]\<rparr>)"
proof -
  obtain content contentDiags where pc:
    "PartialContent (Block.Body block) resourceSchema = (content, contentDiags)"
    by (cases "PartialContent (Block.Body block) resourceSchema")
  have "\<exists>st'. case_resource env st block = Inr st'"
    using assms(2,3)
    by (cases "Block.Type block = ''resource''")
       (simp_all add: case_resource_def pc Let_def resourcesMap_def resourceKey_def
          resourceMode_def)
  then obtain st' where run: "case_resource env st block = Inr st'" ..
  from case_resource_Inr [OF run] assms(3)
  have "st' = st\<lparr>diags := diags st @ snd (PartialContent (Block.Body block) resourceSchema) @
                    [duplicateResource (resourceKey env block) block],
             resources := resources st @ [newResource block]\<rparr>"
    by auto
  with run assms(1) show ?thesis
    by (simp add: loadBlock_resource)
qed

lemma subseq_refl: "subseq xs xs"
  by (rule subseq_order.order_refl)

lemma loadBlock_reported:
  assumes "loadBlock env st b = Inr st'"
  shows "\<exists>ds. diags st' = diags st @ ds \<and> subseq (blockReported b) ds"
proof (rule loadBlock_Inr_cases [OF assms])
  fix rp
  assume "Block.Type b = ''terraform''"
    and "st' = st\<lparr>Mod := (Mod st)\<lparr>RequiredCore := RequiredCore (Mod st) @
                    requiredVersions (fst (PartialContent (Block.Body b) terraformBlockSchema)),
                 RequiredProviders := rp\<rparr>,
               diags := diags st @ terraformDiags b\<rparr>"
  then show ?thesis by (simp add: blockReported_def)
next
  fix name rest
  assume ty: "Block.Type b = ''variable''"
    and st': "st' = st\<lparr>Mod := (Mod st)\<lparr>Variables := (Variables (Mod st))(name \<mapsto> length (variables st))\<rparr>,
               diags := diags st @ variableDiags b,
               variables := variables st @ [blockVariable env b]\<rparr>"
  obtain content contentDiags where pc:
    "PartialContent (Block.Body b) variableSchema = (content, contentDiags)"
    by (cases "PartialContent (Block.Body b) variableSchema")
  have "subseq (descriptionDiags content @ defaultDiags content)
          (typeDiags content @ descriptionDiags content @ defaultDiags content)"
    by (rule list_emb_append2) (rule subseq_refl)
  then have "subseq (blockReported b) (variableDiags b)"
    by (simp add: blockReported_def variableDiags_def ty pc subseq_append')
  with st' show ?thesis by simp
next
  fix name rest
  assume "Block.Type b = ''output''"
    and "st' = st\<lparr>Mod := (Mod st)\<lparr>Outputs := (Outputs (Mod st))(name \<mapsto> length (outputs st))\<rparr>,
               diags := diags st @ outputDiags b,
               outputs := outputs st @ [blockOutput b]\<rparr>"
  then show ?thesis by (simp add: blockReported_def)
next
  fix name rest
  assume "Block.Type b = ''provider''"
    and "st' = st\<lparr>Mod := (Mod st)\<lparr>RequiredProviders := (RequiredProviders (Mod st))
                 (name \<mapsto> constraints (RequiredProviders (Mod st)) name @
                    providerVersions (fst (PartialContent (Block.Body b) providerConfigSchema)))\<rparr>,
               diags := diags st @ providerDiags b\<rparr>"
  then show ?thesis by (simp add: blockReported_def)
next
  fix typeName name rest
  assume ty: "Block.Type b = ''resource'' \<or> Block.Type b = ''data''"
    and st': "st' = st\<lparr>diags := diags st @ snd (PartialContent (Block.Body b) resourceSchema) @
                    [duplicateResource (resourceKey env b) b],
               resources := resources st @ [newResource b]\<rparr>"
  from ty have "blockReported b = snd (PartialContent (Block.Body b) resourceSchema)"
    by (auto simp: blockReported_def)
  with st' show ?thesis by (simp add: subseq_rev_drop_many)
next
  fix typeName name rest
  assume ty: "Block.Type b = ''resource'' \<or> Block.Type b = ''data''"
    and st': "st' = st\<lparr>Mod := storeResource b (resourceKey env b) (length (resources st)) (Mod st),
               diags := diags st @ snd (PartialContent (Block.Body b) resourceSchema) @
                    providerAttrDiags env (fst (PartialContent (Block.Body b) resourceSchema)),
               resources := resources st @ [(newResource b)\<lparr>Provider := blockProvider env b\<rparr>]\<rparr>"
  from ty have "blockReported b = snd (PartialContent (Block.Body b) resourceSchema)"
    by (auto simp: blockReported_def)
  with st' show ?thesis by (simp add: subseq_rev_drop_many)
next
  assume "Block.Type b = ''module''" and "st' = st"
  then show ?thesis by (simp add: blockReported_def)
qed

lemma loadBlocks_reported:
  "loadBlocks env st bs = Inr st' \<Longrightarrow>
   \<exists>ds. diags st' = diags st @ ds \<and> subseq (concat (map blockReported bs)) ds"
proof (induction bs arbitrary: st)
  case Nil
  then show ?case by simp
next
  case (Cons b bs)
  then obtain st1 where b: "loadBlock env st b = Inr st1"
    and bs: "loadBlocks env st1 bs = Inr st'"
    by (auto split: sum.splits)
  from loadBlock_reported [OF b] obtain ds1 where
    ds1: "diags st1 = diags st @ ds1" "subseq (blockReported b) ds1" by blast
  from Cons.IH [OF bs] obtain ds2 where
    ds2: "diags st' = diags st1 @ ds2" "subseq (concat (map blockReported bs)) ds2" by blast
  have "subseq (blockReported b @ concat (map blockReported bs)) (ds1 @ ds2)"
    using ds1(2) ds2(2) by (rule list_emb_append_mono)
  with ds1(1) ds2(1) show ?case by simp
qed

lemma loadFile_reported:
  assumes "loadFile env st filename = Inr st'"
  shows "\<exists>ds. diags st' = diags st @ ds \<and> subseq (fileReported env filename) ds"
proof -
  obtain parsed fileDiags where p: "parseFile env filename = (parsed, fileDiags)"
    by (cases "parseFile env filename")
  show ?thesis
  proof (cases parsed)
    case None
    with assms p have "diags st' = diags st @ fileDiags"
      and "fileReported env filename = fileDiags"
      by (auto simp: loadFile_def fileReported_def)
    then show ?thesis
      using subseq_refl by auto
  next
    case (Some f)
    obtain content contentDiags where
      c: "PartialContent (File.Body f) rootSchema = (content, contentDiags)"
      by (cases "PartialContent (File.Body f) rootSchema")
    from assms p Some c
    have "loadBlocks env (appendDiags (appendDiags st fileDiags) contentDiags) (Blocks content) = Inr st'"
      by (simp add: loadFile_def)
    from loadBlocks_reported [OF this] obtain ds where
      ds: "diags st' = diags st @ fileDiags @ contentDiags @ ds"
          "subseq (concat (map blockReported (Blocks content))) ds"
      by auto
    from ds(2) have "subseq (fileReported env filename) (fileDiags @ contentDiags @ ds)"
      by (simp add: fileReported_def p Some c subseq_append')
    with ds(1) show ?thesis by blast
  qed
qed

lemma loadFiles_reported:
  "loadFiles env st filenames = Inr st' \<Longrightarrow>
   \<exists>ds. diags st' = diags st @ ds \<and> subseq (concat (map (fileReported env) filenames)) ds"
proof (induction filenames arbitrary: st)
  case Nil
  then show ?case by simp
next
  case (Cons filename filenames)
  then obtain st1 where f: "loadFile env st filename = Inr st1"
    and fs: "loadFiles env st1 filenames = Inr st'"
    by (auto split: sum.splits)
  from loadFile_reported [OF f] obtain ds1 where
    ds1: "diags st1 = diags st @ ds1" "subseq (fileReported env filename) ds1" by blast
  from Cons.IH [OF fs] obtain ds2 where
    ds2: "diags st' = diags st1 @ ds2"
         "subseq (concat (map (fileReported env) filenames)) ds2" by blast
  have "subseq (fileReported env filename @ concat (map (fileReported env) filenames)) (ds1 @ ds2)"
    using ds1(2) ds2(2) by (rule list_emb_append_mono)
  with ds1(1) ds2(1) show ?case by simp
qed

lemma filter_own:
  "set own \<subseteq> S \<Longrightarrow>
   filter (\<lambda>d. d \<notin> S) (pre @ own @ post) = filter (\<lambda>d. d \<notin> S) (pre @ post)"
  by (auto simp: filter_empty_conv)

lemma typeDiags_own:
  assumes "Block.Type b = ''variable''"
  shows "set (typeDiags (fst (PartialContent (Block.Body b) variableSchema))) \<subseteq> set (blockOwn env b)"
    and "length (typeDiags (fst (PartialContent (Block.Body b) variableSchema))) \<le> 1"
  using assms by (auto simp: typeDiags_def blockOwn_def split: option.splits)

lemma providerAttrDiags_own:
  assumes "Block.Type b = ''resource'' \<or> Block.Type b = ''data''"
  shows "set (providerAttrDiags env (fst (PartialContent (Block.Body b) resourceSchema))) \<subseteq>
           set (blockOwn env b)"
    and "length (providerAttrDiags env (fst (PartialContent (Block.Body b) resourceSchema))) \<le> 1"
  using assms by (auto simp: providerAttrDiags_def blockOwn_def split: option.splits)

lemma emitted_none:
  assumes "diags st' = diags st @ ds" and "blockReported b = ds"
  shows "\<exists>pre own post. diags st' = diags st @ pre @ own @ post \<and> blockReported b = pre @ post \<and>
           set own \<subseteq> set (blockOwn env b) \<and> length own \<le> 1"
proof -
  from assms have "diags st' = diags st @ ds @ [] @ []" and "blockReported b = ds @ []"
    by simp_all
  moreover have "set [] \<subseteq> set (blockOwn env b)" and "length ([] :: hcl_Diagnostics) \<le> 1"
    by simp_all
  ultimately show ?thesis by blast
qed

lemma loadBlock_emitted:
  assumes "loadBlock env st b = Inr st'"
  shows "\<exists>pre own post. diags st' = diags st @ pre @ own @ post \<and> blockReported b = pre @ post \<and>
           set own \<subseteq> set (blockOwn env b) \<and> length own \<le> 1"
proof (rule loadBlock_Inr_cases [OF assms])
  fix rp
  assume "Block.Type b = ''terraform''"
    and "st' = st\<lparr>Mod := (Mod st)\<lparr>RequiredCore := RequiredCore (Mod st) @
                    requiredVersions (fst (PartialContent (Block.Body b) terraformBlockSchema)),
                 RequiredProviders := rp\<rparr>,
               diags := diags st @ terraformDiags b\<rparr>"
  then have "diags st' = diags st @ terraformDiags b" and "blockReported b = terraformDiags b"
    by (simp_all add: blockReported_def)
  then show ?thesis by (rule emitted_none)
next
  fix name rest
  assume ty: "Block.Type b = ''variable''"
    and st': "st' = st\<lparr>Mod := (Mod st)\<lparr>Variables := (Variables (Mod st))(name \<mapsto> length (variables st))\<rparr>,
               diags := diags st @ variableDiags b,
               variables := variables st @ [blockVariable env b]\<rparr>"
  obtain content contentDiags where
    c: "PartialContent (Block.Body b) variableSchema = (content, contentDiags)"
    by (cases "PartialContent (Block.Body b) variableSchema")
  from st' c have "diags st' = diags st @ contentDiags @ typeDiags content @
      (descriptionDiags content @ defaultDiags content)"
    by (simp add: variableDiags_def)
  moreover from ty c have "blockReported b = contentDiags @
      (descriptionDiags content @ defaultDiags content)"
    by (simp add: blockReported_def)
  moreover from typeDiags_own(1) [OF ty, of env] typeDiags_own(2) [OF ty] c
  have "set (typeDiags content) \<subseteq> set (blockOwn env b)" and "length (typeDiags content) \<le> 1"
    by simp_all
  ultimately show ?thesis by blast
next
  fix name rest
  assume "Block.Type b = ''output''"
    and "st' = st\<lparr>Mod := (Mod st)\<lparr>Outputs := (Outputs (Mod st))(name \<mapsto> length (outputs st))\<rparr>,
               diags := diags st @ outputDiags b,
               outputs := outputs st @ [blockOutput b]\<rparr>"
  then have "diags st' = diags st @ outputDiags b" and "blockReported b = outputDiags b"
    by (simp_all add: blockReported_def)
  then show ?thesis by (rule emitted_none)
next
  fix name rest
  assume "Block.Type b = ''provider''"
    and "st' = st\<lparr>Mod := (Mod st)\<lparr>RequiredProviders := (RequiredProviders (Mod st))
                 (name \<mapsto> constraints (RequiredProviders (Mod st)) name @
                    providerVersions (fst (PartialContent (Block.Body b) providerConfigSchema)))\<rparr>,
               diags := diags st @ providerDiags b\<rparr>"
  then have "diags st' = diags st @ providerDiags b" and "blockReported b = providerDiags b"
    by (simp_all add: blockReported_def)
  then show ?thesis by (rule emitted_none)
next
  fix typeName name rest
  assume ty: "Block.Type b = ''resource'' \<or> Block.Type b = ''data''"
    and st': "st' = st\<lparr>diags := diags st @ snd (PartialContent (Block.Body b) resourceSchema) @
                    [duplicateResource (resourceKey env b) b],
               resources := resources st @ [newResource b]\<rparr>"
  from st' have "diags st' = diags st @ snd (PartialContent (Block.Body b) resourceSchema) @
      [duplicateResource (resourceKey env b) b] @ []"
    by simp
  moreover from ty have "blockReported b = snd (PartialContent (Block.Body b) resourceSchema) @ []"
    by (auto simp: blockReported_def)
  moreover from ty have "set [duplicateResource (resourceKey env b) b] \<subseteq> set (blockOwn env b)"
    by (auto simp: blockOwn_def)
  moreover have "length [duplicateResource (resourceKey env b) b] \<le> 1"
    by simp
  ultimately show ?thesis by blast
next
  fix typeName name rest
  assume ty: "Block.Type b = ''resource'' \<or> Block.Type b = ''data''"
    and st': "st' = st\<lparr>Mod := storeResource b (resourceKey env b) (length (resources st)) (Mod st),
               diags := diags st @ snd (PartialContent (Block.Body b) resourceSchema) @
                    providerAttrDiags env (fst (PartialContent (Block.Body b) resourceSchema)),
               resources := resources st @ [(newResource b)\<lparr>Provider := blockProvider env b\<rparr>]\<rparr>"
  from st' have "diags st' = diags st @ snd (PartialContent (Block.Body b) resourceSchema) @
      providerAttrDiags env (fst (PartialContent (Block.Body b) resourceSchema)) @ []"
    by simp
  moreover from ty have "blockReported b = snd (PartialContent (Block.Body b) resourceSchema) @ []"
    by (auto simp: blockReported_def)
  ultimately show ?thesis
    using providerAttrDiags_own [OF ty, of env] by blast
next
  assume "Block.Type b = ''module''" and "st' = st"
  then have "diags st' = diags st @ []" and "blockReported b = []"
    by (simp_all add: blockReported_def)
  then show ?thesis by (rule emitted_none)
qed

lemma loadBlocks_emitted:
  "loadBlocks env st bs = Inr st' \<Longrightarrow> set (concat (map (blockOwn env) bs)) \<subseteq> S \<Longrightarrow>
   \<exists>ds. diags st' = diags st @ ds \<and>
        filter (\<lambda>d. d \<notin> S) ds = filter (\<lambda>d. d \<notin> S) (concat (map blockReported bs)) \<and>
        length ds \<le> length (concat (map blockReported bs)) + length bs"
proof (induction bs arbitrary: st)
  case Nil
  then show ?case by simp
next
  case (Cons b bs)
  then obtain st1 where b: "loadBlock env st b = Inr st1"
    and bs: "loadBlocks env st1 bs = Inr st'"
    by (auto split: sum.splits)
  from Cons.prems(2) have own: "set (blockOwn env b) \<subseteq> S"
    and rest: "set (concat (map (blockOwn env) bs)) \<subseteq> S"
    by simp_all
  from loadBlock_emitted [OF b] obtain pre own post where
    e: "diags st1 = diags st @ pre @ own @ post" "blockReported b = pre @ post"
       "set own \<subseteq> set (blockOwn env b)" "length own \<le> 1"
    by blast
  from e(3) own have "set own \<subseteq> S" by blast
  then have f1: "filter (\<lambda>d. d \<notin> S) (pre @ own @ post) = filter (\<lambda>d. d \<notin> S) (blockReported b)"
    unfolding e(2) by (rule filter_own)
  from e(2,4) have l1: "length (pre @ own @ post) \<le> length (blockReported b) + 1"
    by simp
  from Cons.IH [OF bs rest] obtain ds2 where
    ds2: "diags st' = diags st1 @ ds2"
         "filter (\<lambda>d. d \<notin> S) ds2 = filter (\<lambda>d. d \<notin> S) (concat (map blockReported bs))"
         "length ds2 \<le> length (concat (map blockReported bs)) + length bs"
    by blast
  have "diags st' = diags st @ ((pre @ own @ post) @ ds2)"
    by (simp add: ds2(1) e(1))
  moreover have "filter (\<lambda>d. d \<notin> S) ((pre @ own @ post) @ ds2) =
      filter (\<lambda>d. d \<notin> S) (concat (map blockReported (b # bs)))"
    using f1 ds2(2) by simp
  moreover have "length ((pre @ own @ post) @ ds2) \<le>
      length (concat (map blockReported (b # bs))) + length (b # bs)"
    using l1 ds2(3) by simp
  ultimately show ?case by blast
qed

lemma loadFile_emitted:
  assumes "loadFile env st filename = Inr st'"
      and "set (concat (map (blockOwn env) (fileBlocks env filename))) \<subseteq> S"
  shows "\<exists>ds. diags st' = diags st @ ds \<and>
        filter (\<lambda>d. d \<notin> S) ds = filter (\<lambda>d. d \<notin> S) (fileReported env filename) \<and>
        length ds \<le> length (fileReported env filename) + length (fileBlocks env filename)"
proof -
  obtain parsed fileDiags where p: "parseFile env filename = (parsed, fileDiags)"
    by (cases "parseFile env filename")
  show ?thesis
  proof (cases parsed)
    case None
    with assms p have "diags st' = diags st @ fileDiags"
      and "fileReported env filename = fileDiags"
      by (auto simp: loadFile_def fileReported_def)
    then show ?thesis by simp
  next
    case (Some f)
    obtain content contentDiags where
      c: "PartialContent (File.Body f) rootSchema = (content, contentDiags)"
      by (cases "PartialContent (File.Body f) rootSchema")
    from p Some c have fb: "fileBlocks env filename = Blocks content"
      by (simp add: fileBlocks_def)
    from assms p Some c
    have "loadBlocks env (appendDiags (appendDiags st fileDiags) contentDiags) (Blocks content) = Inr st'"
      by (simp add: loadFile_def)
    from loadBlocks_emitted [OF this, of S] assms(2) fb obtain ds where
      ds: "diags st' = diags st @ fileDiags @ contentDiags @ ds"
          "filter (\<lambda>d. d \<notin> S) ds = filter (\<lambda>d. d \<notin> S) (concat (map blockReported (Blocks content)))"
          "length ds \<le> length (concat (map blockReported (Blocks content))) + length (Blocks content)"
      by auto
    have fr: "fileReported env filename =
        fileDiags @ contentDiags @ concat (map blockReported (Blocks content))"
      by (simp add: fileReported_def p Some c)
    have "filter (\<lambda>d. d \<notin> S) (fileDiags @ contentDiags @ ds) =
        filter (\<lambda>d. d \<notin> S) (fileReported env filename)"
      unfolding fr using ds(2) by simp
    moreover have "length (fileDiags @ contentDiags @ ds) \<le>
        length (fileReported env filename) + length (fileBlocks env filename)"
      unfolding fr fb using ds(3) by simp
    ultimately show ?thesis using ds(1) by blast
  qed
qed

lemma loadFiles_emitted:
  "loadFiles env st filenames = Inr st' \<Longrightarrow>
   set (concat (map (blockOwn env) (concat (map (fileBlocks env) filenames)))) \<subseteq> S \<Longrightarrow>
   \<exists>ds. diags st' = diags st @ ds \<and>
        filter (\<lambda>d. d \<notin> S) ds =
          filter (\<lambda>d. d \<notin> S) (concat (map (fileReported env) filenames)) \<and>
        length ds \<le> length (concat (map (fileReported env) filenames)) +
                     length (concat (map (fileBlocks env) filenames))"
proof (induction filenames arbitrary: st)
  case Nil
  then show ?case by simp
next
  case (Cons filename filenames)
  from Cons.prems(1) obtain st1 where f: "loadFile env st filename = Inr st1"
    and fs: "loadFiles env st1 filenames = Inr st'"
    by (auto split: sum.splits)
  from Cons.prems(2) have own: "set (concat (map (blockOwn env) (fileBlocks env filename))) \<subseteq> S"
    and rest: "set (concat (map (blockOwn env) (concat (map (fileBlocks env) filenames)))) \<subseteq> S"
    by simp_all
  from loadFile_emitted [OF f own] obtain ds1 where
    ds1: "diags st1 = diags st @ ds1"
         "filter (\<lambda>d. d \<notin> S) ds1 = filter (\<lambda>d. d \<notin> S) (fileReported env filename)"
         "length ds1 \<le> length (fileReported env filename) + length (fileBlocks env filename)"
    by blast
  from Cons.IH [OF fs rest] obtain ds2 where
    ds2: "diags st' = diags st1 @ ds2"
         "filter (\<lambda>d. d \<notin> S) ds2 =
            filter (\<lambda>d. d \<notin> S) (concat (map (fileReported env) filenames))"
         "length ds2 \<le> length (concat (map (fileReported env) filenames)) +
                        length (concat (map (fileBlocks env) filenames))"
    by blast
  have "diags st' = diags st @ (ds1 @ ds2)"
    by (simp add: ds1(1) ds2(1))
  moreover have "filter (\<lambda>d. d \<notin> S) (ds1 @ ds2) =
      filter (\<lambda>d. d \<notin> S) (concat (map (fileReported env) (filename # filenames)))"
    using ds1(2) ds2(2) by simp
  moreover have "length (ds1 @ ds2) \<le>
      length (concat (map (fileReported env) (filename # filenames))) +
      length (concat (map (fileBlocks env) (filename # filenames)))"
    using ds1(3) ds2(3) by simp
  ultimately show ?case by blast
qed

lemma HasErrors_append: "HasErrors (xs @ ys) = (HasErrors xs \<or> HasErrors ys)"
  by (induction xs) auto

lemma sample_loadModule:
  "loadModule sampleEnv ''m'' = Inr (sampleLoaded, diagnosticsHCL (diags sampleLoaded))"
  by (simp add: loadModule_def loadFile_def parseFile_def HasSuffix_def
        sampleLoaded_def model_defs sample_defs resourceTypeDefaultProviderName_def
        numeral_2_eq_2)

section \<open>C1: resource keys\<close>

text \<open>
  Claim C1. After every run that returns, each key of \<open>ManagedResources\<close> and of
  \<open>DataResources\<close> points to an allocated resource of that map's mode whose composite key
  (\<^verbatim>\<open>MapKey\<close> of its mode, type and name) is that key, so two entries of one map with the
  same type and name are the same entry. A \<^verbatim>\<open>resource\<close> or \<^verbatim>\<open>data\<close> block whose key is
  already in its map, processed in any state, returns with the duplicate-resource-block
  error appended after the schema diagnostics and nothing else: the module and every
  object allocated before are unchanged (the entry of the first block is not
  overwritten), and the block's own resource stays unreferenced.
\<close>

theorem resource_keys_unique:
  "(loadModule env dir = Inr (st, ds) \<and> resourcesOf mode (Mod st) key = Some r \<longrightarrow>
      r < length (resources st) \<and> Mode (resources st ! r) = mode \<and>
      MapKey env mode (Resource.Type (resources st ! r)) (Resource.Name (resources st ! r)) = key) \<and>
   (loadModule env dir = Inr (st, ds) \<and>
    lookupResource mode st key = Some x \<and> lookupResource mode st key' = Some x' \<and>
    Resource.Type x = Resource.Type x' \<and> Resource.Name x = Resource.Name x' \<longrightarrow> key = key') \<and>
   ((Block.Type block = ''resource'' \<or> Block.Type block = ''data'') \<and>
    Labels block = typeName # name # rest \<and>
    resourcesMap block (Mod s) (resourceKey env block) \<noteq> None \<longrightarrow>
      loadBlock env s block =
        Inr (s\<lparr>diags := diags s @ snd (PartialContent (Block.Body block) resourceSchema) @
                    [duplicateResource (resourceKey env block) block],
               resources := resources s @ [newResource block]\<rparr>))"
proof (intro conjI impI)
  assume a: "loadModule env dir = Inr (st, ds) \<and> resourcesOf mode (Mod st) key = Some r"
  then have "loadModule env dir = Inr (st, ds)" by simp
  then have "resourcesKeyed env st" by (rule loadModule_resourcesKeyed)
  with a have both: "r < length (resources st) \<and> Mode (resources st ! r) = mode \<and>
      MapKey env mode (Resource.Type (resources st ! r)) (Resource.Name (resources st ! r)) = key"
    unfolding resourcesKeyed_def by blast
  from both show "r < length (resources st)" by simp
  from both show "Mode (resources st ! r) = mode" by simp
  from both show "MapKey env mode (Resource.Type (resources st ! r))
                    (Resource.Name (resources st ! r)) = key" by simp
next
  assume a: "loadModule env dir = Inr (st, ds) \<and>
    lookupResource mode st key = Some x \<and> lookupResource mode st key' = Some x' \<and>
    Resource.Type x = Resource.Type x' \<and> Resource.Name x = Resource.Name x'"
  then have "loadModule env dir = Inr (st, ds)" by simp
  then have inv: "resourcesKeyed env st" by (rule loadModule_resourcesKeyed)
  from a lookupResource_keyed [OF inv, of mode key x] lookupResource_keyed [OF inv, of mode key' x']
  show "key = key'" by simp
next
  assume "(Block.Type block = ''resource'' \<or> Block.Type block = ''data'') \<and>
    Labels block = typeName # name # rest \<and>
    resourcesMap block (Mod s) (resourceKey env block) \<noteq> None"
  then show "loadBlock env s block =
        Inr (s\<lparr>diags := diags s @ snd (PartialContent (Block.Body block) resourceSchema) @
                    [duplicateResource (resourceKey env block) block],
               resources := resources s @ [newResource block]\<rparr>)"
    by (intro duplicate_resource_skipped) simp_all
qed

text \<open>
  On the sample module: the managed resource \<^verbatim>\<open>aws_instance.a\<close> is stored under its key,
  and processing the duplicate block once more only appends the error.
\<close>

theorem resource_keys_unique_witness:
  "loadModule sampleEnv ''m'' = Inr (sampleLoaded, diagnosticsHCL (diags sampleLoaded)) \<and>
   resourcesOf ManagedResourceMode (Mod sampleLoaded) ''aws_instance.a'' = Some 0 \<and>
   lookupResource ManagedResourceMode sampleLoaded ''aws_instance.a'' =
     Some (resources sampleLoaded ! 0) \<and>
   Mode (resources sampleLoaded ! 0) = ManagedResourceMode \<and>
   MapKey sampleEnv ManagedResourceMode (Resource.Type (resources sampleLoaded ! 0))
     (Resource.Name (resources sampleLoaded ! 0)) = ''aws_instance.a'' \<and>
   Block.Type sampleDuplicate = ''resource'' \<and>
   Labels sampleDuplicate = [''aws_instance'', ''a''] \<and>
   resourcesMap sampleDuplicate (Mod sampleLoaded) (resourceKey sampleEnv sampleDuplicate) = Some 0 \<and>
   loadBlock sampleEnv sampleLoaded sampleDuplicate =
     Inr (sampleLoaded\<lparr>diags := diags sampleLoaded @
                           [duplicateResource ''aws_instance.a'' sampleDuplicate],
                        resources := resources sampleLoaded @ [newResource sampleDuplicate]\<rparr>)"
proof -
  have run: "loadModule sampleEnv ''m'' = Inr (sampleLoaded, diagnosticsHCL (diags sampleLoaded))"
    by (rule sample_loadModule)
  have key: "resourcesOf ManagedResourceMode (Mod sampleLoaded) ''aws_instance.a'' = Some 0"
    by (simp add: resourcesOf_def sampleLoaded_def)
  have look: "lookupResource ManagedResourceMode sampleLoaded ''aws_instance.a'' =
     Some (resources sampleLoaded ! 0)"
    by (simp add: lookupResource_def resourcesOf_def sampleLoaded_def)
  have ty: "Block.Type sampleDuplicate = ''resource''"
    and lab: "Labels sampleDuplicate = [''aws_instance'', ''a'']"
    and pc: "snd (PartialContent (Block.Body sampleDuplicate) resourceSchema) = []"
    and rk: "resourceKey sampleEnv sampleDuplicate = ''aws_instance.a''"
    by (simp_all add: sampleDuplicate_def sampleBlock_def sampleBody_def resourceKey_def
          resourceMode_def sampleEnv_def sampleKey_def)
  have present: "resourcesMap sampleDuplicate (Mod sampleLoaded)
                   (resourceKey sampleEnv sampleDuplicate) = Some 0"
    by (simp add: rk resourcesMap_def ty sampleLoaded_def)
  note inst = resource_keys_unique [where env = sampleEnv and dir = "''m''" and st = sampleLoaded
      and ds = "diagnosticsHCL (diags sampleLoaded)" and mode = ManagedResourceMode
      and key = "''aws_instance.a''" and key' = "''aws_instance.a''" and r = 0
      and x = "resources sampleLoaded ! 0" and x' = "resources sampleLoaded ! 0"
      and block = sampleDuplicate
      and typeName = "''aws_instance''" and name = "''a''" and rest = "[]" and s = sampleLoaded]
  from inst run key
  have stored: "Mode (resources sampleLoaded ! 0) = ManagedResourceMode \<and>
     MapKey sampleEnv ManagedResourceMode (Resource.Type (resources sampleLoaded ! 0))
       (Resource.Name (resources sampleLoaded ! 0)) = ''aws_instance.a''"
    by blast
  from present have "resourcesMap sampleDuplicate (Mod sampleLoaded)
                   (resourceKey sampleEnv sampleDuplicate) \<noteq> None"
    by simp
  with inst ty lab
  have "loadBlock sampleEnv sampleLoaded sampleDuplicate =
     Inr (sampleLoaded\<lparr>diags := diags sampleLoaded @
            snd (PartialContent (Block.Body sampleDuplicate) resourceSchema) @
            [duplicateResource (resourceKey sampleEnv sampleDuplicate) sampleDuplicate],
          resources := resources sampleLoaded @ [newResource sampleDuplicate]\<rparr>)"
    by blast
  then have skipped: "loadBlock sampleEnv sampleLoaded sampleDuplicate =
     Inr (sampleLoaded\<lparr>diags := diags sampleLoaded @
                           [duplicateResource ''aws_instance.a'' sampleDuplicate],
                        resources := resources sampleLoaded @ [newResource sampleDuplicate]\<rparr>)"
    by (simp only: pc rk append_Nil)
  from run key look stored ty lab present skipped show ?thesis
    by (intro conjI) simp_all
qed

section \<open>C2: variables and outputs\<close>

text \<open>
  Claim C2. After every run that returns, a name is a key of \<open>Variables\<close> exactly when some
  \<^verbatim>\<open>variable\<close> block of the processed files has it as its first label, and the entry then
  is the variable of the last such block in processing order: its name, type hint,
  description, default and position are those of that block alone. The same holds for
  \<open>Outputs\<close> and \<^verbatim>\<open>output\<close> blocks. The diagnostics a \<^verbatim>\<open>variable\<close> or \<^verbatim>\<open>output\<close> block
  appends are a function of the block, the same whether or not its name was already
  declared: the overwrite itself emits nothing.
\<close>

theorem last_declaration_wins:
  assumes "loadModule env dir = Inr (st, ds)"
  shows "(case lastDeclaration ''variable'' name (allBlocks env dir) of
            None \<Rightarrow> Variables (Mod st) name = None
          | Some b \<Rightarrow> lookupVariable st name = Some (blockVariable env b)) \<and>
         (case lastDeclaration ''output'' name (allBlocks env dir) of
            None \<Rightarrow> Outputs (Mod st) name = None
          | Some b \<Rightarrow> lookupOutput st name = Some (blockOutput b)) \<and>
         (Block.Type vblock = ''variable'' \<and> loadBlock env s vblock = Inr s' \<longrightarrow>
            diags s' = diags s @ variableDiags vblock) \<and>
         (Block.Type oblock = ''output'' \<and> loadBlock env t oblock = Inr t' \<longrightarrow>
            diags t' = diags t @ outputDiags oblock)"
proof -
  from loadModule_run [OF assms] obtain ds0 where
    run: "run env \<lparr>Mod = newModule dir, diags = ds0, variables = [], outputs = [],
               resources = []\<rparr> (allBlocks env dir) st" ..
  have "(case lastDeclaration ''variable'' name (allBlocks env dir) of
            None \<Rightarrow> Variables (Mod st) name = None
          | Some b \<Rightarrow> lookupVariable st name = Some (blockVariable env b))"
    using run_last_variable [OF run, of name]
    by (simp add: validVariables_def newModule_def cong: option.case_cong)
  moreover have "(case lastDeclaration ''output'' name (allBlocks env dir) of
            None \<Rightarrow> Outputs (Mod st) name = None
          | Some b \<Rightarrow> lookupOutput st name = Some (blockOutput b))"
    using run_last_output [OF run, of name]
    by (simp add: validOutputs_def newModule_def cong: option.case_cong)
  ultimately show ?thesis
    using loadBlock_variable_diags loadBlock_output_diags by blast
qed

text \<open>
  On the sample module, \<^verbatim>\<open>x\<close> is declared twice: the entry is the second declaration's,
  without the description and default of the first.
\<close>

theorem last_declaration_wins_witness:
  "loadModule sampleEnv ''m'' = Inr (sampleLoaded, diagnosticsHCL (diags sampleLoaded)) \<and>
   allBlocks sampleEnv ''m'' = sampleBlocks \<and>
   lastDeclaration ''variable'' ''x'' sampleBlocks = Some sampleVariableLast \<and>
   lookupVariable sampleLoaded ''x'' = Some (blockVariable sampleEnv sampleVariableLast) \<and>
   blockVariable sampleEnv sampleVariableLast =
     \<lparr>Variable.Name = ''x'', TypeHint = ''string'', Variable.Description = [],
      Default = None, Variable.Pos = sourcePosHCL sampleRange\<rparr> \<and>
   lastDeclaration ''output'' ''o'' sampleBlocks = Some sampleOutput \<and>
   lookupOutput sampleLoaded ''o'' = Some (blockOutput sampleOutput) \<and>
   lastDeclaration ''variable'' ''o'' sampleBlocks = None \<and>
   Variables (Mod sampleLoaded) ''o'' = None \<and>
   Block.Type sampleVariableLast = ''variable'' \<and>
   loadBlock sampleEnv sampleState sampleVariableLast =
     Inr (sampleState
       \<lparr>Mod := (newModule ''m'')\<lparr>Variables := [''x'' \<mapsto> 0]\<rparr>,
        variables := [blockVariable sampleEnv sampleVariableLast]\<rparr>) \<and>
   variableDiags sampleVariableLast = [] \<and>
   Block.Type sampleOutput = ''output'' \<and>
   loadBlock sampleEnv sampleState sampleOutput =
     Inr (sampleState
       \<lparr>Mod := (newModule ''m'')\<lparr>Outputs := [''o'' \<mapsto> 0]\<rparr>,
        outputs := [blockOutput sampleOutput]\<rparr>) \<and>
   outputDiags sampleOutput = []"
proof -
  have run: "loadModule sampleEnv ''m'' = Inr (sampleLoaded, diagnosticsHCL (diags sampleLoaded))"
    by (rule sample_loadModule)
  have blocks: "allBlocks sampleEnv ''m'' = sampleBlocks"
    by (simp add: allBlocks_def fileBlocks_def parseFile_def HasSuffix_def sampleEnv_def
          sampleBody_def sampleContent_def)
  have lastx: "lastDeclaration ''variable'' ''x'' sampleBlocks = Some sampleVariableLast"
    and lasto: "lastDeclaration ''output'' ''o'' sampleBlocks = Some sampleOutput"
    and none: "lastDeclaration ''variable'' ''o'' sampleBlocks = None"
    by (simp_all add: declares_def sample_defs)
  have var: "blockVariable sampleEnv sampleVariableLast =
     \<lparr>Variable.Name = ''x'', TypeHint = ''string'', Variable.Description = [],
      Default = None, Variable.Pos = sourcePosHCL sampleRange\<rparr>"
    by (simp add: blockVariable_def blockTypeHint_def typeHintOf_def blockDescription_def
          blockDefault_def sample_defs)
  have vty: "Block.Type sampleVariableLast = ''variable''"
    and oty: "Block.Type sampleOutput = ''output''"
    by (simp_all add: sample_defs)
  have vrun: "loadBlock sampleEnv sampleState sampleVariableLast =
     Inr (sampleState
       \<lparr>Mod := (newModule ''m'')\<lparr>Variables := [''x'' \<mapsto> 0]\<rparr>,
        variables := [blockVariable sampleEnv sampleVariableLast]\<rparr>)"
    unfolding var by (simp add: model_defs sample_defs)
  have orun: "loadBlock sampleEnv sampleState sampleOutput =
     Inr (sampleState
       \<lparr>Mod := (newModule ''m'')\<lparr>Outputs := [''o'' \<mapsto> 0]\<rparr>,
        outputs := [blockOutput sampleOutput]\<rparr>)"
    by (simp add: model_defs sample_defs blockOutput_def blockDescription_def)
  note inst = last_declaration_wins [OF run, where vblock = sampleVariableLast
      and s = sampleState and oblock = sampleOutput and t = sampleState,
      unfolded blocks]
  from inst [where name = "''x''"] lastx
  have lookx: "lookupVariable sampleLoaded ''x'' = Some (blockVariable sampleEnv sampleVariableLast)"
    by simp
  from inst [where name = "''o''"] lasto none
  have looko: "lookupOutput sampleLoaded ''o'' = Some (blockOutput sampleOutput)"
    and nokey: "Variables (Mod sampleLoaded) ''o'' = None"
    by simp_all
  from inst [where name = "''x''"] vty vrun
  have "diags (sampleState
       \<lparr>Mod := (newModule ''m'')\<lparr>Variables := [''x'' \<mapsto> 0]\<rparr>,
        variables := [blockVariable sampleEnv sampleVariableLast]\<rparr>) =
        diags sampleState @ variableDiags sampleVariableLast"
    by blast
  then have vdiags: "variableDiags sampleVariableLast = []"
    by (simp add: sampleState_def)
  from inst [where name = "''x''"] oty orun
  have "diags (sampleState
       \<lparr>Mod := (newModule ''m'')\<lparr>Outputs := [''o'' \<mapsto> 0]\<rparr>,
        outputs := [blockOutput sampleOutput]\<rparr>) =
        diags sampleState @ outputDiags sampleOutput"
    by blast
  then have odiags: "outputDiags sampleOutput = []"
    by (simp add: sampleState_def)
  from run blocks lastx lookx var lasto looko none nokey vty vrun vdiags oty orun odiags
  show ?thesis by (intro conjI)
qed

section \<open>C3: the provider attribute\<close>

text \<open>
  Claim C3. For every \<^verbatim>\<open>resource\<close> or \<^verbatim>\<open>data\<close> block with a \<^verbatim>\<open>provider\<close> attribute
  whose provider is resolved, that is whose key is not yet in its map (a block whose key
  is present is skipped before the attribute is read, line 220), processed in any state.
  If the expression decodes as an absolute traversal (no error, a root segment first), the
  block's resource is stored with Provider \<open>{Name: the root's name, Alias: the second
  segment's name if it is an attribute segment, else empty}\<close> and only the schema
  diagnostics are appended; if that fails but the expression decodes as a string that
  parses as such a traversal, the same; if both strategies fail, the resource is stored
  with the zero Provider and the invalid-provider-reference error is appended after the
  schema diagnostics.
\<close>

theorem provider_reference_of_new_resource:
  assumes "Block.Type block = ''resource'' \<or> Block.Type block = ''data''"
      and "Labels block = typeName # name # rest"
      and "PartialContent (Block.Body block) resourceSchema = (content, contentDiags)"
      and "Attributes content ''provider'' = Some attr"
      and "resourcesMap block (Mod st) (resourceKey env block) = None"
  shows "(\<not> HasErrors (snd (AbsTraversalForExpr (Expr attr))) \<and>
          fst (AbsTraversalForExpr (Expr attr)) = TraverseRoot root # segments \<longrightarrow>
            resourceStored env st block
              \<lparr>ProviderRef.Name = root, Alias = aliasOf segments\<rparr> contentDiags) \<and>
         (HasErrors (snd (AbsTraversalForExpr (Expr attr))) \<and>
          \<not> HasErrors (fst (DecodeExpression (Expr attr))) \<and>
          \<not> HasErrors (snd (ParseTraversalAbs env (snd (DecodeExpression (Expr attr))))) \<and>
          fst (ParseTraversalAbs env (snd (DecodeExpression (Expr attr)))) =
            TraverseRoot root # segments \<longrightarrow>
            resourceStored env st block
              \<lparr>ProviderRef.Name = root, Alias = aliasOf segments\<rparr> contentDiags) \<and>
         (HasErrors (snd (AbsTraversalForExpr (Expr attr))) \<and>
          (HasErrors (fst (DecodeExpression (Expr attr))) \<or>
           HasErrors (snd (ParseTraversalAbs env (snd (DecodeExpression (Expr attr)))))) \<longrightarrow>
            resourceStored env st block
              \<lparr>ProviderRef.Name = [], Alias = []\<rparr>
              (contentDiags @ [invalidProviderReference (Expr attr)]))"
proof -
  have stored: "resourceStored env st block (providerRef (providerTraversal env (Expr attr)))
           (contentDiags @ (if providerTraversal env (Expr attr) = []
                            then [invalidProviderReference (Expr attr)] else []))"
    if "providerTraversal env (Expr attr) = [] \<or>
        (\<exists>n ts. providerTraversal env (Expr attr) = TraverseRoot n # ts)"
  proof -
    have "resourceStored env st block (blockProvider env block)
           (contentDiags @ providerAttrDiags env content)"
      using assms that by (intro new_resource_stored) simp_all
    then show ?thesis
      using assms(3,4) by (simp add: blockProvider_def providerAttrDiags_def)
  qed
  have bare: "resourceStored env st block
              \<lparr>ProviderRef.Name = root, Alias = aliasOf segments\<rparr> contentDiags"
    if "\<not> HasErrors (snd (AbsTraversalForExpr (Expr attr)))"
       "fst (AbsTraversalForExpr (Expr attr)) = TraverseRoot root # segments"
    using stored that by (simp add: providerTraversal_bare providerRef_root)
  have quoted: "resourceStored env st block
              \<lparr>ProviderRef.Name = root, Alias = aliasOf segments\<rparr> contentDiags"
    if "HasErrors (snd (AbsTraversalForExpr (Expr attr)))"
       "\<not> HasErrors (fst (DecodeExpression (Expr attr)))"
       "\<not> HasErrors (snd (ParseTraversalAbs env (snd (DecodeExpression (Expr attr)))))"
       "fst (ParseTraversalAbs env (snd (DecodeExpression (Expr attr)))) =
            TraverseRoot root # segments"
    using stored that by (simp add: providerTraversal_quoted providerRef_root)
  have failed: "resourceStored env st block
              \<lparr>ProviderRef.Name = [], Alias = []\<rparr>
              (contentDiags @ [invalidProviderReference (Expr attr)])"
    if "HasErrors (snd (AbsTraversalForExpr (Expr attr)))"
       "HasErrors (fst (DecodeExpression (Expr attr))) \<or>
        HasErrors (snd (ParseTraversalAbs env (snd (DecodeExpression (Expr attr)))))"
    using stored that by (simp add: providerTraversal_failed providerRef_nil)
  from bare quoted failed show ?thesis by blast
qed

text \<open>
  The three cases in the initial state: \<^verbatim>\<open>provider = aws.east\<close>,
  \<^verbatim>\<open>provider = "aws.east"\<close> and \<^verbatim>\<open>provider = "???"\<close>.
\<close>

theorem provider_reference_of_new_resource_witness:
  "resourcesMap sampleResource (Mod sampleState) (resourceKey sampleEnv sampleResource) = None \<and>
   \<not> HasErrors (snd (AbsTraversalForExpr (reference ''aws'' [''east'']))) \<and>
   fst (AbsTraversalForExpr (reference ''aws'' [''east''])) =
     [TraverseRoot ''aws'', TraverseAttr ''east''] \<and>
   resourceStored sampleEnv sampleState sampleResource
     \<lparr>ProviderRef.Name = ''aws'', Alias = ''east''\<rparr> [] \<and>
   HasErrors (snd (AbsTraversalForExpr (quoted ''aws.east''))) \<and>
   \<not> HasErrors (fst (DecodeExpression (quoted ''aws.east''))) \<and>
   ParseTraversalAbs sampleEnv (snd (DecodeExpression (quoted ''aws.east''))) =
     ([TraverseRoot ''aws'', TraverseAttr ''east''], []) \<and>
   resourceStored sampleEnv sampleState
     (sampleBlock ''resource'' [''aws_instance'', ''a''] [(''provider'', quoted ''aws.east'')])
     \<lparr>ProviderRef.Name = ''aws'', Alias = ''east''\<rparr> [] \<and>
   HasErrors (snd (AbsTraversalForExpr (quoted ''???''))) \<and>
   HasErrors (snd (ParseTraversalAbs sampleEnv (snd (DecodeExpression (quoted ''???''))))) \<and>
   resourceStored sampleEnv sampleState sampleDuplicate
     \<lparr>ProviderRef.Name = [], Alias = []\<rparr> [invalidProviderReference (quoted ''???'')]"
proof -
  let ?quoted = "sampleBlock ''resource'' [''aws_instance'', ''a''] [(''provider'', quoted ''aws.east'')]"
  have block:
    "Block.Type (sampleBlock ''resource'' [''aws_instance'', ''a''] [(''provider'', e)]) = ''resource'' \<or>
     Block.Type (sampleBlock ''resource'' [''aws_instance'', ''a''] [(''provider'', e)]) = ''data''"
    "Labels (sampleBlock ''resource'' [''aws_instance'', ''a''] [(''provider'', e)]) =
       ''aws_instance'' # ''a'' # []"
    "PartialContent (Block.Body (sampleBlock ''resource'' [''aws_instance'', ''a''] [(''provider'', e)]))
       resourceSchema = (sampleContent [(''provider'', e)] [], [])"
    "Attributes (sampleContent [(''provider'', e)] []) ''provider'' =
       Some \<lparr>Attribute.Name = ''provider'', Expr = e\<rparr>"
    "resourcesMap (sampleBlock ''resource'' [''aws_instance'', ''a''] [(''provider'', e)])
       (Mod sampleState)
       (resourceKey sampleEnv (sampleBlock ''resource'' [''aws_instance'', ''a''] [(''provider'', e)])) =
       None"
    for e
    by (simp_all add: sampleBlock_def sampleBody_def sampleContent_def sampleAttrs_def
          resourcesMap_def sampleState_def newModule_def)
  have new: "resourcesMap sampleResource (Mod sampleState)
               (resourceKey sampleEnv sampleResource) = None"
    unfolding sampleResource_def by (rule block(5))
  have bare: "\<not> HasErrors (snd (AbsTraversalForExpr (reference ''aws'' [''east''])))"
    "fst (AbsTraversalForExpr (reference ''aws'' [''east''])) =
       [TraverseRoot ''aws'', TraverseAttr ''east'']"
    by (simp_all add: reference_def)
  have quoted: "HasErrors (snd (AbsTraversalForExpr (quoted ''aws.east'')))"
    "\<not> HasErrors (fst (DecodeExpression (quoted ''aws.east'')))"
    "ParseTraversalAbs sampleEnv (snd (DecodeExpression (quoted ''aws.east''))) =
       ([TraverseRoot ''aws'', TraverseAttr ''east''], [])"
    by (simp_all add: quoted_def sampleError_def sampleEnv_def)
  have failed: "HasErrors (snd (AbsTraversalForExpr (quoted ''???'')))"
    "HasErrors (snd (ParseTraversalAbs sampleEnv (snd (DecodeExpression (quoted ''???'')))))"
    by (simp_all add: quoted_def sampleError_def sampleEnv_def)
  from provider_reference_of_new_resource [OF block [of "reference ''aws'' [''east'']"],
      where root = "''aws''" and segments = "[TraverseAttr ''east'']"] bare
  have s1: "resourceStored sampleEnv sampleState sampleResource
     \<lparr>ProviderRef.Name = ''aws'', Alias = ''east''\<rparr> []"
    by (simp add: sampleResource_def aliasOf_def)
  from provider_reference_of_new_resource [OF block [of "quoted ''aws.east''"],
      where root = "''aws''" and segments = "[TraverseAttr ''east'']"] quoted
  have s2: "resourceStored sampleEnv sampleState ?quoted
     \<lparr>ProviderRef.Name = ''aws'', Alias = ''east''\<rparr> []"
    by (simp add: aliasOf_def)
  from provider_reference_of_new_resource [OF block [of "quoted ''???''"]] failed
  have s3: "resourceStored sampleEnv sampleState sampleDuplicate
     \<lparr>ProviderRef.Name = [], Alias = []\<rparr> [invalidProviderReference (quoted ''???'')]"
    by (simp add: sampleDuplicate_def)
  from new bare s1 quoted s2 failed s3 show ?thesis
    by (intro conjI)
qed

section \<open>C4: the inferred provider\<close>

text \<open>
  Claim C4. For every \<^verbatim>\<open>resource\<close> or \<^verbatim>\<open>data\<close> block without a \<^verbatim>\<open>provider\<close> attribute
  that is stored (its key is not yet in its map), processed in any state, the stored
  resource has the block's mode, type and name and Provider
  \<open>{Name: resourceTypeDefaultProviderName type, Alias: ""}\<close>, and only the schema
  diagnostics are appended. \<^verbatim>\<open>resourceTypeDefaultProviderName\<close> gives the whole type when
  it has no underscore and otherwise what precedes its first underscore: \<^verbatim>\<open>aws\<close> for
  \<^verbatim>\<open>aws_instance\<close>, \<^verbatim>\<open>random\<close> for \<^verbatim>\<open>random_id\<close>.
\<close>

theorem provider_inferred_from_type:
  assumes "Block.Type block = ''resource'' \<or> Block.Type block = ''data''"
      and "Labels block = typeName # name # rest"
      and "PartialContent (Block.Body block) resourceSchema = (content, contentDiags)"
      and "Attributes content ''provider'' = None"
      and "resourcesMap block (Mod st) (resourceKey env block) = None"
  shows "resourceStored env st block
           \<lparr>ProviderRef.Name = resourceTypeDefaultProviderName typeName, Alias = []\<rparr>
           contentDiags \<and>
         (CHR ''_'' \<notin> set typeName \<longrightarrow> resourceTypeDefaultProviderName typeName = typeName) \<and>
         (\<forall>pre post. typeName = pre @ CHR ''_'' # post \<and> CHR ''_'' \<notin> set pre \<longrightarrow>
            resourceTypeDefaultProviderName typeName = pre) \<and>
         resourceTypeDefaultProviderName ''aws_instance'' = ''aws'' \<and>
         resourceTypeDefaultProviderName ''random_id'' = ''random''"
proof -
  have "resourceStored env st block (blockProvider env block)
           (contentDiags @ providerAttrDiags env content)"
    using assms by (intro new_resource_stored) simp_all
  moreover have "blockProvider env block =
      \<lparr>ProviderRef.Name = resourceTypeDefaultProviderName typeName, Alias = []\<rparr>"
    using assms(2-4) by (simp add: blockProvider_def)
  moreover have "providerAttrDiags env content = []"
    using assms(4) by (simp add: providerAttrDiags_def)
  ultimately have "resourceStored env st block
           \<lparr>ProviderRef.Name = resourceTypeDefaultProviderName typeName, Alias = []\<rparr>
           contentDiags"
    by simp
  moreover have "resourceTypeDefaultProviderName ''aws_instance'' = ''aws''"
    and "resourceTypeDefaultProviderName ''random_id'' = ''random''"
    by (simp_all add: resourceTypeDefaultProviderName_def)
  ultimately show ?thesis
    using resourceTypeDefaultProviderName_whole resourceTypeDefaultProviderName_prefix
    by blast
qed

text \<open>The sample \<^verbatim>\<open>data "aws_ami" "b" {}\<close> block in the initial state.\<close>

theorem provider_inferred_from_type_witness:
  "Block.Type sampleData = ''data'' \<and>
   Labels sampleData = [''aws_ami'', ''b''] \<and>
   PartialContent (Block.Body sampleData) resourceSchema = (sampleContent [] [], []) \<and>
   Attributes (sampleContent [] []) ''provider'' = None \<and>
   resourcesMap sampleData (Mod sampleState) (resourceKey sampleEnv sampleData) = None \<and>
   resourceStored sampleEnv sampleState sampleData
     \<lparr>ProviderRef.Name = ''aws'', Alias = []\<rparr> [] \<and>
   resourceTypeDefaultProviderName ''aws_ami'' = ''aws''"
proof -
  have ty: "Block.Type sampleData = ''data''"
    and lab: "Labels sampleData = [''aws_ami'', ''b'']"
    and pc: "PartialContent (Block.Body sampleData) resourceSchema = (sampleContent [] [], [])"
    and attr: "Attributes (sampleContent [] []) ''provider'' = None"
    and new: "resourcesMap sampleData (Mod sampleState) (resourceKey sampleEnv sampleData) = None"
    by (simp_all add: sampleData_def sampleBlock_def sampleBody_def sampleContent_def
          sampleAttrs_def resourcesMap_def sampleState_def newModule_def)
  have name: "resourceTypeDefaultProviderName ''aws_ami'' = ''aws''"
    by (simp add: resourceTypeDefaultProviderName_def)
  from ty have ty': "Block.Type sampleData = ''resource'' \<or> Block.Type sampleData = ''data''"
    by simp
  from provider_inferred_from_type [OF ty' lab pc attr new]
  have "resourceStored sampleEnv sampleState sampleData
     \<lparr>ProviderRef.Name = ''aws'', Alias = []\<rparr> []"
    by (simp add: name)
  with ty lab pc attr new name show ?thesis
    by (intro conjI)
qed

section \<open>C5: a default that is not wholly known\<close>

text \<open>
  Claim C5 does not hold as stated: the condition does contribute an error whenever the
  evaluation reports one, because the diagnostics of the evaluation are appended before
  the value is looked at (line 127), and the source expects a value that is not wholly
  known only together with such errors (line 128). In the initial state, which has no
  diagnostics, a variable whose default is the reference \<^verbatim>\<open>local.d\<close> evaluates to a value
  that is not wholly known with the error \<^verbatim>\<open>Variables not allowed\<close>; the block leaves the
  Default absent and that error among the diagnostics.
\<close>

theorem unknown_default_reports_error:
  "Block.Type (sampleBlock ''variable'' [''w''] [(''default'', reference ''local'' [''d''])]) =
     ''variable'' \<and>
   Attributes (fst (PartialContent
       (Block.Body (sampleBlock ''variable'' [''w''] [(''default'', reference ''local'' [''d''])]))
       variableSchema)) ''default'' =
     Some \<lparr>Attribute.Name = ''default'', Expr = reference ''local'' [''d'']\<rparr> \<and>
   \<not> IsWhollyKnown (fst (Value (reference ''local'' [''d'']))) \<and>
   snd (Value (reference ''local'' [''d''])) = [sampleError ''Variables not allowed''] \<and>
   hcl_Diagnostic.Severity (sampleError ''Variables not allowed'') = DiagnosticSeverity.DiagError \<and>
   \<not> HasErrors (diags sampleState) \<and>
   loadBlock sampleEnv sampleState
     (sampleBlock ''variable'' [''w''] [(''default'', reference ''local'' [''d''])]) =
     Inr (sampleState
       \<lparr>Mod := (newModule ''m'')\<lparr>Variables := [''w'' \<mapsto> 0]\<rparr>,
        diags := [sampleError ''Variables not allowed''],
        variables := [\<lparr>Variable.Name = ''w'', TypeHint = [], Variable.Description = [],
                       Default = None, Variable.Pos = sourcePosHCL sampleRange\<rparr>]\<rparr>) \<and>
   HasErrors (diags (sampleState
       \<lparr>Mod := (newModule ''m'')\<lparr>Variables := [''w'' \<mapsto> 0]\<rparr>,
        diags := [sampleError ''Variables not allowed''],
        variables := [\<lparr>Variable.Name = ''w'', TypeHint = [], Variable.Description = [],
                       Default = None, Variable.Pos = sourcePosHCL sampleRange\<rparr>]\<rparr>))"
proof -
  let ?b = "sampleBlock ''variable'' [''w''] [(''default'', reference ''local'' [''d''])]"
  have ty: "Block.Type ?b = ''variable''"
    and attr: "Attributes (fst (PartialContent (Block.Body ?b) variableSchema)) ''default'' =
       Some \<lparr>Attribute.Name = ''default'', Expr = reference ''local'' [''d'']\<rparr>"
    by (simp_all add: sampleBlock_def sampleBody_def sampleContent_def sampleAttrs_def)
  have unknown: "\<not> IsWhollyKnown (fst (Value (reference ''local'' [''d''])))"
    and reportedError: "snd (Value (reference ''local'' [''d''])) = [sampleError ''Variables not allowed'']"
    by (simp_all add: reference_def)
  have sev: "hcl_Diagnostic.Severity (sampleError ''Variables not allowed'') =
      DiagnosticSeverity.DiagError"
    by (simp add: sampleError_def)
  have before: "\<not> HasErrors (diags sampleState)"
    by (simp add: sampleState_def)
  have eval: "loadBlock sampleEnv sampleState ?b =
     Inr (sampleState
       \<lparr>Mod := (newModule ''m'')\<lparr>Variables := [''w'' \<mapsto> 0]\<rparr>,
        diags := [sampleError ''Variables not allowed''],
        variables := [\<lparr>Variable.Name = ''w'', TypeHint = [], Variable.Description = [],
                       Default = None, Variable.Pos = sourcePosHCL sampleRange\<rparr>]\<rparr>)"
    by (simp add: model_defs sample_defs)
  have after: "HasErrors (diags (sampleState
       \<lparr>Mod := (newModule ''m'')\<lparr>Variables := [''w'' \<mapsto> 0]\<rparr>,
        diags := [sampleError ''Variables not allowed''],
        variables := [\<lparr>Variable.Name = ''w'', TypeHint = [], Variable.Description = [],
                       Default = None, Variable.Pos = sourcePosHCL sampleRange\<rparr>]\<rparr>))"
    by (simp add: sampleError_def)
  from ty attr unknown reportedError sev before eval after show ?thesis
    by (intro conjI)
qed

text \<open>
  Claim C5, amended: for every \<^verbatim>\<open>variable\<close> block with a name label whose \<^verbatim>\<open>default\<close>
  attribute evaluates (with a nil context) to a value that is not wholly known, processed
  in any state: the block is processed without a panic, the stored variable's Default is
  \<^verbatim>\<open>nil\<close>, and the diagnostics appended for the attribute are exactly those returned by
  the evaluation. The extractor adds none of its own for this condition, and an error
  reported by the evaluation is an error of the diagnostics.
\<close>

theorem unknown_default_left_absent:
  assumes "Block.Type block = ''variable''"
      and "Labels block = name # rest"
      and "PartialContent (Block.Body block) variableSchema = (content, contentDiags)"
      and "Attributes content ''default'' = Some attr"
      and "Value (Expr attr) = (val, valDiags)"
      and "\<not> IsWhollyKnown val"
  shows "\<exists>st' x. loadBlock env st block = Inr st' \<and> lookupVariable st' name = Some x \<and>
     Default x = None \<and>
     diags st' = diags st @ contentDiags @ typeDiags content @ descriptionDiags content @ valDiags \<and>
     (HasErrors valDiags \<longrightarrow> HasErrors (diags st'))"
proof -
  have "\<exists>st'. case_variable env st block = Inr st'"
    using assms(2-6) by (simp add: case_variable_def Let_def variableDefault_unknown)
  then obtain st' where run: "case_variable env st block = Inr st'" ..
  then obtain name' rest' where "Labels block = name' # rest'"
    and st': "st' = st\<lparr>Mod := (Mod st)\<lparr>Variables := (Variables (Mod st))(name' \<mapsto> length (variables st))\<rparr>,
             diags := diags st @ variableDiags block,
             variables := variables st @ [blockVariable env block]\<rparr>"
    using case_variable_Inr by blast
  with assms(2) have name: "name' = name" by simp
  have look: "lookupVariable st' name = Some (blockVariable env block)"
    by (simp add: st' name lookupVariable_def)
  have def: "Default (blockVariable env block) = None"
    by (simp add: blockVariable_def blockDefault_def assms(3-6))
  have ds: "diags st' = diags st @ contentDiags @ typeDiags content @
              descriptionDiags content @ valDiags"
    by (simp add: st' variableDiags_def defaultDiags_def assms(3-5))
  then have err: "HasErrors valDiags \<longrightarrow> HasErrors (diags st')"
    by (simp add: HasErrors_append)
  from run look def ds err assms(1) show ?thesis
    by (auto simp: loadBlock_variable)
qed

text \<open>A variable whose default is the reference \<^verbatim>\<open>var.d\<close>, in the initial state.\<close>

theorem unknown_default_left_absent_witness:
  "Block.Type (sampleBlock ''variable'' [''z''] [(''default'', reference ''var'' [''d''])]) =
     ''variable'' \<and>
   Labels (sampleBlock ''variable'' [''z''] [(''default'', reference ''var'' [''d''])]) = [''z''] \<and>
   Value (reference ''var'' [''d'']) =
     (\<lparr>IsWhollyKnown = False, Marshal = Inl ''value is not known''\<rparr>,
      [sampleError ''Variables not allowed'']) \<and>
   loadBlock sampleEnv sampleState
     (sampleBlock ''variable'' [''z''] [(''default'', reference ''var'' [''d''])]) =
     Inr (sampleState
       \<lparr>Mod := (newModule ''m'')\<lparr>Variables := [''z'' \<mapsto> 0]\<rparr>,
        diags := [sampleError ''Variables not allowed''],
        variables := [\<lparr>Variable.Name = ''z'', TypeHint = [], Variable.Description = [],
                       Default = None, Variable.Pos = sourcePosHCL sampleRange\<rparr>]\<rparr>) \<and>
   HasErrors [sampleError ''Variables not allowed''] \<and>
   lookupVariable (sampleState
       \<lparr>Mod := (newModule ''m'')\<lparr>Variables := [''z'' \<mapsto> 0]\<rparr>,
        diags := [sampleError ''Variables not allowed''],
        variables := [\<lparr>Variable.Name = ''z'', TypeHint = [], Variable.Description = [],
                       Default = None, Variable.Pos = sourcePosHCL sampleRange\<rparr>]\<rparr>) ''z'' =
     Some \<lparr>Variable.Name = ''z'', TypeHint = [], Variable.Description = [],
            Default = None, Variable.Pos = sourcePosHCL sampleRange\<rparr>"
proof -
  let ?b = "sampleBlock ''variable'' [''z''] [(''default'', reference ''var'' [''d''])]"
  let ?c = "sampleContent [(''default'', reference ''var'' [''d''])] []"
  let ?a = "\<lparr>Attribute.Name = ''default'', Expr = reference ''var'' [''d'']\<rparr>"
  let ?v = "\<lparr>IsWhollyKnown = False, Marshal = Inl ''value is not known''\<rparr>"
  let ?x = "\<lparr>Variable.Name = ''z'', TypeHint = [], Variable.Description = [],
             Default = None :: string option, Variable.Pos = sourcePosHCL sampleRange\<rparr>"
  let ?st = "sampleState
       \<lparr>Mod := (newModule ''m'')\<lparr>Variables := [''z'' \<mapsto> 0]\<rparr>,
        diags := [sampleError ''Variables not allowed''],
        variables := [?x]\<rparr>"
  have h1: "Block.Type ?b = ''variable''"
    and h2: "Labels ?b = ''z'' # []"
    and h3: "PartialContent (Block.Body ?b) variableSchema = (?c, [])"
    and h4: "Attributes ?c ''default'' = Some ?a"
    by (simp_all add: sampleBlock_def sampleBody_def sampleContent_def sampleAttrs_def)
  have h5: "Value (Expr ?a) = (?v, [sampleError ''Variables not allowed''])"
    and h6: "\<not> IsWhollyKnown ?v"
    by (simp_all add: reference_def)
  have types: "typeDiags ?c = []" "descriptionDiags ?c = []"
    by (simp_all add: typeDiags_def descriptionDiags_def sampleContent_def sampleAttrs_def)
  from unknown_default_left_absent [OF h1 h2 h3 h4 h5 h6, of sampleEnv sampleState]
  obtain st' x where run: "loadBlock sampleEnv sampleState ?b = Inr st'"
    and look: "lookupVariable st' ''z'' = Some x" and def: "Default x = None"
    and ds: "diags st' = [sampleError ''Variables not allowed'']"
    and err: "HasErrors [sampleError ''Variables not allowed''] \<longrightarrow> HasErrors (diags st')"
    by (auto simp: types sampleState_def)
  have eval: "loadBlock sampleEnv sampleState ?b = Inr ?st"
    by (simp add: model_defs sample_defs)
  with run have "st' = ?st" by simp
  with look have "lookupVariable ?st ''z'' = Some x" by simp
  moreover have "lookupVariable ?st ''z'' = Some ?x"
    by (simp add: lookupVariable_def sampleState_def)
  ultimately have look': "lookupVariable ?st ''z'' = Some ?x" by simp
  from h5 have h5': "Value (reference ''var'' [''d'']) = (?v, [sampleError ''Variables not allowed''])"
    by simp
  have errs: "HasErrors [sampleError ''Variables not allowed'']"
    by (simp add: sampleError_def)
  with err ds have "HasErrors (diags st')" by simp
  from this def h1 h2 h5' eval look' errs show ?thesis
    by (intro conjI) simp_all
qed

section \<open>C6: the type hint\<close>

text \<open>
  Claim C6 does not hold as stated: its example \<^verbatim>\<open>type = 42\<close> does not yield an empty
  hint and a diagnostic. A number literal is no keyword, but decoding it as a string
  converts it and reports no error, so the fallback (lines 94-100) takes the decoded
  string: in the initial state the variable is stored with TypeHint \<^verbatim>\<open>42\<close> and no
  diagnostic is appended.
\<close>

theorem number_type_hint_accepted:
  "ExprAsKeyword (numberLiteral ''42'') = [] \<and>
   DecodeExpression (numberLiteral ''42'') = ([], ''42'') \<and>
   diags sampleState = [] \<and>
   loadBlock sampleEnv sampleState
     (sampleBlock ''variable'' [''n''] [(''type'', numberLiteral ''42'')]) =
     Inr (sampleState
       \<lparr>Mod := (newModule ''m'')\<lparr>Variables := [''n'' \<mapsto> 0]\<rparr>,
        diags := [],
        variables := [\<lparr>Variable.Name = ''n'', TypeHint = ''42'', Variable.Description = [],
                       Default = None, Variable.Pos = sourcePosHCL sampleRange\<rparr>]\<rparr>)"
proof -
  have kw: "ExprAsKeyword (numberLiteral ''42'') = []"
    and dec: "DecodeExpression (numberLiteral ''42'') = ([], ''42'')"
    by (simp_all add: numberLiteral_def)
  have before: "diags sampleState = []"
    by (simp add: sampleState_def)
  have eval: "loadBlock sampleEnv sampleState
     (sampleBlock ''variable'' [''n''] [(''type'', numberLiteral ''42'')]) =
     Inr (sampleState
       \<lparr>Mod := (newModule ''m'')\<lparr>Variables := [''n'' \<mapsto> 0]\<rparr>,
        diags := [],
        variables := [\<lparr>Variable.Name = ''n'', TypeHint = ''42'', Variable.Description = [],
                       Default = None, Variable.Pos = sourcePosHCL sampleRange\<rparr>]\<rparr>)"
    by (simp add: model_defs sample_defs numberLiteral_def)
  from kw dec before eval show ?thesis
    by (intro conjI)
qed

text \<open>
  Claim C6, amended: for every \<^verbatim>\<open>variable\<close> block with a \<^verbatim>\<open>type\<close> attribute whose
  processing returns, the variable stored under the block's name has as TypeHint the
  keyword if the expression is a keyword; else the decoded string if decoding the
  expression as a string reports no error; else the empty string. The attribute
  contributes exactly one diagnostic, the invalid-variable-type-hint error, if the
  resulting TypeHint is empty (also when it is empty because the expression decodes
  without error to the empty string), and none otherwise; it stands between the schema
  diagnostics and those of the description and the default.
\<close>

theorem type_hint_keyword_then_string:
  assumes "Block.Type block = ''variable''"
      and "PartialContent (Block.Body block) variableSchema = (content, contentDiags)"
      and "Attributes content ''type'' = Some attr"
      and "loadBlock env st block = Inr st'"
  shows "\<exists>name rest x. Labels block = name # rest \<and> lookupVariable st' name = Some x \<and>
     (ExprAsKeyword (Expr attr) \<noteq> [] \<longrightarrow> TypeHint x = ExprAsKeyword (Expr attr)) \<and>
     (ExprAsKeyword (Expr attr) = [] \<and> \<not> HasErrors (fst (DecodeExpression (Expr attr))) \<longrightarrow>
        TypeHint x = snd (DecodeExpression (Expr attr))) \<and>
     (ExprAsKeyword (Expr attr) = [] \<and> HasErrors (fst (DecodeExpression (Expr attr))) \<longrightarrow>
        TypeHint x = []) \<and>
     diags st' = diags st @ contentDiags @
                 (if TypeHint x = [] then [invalidTypeHint (Expr attr)] else []) @
                 descriptionDiags content @ defaultDiags content"
proof -
  from assms(1,4) have "case_variable env st block = Inr st'"
    by (simp add: loadBlock_variable)
  then obtain name rest where lab: "Labels block = name # rest"
    and st': "st' = st\<lparr>Mod := (Mod st)\<lparr>Variables := (Variables (Mod st))(name \<mapsto> length (variables st))\<rparr>,
             diags := diags st @ variableDiags block,
             variables := variables st @ [blockVariable env block]\<rparr>"
    using case_variable_Inr by blast
  have look: "lookupVariable st' name = Some (blockVariable env block)"
    by (simp add: st' lookupVariable_def)
  have hint: "TypeHint (blockVariable env block) = typeHintOf (Expr attr)"
    by (simp add: blockVariable_def assms(2,3) blockTypeHint_def)
  have "diags st' = diags st @ contentDiags @ typeDiags content @
              descriptionDiags content @ defaultDiags content"
    by (simp add: st' variableDiags_def assms(2))
  moreover have "typeDiags content =
      (if typeHintOf (Expr attr) = [] then [invalidTypeHint (Expr attr)] else [])"
    by (simp add: typeDiags_def assms(3))
  ultimately have ds: "diags st' = diags st @ contentDiags @
      (if TypeHint (blockVariable env block) = [] then [invalidTypeHint (Expr attr)] else []) @
      descriptionDiags content @ defaultDiags content"
    by (simp only: hint)
  have cases: "(ExprAsKeyword (Expr attr) \<noteq> [] \<longrightarrow>
        TypeHint (blockVariable env block) = ExprAsKeyword (Expr attr)) \<and>
     (ExprAsKeyword (Expr attr) = [] \<and> \<not> HasErrors (fst (DecodeExpression (Expr attr))) \<longrightarrow>
        TypeHint (blockVariable env block) = snd (DecodeExpression (Expr attr))) \<and>
     (ExprAsKeyword (Expr attr) = [] \<and> HasErrors (fst (DecodeExpression (Expr attr))) \<longrightarrow>
        TypeHint (blockVariable env block) = [])"
    by (simp add: hint typeHintOf_def)
  from lab look cases ds show ?thesis
    by blast
qed

text \<open>
  Four cases in the initial state: the keyword \<^verbatim>\<open>string\<close>, the quoted \<^verbatim>\<open>"string"\<close>, a
  reference that is neither a keyword nor decodable, and the quoted empty string, which
  decodes without error and still draws the diagnostic.
\<close>

theorem type_hint_keyword_then_string_witness:
  "ExprAsKeyword (reference ''string'' []) = ''string'' \<and>
   loadBlock sampleEnv sampleState (sampleBlock ''variable'' [''y''] [(''type'', reference ''string'' [])]) =
     Inr (sampleState
       \<lparr>Mod := (newModule ''m'')\<lparr>Variables := [''y'' \<mapsto> 0]\<rparr>,
        variables := [\<lparr>Variable.Name = ''y'', TypeHint = ''string'', Variable.Description = [],
                       Default = None, Variable.Pos = sourcePosHCL sampleRange\<rparr>]\<rparr>) \<and>
   ExprAsKeyword (quoted ''string'') = [] \<and>
   DecodeExpression (quoted ''string'') = ([], ''string'') \<and>
   loadBlock sampleEnv sampleState (sampleBlock ''variable'' [''y''] [(''type'', quoted ''string'')]) =
     Inr (sampleState
       \<lparr>Mod := (newModule ''m'')\<lparr>Variables := [''y'' \<mapsto> 0]\<rparr>,
        variables := [\<lparr>Variable.Name = ''y'', TypeHint = ''string'', Variable.Description = [],
                       Default = None, Variable.Pos = sourcePosHCL sampleRange\<rparr>]\<rparr>) \<and>
   ExprAsKeyword (reference ''local'' [''t'']) = [] \<and>
   HasErrors (fst (DecodeExpression (reference ''local'' [''t'']))) \<and>
   loadBlock sampleEnv sampleState
     (sampleBlock ''variable'' [''y''] [(''type'', reference ''local'' [''t''])]) =
     Inr (sampleState
       \<lparr>Mod := (newModule ''m'')\<lparr>Variables := [''y'' \<mapsto> 0]\<rparr>,
        diags := [invalidTypeHint (reference ''local'' [''t''])],
        variables := [\<lparr>Variable.Name = ''y'', TypeHint = [], Variable.Description = [],
                       Default = None, Variable.Pos = sourcePosHCL sampleRange\<rparr>]\<rparr>) \<and>
   ExprAsKeyword (quoted []) = [] \<and>
   DecodeExpression (quoted []) = ([], []) \<and>
   loadBlock sampleEnv sampleState (sampleBlock ''variable'' [''y''] [(''type'', quoted [])]) =
     Inr (sampleState
       \<lparr>Mod := (newModule ''m'')\<lparr>Variables := [''y'' \<mapsto> 0]\<rparr>,
        diags := [invalidTypeHint (quoted [])],
        variables := [\<lparr>Variable.Name = ''y'', TypeHint = [], Variable.Description = [],
                       Default = None, Variable.Pos = sourcePosHCL sampleRange\<rparr>]\<rparr>)"
proof -
  let ?x = "\<lambda>hint. \<lparr>Variable.Name = ''y'', TypeHint = hint, Variable.Description = [],
             Default = None :: string option, Variable.Pos = sourcePosHCL sampleRange\<rparr>"
  let ?st = "\<lambda>hint ds. sampleState
       \<lparr>Mod := (newModule ''m'')\<lparr>Variables := [''y'' \<mapsto> 0]\<rparr>,
        diags := ds,
        variables := [?x hint]\<rparr>"
  have block:
    "Block.Type (sampleBlock ''variable'' [''y''] [(''type'', e)]) = ''variable''"
    "PartialContent (Block.Body (sampleBlock ''variable'' [''y''] [(''type'', e)])) variableSchema =
       (sampleContent [(''type'', e)] [], [])"
    "Attributes (sampleContent [(''type'', e)] []) ''type'' =
       Some \<lparr>Attribute.Name = ''type'', Expr = e\<rparr>"
    for e
    by (simp_all add: sampleBlock_def sampleBody_def sampleContent_def sampleAttrs_def)
  have other: "descriptionDiags (sampleContent [(''type'', e)] []) = []"
    "defaultDiags (sampleContent [(''type'', e)] []) = []" for e
    by (simp_all add: descriptionDiags_def defaultDiags_def sampleContent_def sampleAttrs_def)
  have look: "lookupVariable (?st hint ds) ''y'' = Some (?x hint)" for hint ds
    by (simp add: lookupVariable_def sampleState_def)
  have k: "ExprAsKeyword (reference ''string'' []) = ''string''"
    and q: "ExprAsKeyword (quoted ''string'') = []"
           "DecodeExpression (quoted ''string'') = ([], ''string'')"
    and n: "ExprAsKeyword (reference ''local'' [''t'']) = []"
           "HasErrors (fst (DecodeExpression (reference ''local'' [''t''])))"
    and e: "ExprAsKeyword (quoted []) = []"
           "DecodeExpression (quoted []) = ([], [])"
    by (simp_all add: reference_def quoted_def sampleError_def)
  have run1: "loadBlock sampleEnv sampleState
      (sampleBlock ''variable'' [''y''] [(''type'', reference ''string'' [])]) =
      Inr (?st ''string'' (diags sampleState))"
    by (simp add: model_defs sample_defs)
  have run2: "loadBlock sampleEnv sampleState
      (sampleBlock ''variable'' [''y''] [(''type'', quoted ''string'')]) =
      Inr (?st ''string'' (diags sampleState))"
    by (simp add: model_defs sample_defs)
  have run3: "loadBlock sampleEnv sampleState
      (sampleBlock ''variable'' [''y''] [(''type'', reference ''local'' [''t''])]) =
      Inr (?st [] [invalidTypeHint (reference ''local'' [''t''])])"
    by (simp add: model_defs sample_defs)
  have run4: "loadBlock sampleEnv sampleState
      (sampleBlock ''variable'' [''y''] [(''type'', quoted [])]) =
      Inr (?st [] [invalidTypeHint (quoted [])])"
    by (simp add: model_defs sample_defs)
  from type_hint_keyword_then_string [OF block [of "reference ''string'' []"] run1] k
  have t1: "TypeHint (?x ''string'') = ''string'' \<and>
            diags (?st ''string'' (diags sampleState)) = diags sampleState"
    by (auto simp: sampleBlock_def look other)
  from type_hint_keyword_then_string [OF block [of "quoted ''string''"] run2] q
  have t2: "TypeHint (?x ''string'') = snd (DecodeExpression (quoted ''string'')) \<and>
            diags (?st ''string'' (diags sampleState)) = diags sampleState"
    by (auto simp: sampleBlock_def look other)
  from type_hint_keyword_then_string [OF block [of "reference ''local'' [''t'']"] run3] n
  have t3: "diags (?st [] [invalidTypeHint (reference ''local'' [''t''])]) =
          diags sampleState @ [invalidTypeHint (reference ''local'' [''t''])]"
    by (auto simp: sampleBlock_def look other)
  from type_hint_keyword_then_string [OF block [of "quoted []"] run4] e
  have t4: "diags (?st [] [invalidTypeHint (quoted [])]) =
          diags sampleState @ [invalidTypeHint (quoted [])]"
    by (auto simp: sampleBlock_def look other)
  from t1 t2 t3 t4 k q n e run1 run2 run3 run4 show ?thesis
    by (intro conjI) (simp_all add: sampleState_def)
qed

section \<open>C7: RequiredCore\<close>

text \<open>
  Claim C7 does not hold for every run: a \<^verbatim>\<open>required_version\<close> attribute whose decoding
  as a string reports an error contributes no entry (line 57). The sample module has two
  \<^verbatim>\<open>terraform\<close> blocks, each with a \<^verbatim>\<open>required_version\<close> attribute, the second one the
  reference \<^verbatim>\<open>var.version\<close>; \<open>RequiredCore\<close> has one entry.
\<close>

theorem undecodable_required_version_not_recorded:
  "loadModule sampleEnv ''m'' = Inr (sampleLoaded, diagnosticsHCL (diags sampleLoaded)) \<and>
   requiredVersionAttrs sampleEnv ''m'' =
     [\<lparr>Attribute.Name = ''required_version'', Expr = quoted ''>= 0.12''\<rparr>,
      \<lparr>Attribute.Name = ''required_version'', Expr = reference ''var'' [''version'']\<rparr>] \<and>
   RequiredCore (Mod sampleLoaded) = [''>= 0.12''] \<and>
   length (requiredVersionAttrs sampleEnv ''m'') = 2 \<and>
   length (RequiredCore (Mod sampleLoaded)) = 1"
proof -
  have run: "loadModule sampleEnv ''m'' = Inr (sampleLoaded, diagnosticsHCL (diags sampleLoaded))"
    by (rule sample_loadModule)
  have blocks: "allBlocks sampleEnv ''m'' = sampleBlocks"
    by (simp add: allBlocks_def fileBlocks_def parseFile_def HasSuffix_def sampleEnv_def
          sampleBody_def sampleContent_def)
  have attrs: "requiredVersionAttrs sampleEnv ''m'' =
     [\<lparr>Attribute.Name = ''required_version'', Expr = quoted ''>= 0.12''\<rparr>,
      \<lparr>Attribute.Name = ''required_version'', Expr = reference ''var'' [''version'']\<rparr>]"
    unfolding requiredVersionAttrs_def blocks
    by (simp add: requiredVersionAttr_def sampleBlocks_def sampleTerraform_def
          sampleTerraformUndecodable_def sampleVariableFirst_def sampleVariableLast_def
          sampleVariableY_def sampleOutput_def sampleProvider_def sampleResource_def
          sampleDuplicate_def sampleData_def sampleBlock_def sampleBody_def sampleContent_def
          sampleAttrs_def)
  have core: "RequiredCore (Mod sampleLoaded) = [''>= 0.12'']"
    by (simp add: sampleLoaded_def)
  from run attrs core show ?thesis
    by (intro conjI) simp_all
qed

text \<open>
  Claim C7, amended: for every run that returns, \<open>RequiredCore\<close> holds the decoded string
  of each \<^verbatim>\<open>required_version\<close> attribute of the \<^verbatim>\<open>terraform\<close> blocks of the primary files
  whose decoding reports no error, one entry per such attribute, duplicates kept, in the
  order in which the blocks are met; an attribute whose decoding reports an error
  contributes no entry.
\<close>

theorem required_core_of_decodable_attributes:
  assumes "loadModule env dir = Inr (st, ds)"
  shows "RequiredCore (Mod st) =
     map (\<lambda>attr. snd (DecodeExpression (Expr attr)))
       (filter (\<lambda>attr. \<not> HasErrors (fst (DecodeExpression (Expr attr))))
          (requiredVersionAttrs env dir))"
proof -
  from loadModule_run [OF assms] obtain ds0 where
    "run env \<lparr>Mod = newModule dir, diags = ds0, variables = [], outputs = [],
               resources = []\<rparr> (allBlocks env dir) st" ..
  then have "RequiredCore (Mod st) = concat (map blockRequiredCore (allBlocks env dir))"
    by (simp add: run_RequiredCore newModule_def)
  also have "\<dots> = map (\<lambda>attr. snd (DecodeExpression (Expr attr)))
       (filter (\<lambda>attr. \<not> HasErrors (fst (DecodeExpression (Expr attr))))
          (requiredVersionAttrs env dir))"
    by (simp add: requiredVersionAttrs_def concat_blockRequiredCore)
  finally show ?thesis .
qed

text \<open>
  In the sample module the first attribute decodes to \<^verbatim>\<open>>= 0.12\<close> and the second does
  not decode.
\<close>

theorem required_core_of_decodable_attributes_witness:
  "loadModule sampleEnv ''m'' = Inr (sampleLoaded, diagnosticsHCL (diags sampleLoaded)) \<and>
   DecodeExpression (quoted ''>= 0.12'') = ([], ''>= 0.12'') \<and>
   HasErrors (fst (DecodeExpression (reference ''var'' [''version'']))) \<and>
   RequiredCore (Mod sampleLoaded) =
     map (\<lambda>attr. snd (DecodeExpression (Expr attr)))
       (filter (\<lambda>attr. \<not> HasErrors (fst (DecodeExpression (Expr attr))))
          (requiredVersionAttrs sampleEnv ''m'')) \<and>
   RequiredCore (Mod sampleLoaded) = [snd (DecodeExpression (quoted ''>= 0.12''))]"
proof -
  have run: "loadModule sampleEnv ''m'' = Inr (sampleLoaded, diagnosticsHCL (diags sampleLoaded))"
    by (rule sample_loadModule)
  have dec: "DecodeExpression (quoted ''>= 0.12'') = ([], ''>= 0.12'')"
    and err: "HasErrors (fst (DecodeExpression (reference ''var'' [''version''])))"
    by (simp_all add: quoted_def reference_def sampleError_def)
  have blocks: "allBlocks sampleEnv ''m'' = sampleBlocks"
    by (simp add: allBlocks_def fileBlocks_def parseFile_def HasSuffix_def sampleEnv_def
          sampleBody_def sampleContent_def)
  have attrs: "requiredVersionAttrs sampleEnv ''m'' =
     [\<lparr>Attribute.Name = ''required_version'', Expr = quoted ''>= 0.12''\<rparr>,
      \<lparr>Attribute.Name = ''required_version'', Expr = reference ''var'' [''version'']\<rparr>]"
    unfolding requiredVersionAttrs_def blocks
    by (simp add: requiredVersionAttr_def sampleBlocks_def sampleTerraform_def
          sampleTerraformUndecodable_def sampleVariableFirst_def sampleVariableLast_def
          sampleVariableY_def sampleOutput_def sampleProvider_def sampleResource_def
          sampleDuplicate_def sampleData_def sampleBlock_def sampleBody_def sampleContent_def
          sampleAttrs_def)
  note core = required_core_of_decodable_attributes [OF run]
  from core have "RequiredCore (Mod sampleLoaded) = [snd (DecodeExpression (quoted ''>= 0.12''))]"
    unfolding attrs using dec err by simp
  with run dec err core show ?thesis
    by (intro conjI)
qed

section \<open>C9: the diagnostics returned\<close>

text \<open>
  Claim C9 does not hold for every run: the diagnostics of the fallback decoding of a
  variable's \<^verbatim>\<open>type\<close> attribute are held in a local variable and never appended (lines
  94 to 100). In the sample module the \<^verbatim>\<open>type\<close> of variable \<^verbatim>\<open>y\<close> is the reference
  \<^verbatim>\<open>local.t\<close>, which is no keyword and whose decoding as a string reports
  \<^verbatim>\<open>Unsuitable value: local\<close>; that diagnostic is not among those accumulated, nor is its
  conversion among those returned.
\<close>

theorem type_decoding_diagnostic_dropped:
  "loadModule sampleEnv ''m'' = Inr (sampleLoaded, diagnosticsHCL (diags sampleLoaded)) \<and>
   sampleVariableY \<in> set (allBlocks sampleEnv ''m'') \<and>
   Block.Type sampleVariableY = ''variable'' \<and>
   Attributes (fst (PartialContent (Block.Body sampleVariableY) variableSchema)) ''type'' =
     Some \<lparr>Attribute.Name = ''type'', Expr = reference ''local'' [''t'']\<rparr> \<and>
   ExprAsKeyword (reference ''local'' [''t'']) = [] \<and>
   fst (DecodeExpression (reference ''local'' [''t''])) =
     [sampleError ''Unsuitable value: local''] \<and>
   sampleError ''Unsuitable value: local'' \<notin> set (diags sampleLoaded) \<and>
   diagnosticHCL (sampleError ''Unsuitable value: local'') \<notin>
     set (diagnosticsHCL (diags sampleLoaded))"
proof -
  have run: "loadModule sampleEnv ''m'' = Inr (sampleLoaded, diagnosticsHCL (diags sampleLoaded))"
    by (rule sample_loadModule)
  have "allBlocks sampleEnv ''m'' = sampleBlocks"
    by (simp add: allBlocks_def fileBlocks_def parseFile_def HasSuffix_def sampleEnv_def
          sampleBody_def sampleContent_def)
  then have member: "sampleVariableY \<in> set (allBlocks sampleEnv ''m'')"
    by (simp add: sampleBlocks_def)
  have ty: "Block.Type sampleVariableY = ''variable''"
    and attr: "Attributes (fst (PartialContent (Block.Body sampleVariableY) variableSchema))
        ''type'' = Some \<lparr>Attribute.Name = ''type'', Expr = reference ''local'' [''t'']\<rparr>"
    by (simp_all add: sampleVariableY_def sampleBlock_def sampleBody_def sampleContent_def
          sampleAttrs_def)
  have kw: "ExprAsKeyword (reference ''local'' [''t'']) = []"
    and dec: "fst (DecodeExpression (reference ''local'' [''t''])) =
               [sampleError ''Unsuitable value: local'']"
    by (simp_all add: reference_def)
  have absent: "sampleError ''Unsuitable value: local'' \<notin> set (diags sampleLoaded)"
    by (simp add: sampleLoaded_def invalidTypeHint_def duplicateResource_def sampleError_def)
  have absent': "diagnosticHCL (sampleError ''Unsuitable value: local'') \<notin>
     set (diagnosticsHCL (diags sampleLoaded))"
    by (simp add: sampleLoaded_def diagnosticsHCL_def diagnosticHCL_def
          invalidTypeHint_def duplicateResource_def sampleError_def)
  from run member ty attr kw dec absent absent' show ?thesis
    by (intro conjI)
qed

text \<open>
  Claim C9, amended: for every run that returns, the list returned is the conversion of
  the accumulated diagnostics. The diagnostics of listing the directory, of parsing each
  primary file, of each schema-content and attribute-listing step, and of decoding each
  \<^verbatim>\<open>required_version\<close>, each \<^verbatim>\<open>required_providers\<close> entry, each \<^verbatim>\<open>description\<close>, each
  \<^verbatim>\<open>default\<close> and each provider \<^verbatim>\<open>version\<close> are all among the accumulated ones, in the
  order produced. Apart from the diagnostics the extractor builds itself (no
  configuration files, invalid variable type hint, duplicate resource block, invalid
  provider reference) the accumulated list is exactly the list of those, and it has at
  most one diagnostic more than those for each block, and one for the directory. So
  nothing but a diagnostic of the extractor's own is appended for the trial decodings of
  a variable's \<^verbatim>\<open>type\<close> and of a resource's \<^verbatim>\<open>provider\<close>: their diagnostics are not.
\<close>

theorem reported_diagnostics_returned:
  assumes "loadModule env dir = Inr (st, ds)"
  shows "subseq (reported env dir) (diags st) \<and> ds = diagnosticsHCL (diags st) \<and>
         subseq (diagnosticsHCL (reported env dir)) ds \<and>
         filter (\<lambda>d. d \<notin> set (ownDiagnostics env dir)) (diags st) =
           filter (\<lambda>d. d \<notin> set (ownDiagnostics env dir)) (reported env dir) \<and>
         length (diags st) \<le> length (reported env dir) + length (allBlocks env dir) + 1"
proof -
  obtain primaryPaths overridePaths ds0 where
    d: "dirFiles env dir = (primaryPaths, overridePaths, ds0)"
    by (cases "dirFiles env dir") auto
  define ds1 where "ds1 = (if length primaryPaths = 0 \<and> length overridePaths = 0
                            then ds0 @ [noConfigurationFiles dir] else ds0)"
  define S where "S = set (ownDiagnostics env dir)"
  from assms d have run: "loadFiles env \<lparr>Mod = newModule dir, diags = ds1, variables = [],
      outputs = [], resources = []\<rparr> primaryPaths = Inr st"
    and ds: "ds = diagnosticsHCL (diags st)"
    by (auto simp: loadModule_def ds1_def split: sum.splits if_splits)
  from loadFiles_reported [OF run] obtain ds2 where
    ds2: "diags st = ds1 @ ds2" "subseq (concat (map (fileReported env) primaryPaths)) ds2"
    by auto
  have "subseq ds0 ds1"
    by (simp add: ds1_def subseq_rev_drop_many)
  then have "subseq (ds0 @ concat (map (fileReported env) primaryPaths)) (ds1 @ ds2)"
    using ds2(2) by (rule list_emb_append_mono)
  then have sub: "subseq (reported env dir) (diags st)"
    by (simp add: reported_def d ds2(1))
  then have sub': "subseq (diagnosticsHCL (reported env dir)) ds"
    unfolding ds diagnosticsHCL_def by (rule subseq_map)
  have blocks: "allBlocks env dir = concat (map (fileBlocks env) primaryPaths)"
    by (simp add: allBlocks_def d)
  have own: "set (concat (map (blockOwn env) (concat (map (fileBlocks env) primaryPaths)))) \<subseteq> S"
    unfolding S_def ownDiagnostics_def blocks by auto
  have none: "noConfigurationFiles dir \<in> S"
    by (simp add: S_def ownDiagnostics_def)
  from loadFiles_emitted [OF run own] obtain ds3 where
    ds3: "diags st = ds1 @ ds3"
         "filter (\<lambda>d. d \<notin> S) ds3 =
            filter (\<lambda>d. d \<notin> S) (concat (map (fileReported env) primaryPaths))"
         "length ds3 \<le> length (concat (map (fileReported env) primaryPaths)) +
                         length (concat (map (fileBlocks env) primaryPaths))"
    by auto
  have "filter (\<lambda>d. d \<notin> S) ds1 = filter (\<lambda>d. d \<notin> S) ds0"
    using none by (simp add: ds1_def)
  then have "filter (\<lambda>d. d \<notin> S) (ds1 @ ds3) =
      filter (\<lambda>d. d \<notin> S) (ds0 @ concat (map (fileReported env) primaryPaths))"
    using ds3(2) by simp
  then have rest: "filter (\<lambda>d. d \<notin> set (ownDiagnostics env dir)) (diags st) =
      filter (\<lambda>d. d \<notin> set (ownDiagnostics env dir)) (reported env dir)"
    by (simp add: reported_def d ds3(1) S_def)
  have "length ds1 \<le> length ds0 + 1"
    by (simp add: ds1_def)
  with ds3(3) have "length (ds1 @ ds3) \<le>
      length (ds0 @ concat (map (fileReported env) primaryPaths)) +
      length (concat (map (fileBlocks env) primaryPaths)) + 1"
    by simp
  then have count: "length (diags st) \<le>
      length (reported env dir) + length (allBlocks env dir) + 1"
    by (simp add: reported_def d ds3(1) blocks)
  from sub ds sub' rest count show ?thesis
    by (intro conjI)
qed

text \<open>
  In the sample module three diagnostics are reported: that of the undecodable
  \<^verbatim>\<open>required_version\<close>, that of the default of variable \<^verbatim>\<open>y\<close> and that of the provider
  version. They are the first, third and fourth of the five accumulated; the second and
  the fifth are the extractor's own.
\<close>

theorem reported_diagnostics_returned_witness:
  "loadModule sampleEnv ''m'' = Inr (sampleLoaded, diagnosticsHCL (diags sampleLoaded)) \<and>
   reported sampleEnv ''m'' =
     [sampleError ''Unsuitable value: var'', sampleError ''Variables not allowed'',
      sampleError ''Unsuitable value: var''] \<and>
   diags sampleLoaded =
     [sampleError ''Unsuitable value: var'',
      invalidTypeHint (reference ''local'' [''t'']),
      sampleError ''Variables not allowed'',
      sampleError ''Unsuitable value: var'',
      duplicateResource ''aws_instance.a'' sampleDuplicate] \<and>
   invalidTypeHint (reference ''local'' [''t'']) \<in> set (ownDiagnostics sampleEnv ''m'') \<and>
   duplicateResource ''aws_instance.a'' sampleDuplicate \<in> set (ownDiagnostics sampleEnv ''m'') \<and>
   subseq (reported sampleEnv ''m'') (diags sampleLoaded) \<and>
   subseq (diagnosticsHCL (reported sampleEnv ''m'')) (diagnosticsHCL (diags sampleLoaded)) \<and>
   filter (\<lambda>d. d \<notin> set (ownDiagnostics sampleEnv ''m'')) (diags sampleLoaded) =
     filter (\<lambda>d. d \<notin> set (ownDiagnostics sampleEnv ''m'')) (reported sampleEnv ''m'') \<and>
   length (allBlocks sampleEnv ''m'') = 11 \<and>
   length (diags sampleLoaded) \<le> length (reported sampleEnv ''m'') + 11 + 1"
proof -
  have run: "loadModule sampleEnv ''m'' = Inr (sampleLoaded, diagnosticsHCL (diags sampleLoaded))"
    by (rule sample_loadModule)
  have rep: "reported sampleEnv ''m'' =
     [sampleError ''Unsuitable value: var'', sampleError ''Variables not allowed'',
      sampleError ''Unsuitable value: var'']"
    by (simp add: reported_def fileReported_def parseFile_def HasSuffix_def blockReported_def
          terraformDiags_def requiredVersionDiags_def requiredProvidersDiags_def
          descriptionDiags_def defaultDiags_def outputDiags_def providerDiags_def
          versionDiags_def Let_def sample_defs)
  have acc: "diags sampleLoaded =
     [sampleError ''Unsuitable value: var'',
      invalidTypeHint (reference ''local'' [''t'']),
      sampleError ''Variables not allowed'',
      sampleError ''Unsuitable value: var'',
      duplicateResource ''aws_instance.a'' sampleDuplicate]"
    by (simp add: sampleLoaded_def)
  have blocks: "allBlocks sampleEnv ''m'' = sampleBlocks"
    by (simp add: allBlocks_def fileBlocks_def parseFile_def HasSuffix_def sampleEnv_def
          sampleBody_def sampleContent_def)
  have n: "length (allBlocks sampleEnv ''m'') = 11"
    unfolding blocks by (simp add: sampleBlocks_def)
  have "invalidTypeHint (reference ''local'' [''t'']) \<in> set (blockOwn sampleEnv sampleVariableY)"
    by (simp add: blockOwn_def sampleVariableY_def sampleBlock_def sampleBody_def
          sampleContent_def sampleAttrs_def)
  then have own1: "invalidTypeHint (reference ''local'' [''t'']) \<in>
      set (ownDiagnostics sampleEnv ''m'')"
    unfolding ownDiagnostics_def blocks by (auto simp: sampleBlocks_def)
  have "duplicateResource ''aws_instance.a'' sampleDuplicate \<in>
      set (blockOwn sampleEnv sampleDuplicate)"
    by (simp add: blockOwn_def resourceKey_def resourceMode_def sampleEnv_def sampleKey_def
          sampleDuplicate_def sampleBlock_def)
  then have own2: "duplicateResource ''aws_instance.a'' sampleDuplicate \<in>
      set (ownDiagnostics sampleEnv ''m'')"
    unfolding ownDiagnostics_def blocks by (auto simp: sampleBlocks_def)
  from reported_diagnostics_returned [OF run]
  have sub: "subseq (reported sampleEnv ''m'') (diags sampleLoaded)"
    and sub': "subseq (diagnosticsHCL (reported sampleEnv ''m'')) (diagnosticsHCL (diags sampleLoaded))"
    and rest: "filter (\<lambda>d. d \<notin> set (ownDiagnostics sampleEnv ''m'')) (diags sampleLoaded) =
       filter (\<lambda>d. d \<notin> set (ownDiagnostics sampleEnv ''m'')) (reported sampleEnv ''m'')"
    and count: "length (diags sampleLoaded) \<le>
       length (reported sampleEnv ''m'') + length (allBlocks sampleEnv ''m'') + 1"
    by simp_all
  from count n have count': "length (diags sampleLoaded) \<le> length (reported sampleEnv ''m'') + 11 + 1"
    by simp
  from run rep acc own1 own2 sub sub' rest n count' show ?thesis
    by (intro conjI)
qed

section \<open>C10: provider blocks\<close>

text \<open>
  Claim C10. Every \<^verbatim>\<open>provider\<close> block with a name label, processed in any state, returns
  with the name a key of \<open>RequiredProviders\<close> and with the schema diagnostics followed by
  those of decoding the \<^verbatim>\<open>version\<close> attribute appended. If the attribute is absent, or
  present but decoding it reports an error, the module changes in nothing but that entry,
  which keeps the constraints it had, or becomes the empty sequence when the name was not
  a key: an undecodable version leaves the same module as no version.
\<close>

theorem provider_block_always_registers:
  assumes "Block.Type block = ''provider''"
      and "Labels block = name # rest"
      and "PartialContent (Block.Body block) providerConfigSchema = (content, contentDiags)"
  shows "\<exists>st'. loadBlock env st block = Inr st' \<and>
     RequiredProviders (Mod st') name \<noteq> None \<and>
     diags st' = diags st @ contentDiags @ versionDiags content \<and>
     (Attributes content ''version'' = None \<or>
      (\<exists>attr. Attributes content ''version'' = Some attr \<and>
              HasErrors (fst (DecodeExpression (Expr attr)))) \<longrightarrow>
        Mod st' = (Mod st)\<lparr>RequiredProviders := (RequiredProviders (Mod st))
                    (name \<mapsto> (case RequiredProviders (Mod st) name of
                                None \<Rightarrow> [] | Some vs \<Rightarrow> vs))\<rparr>)"
proof -
  have "\<exists>st'. case_provider st block = Inr st'"
    using assms(2,3) by (simp add: case_provider_def Let_def)
  then obtain st' where run: "case_provider st block = Inr st'" ..
  then obtain name' rest' where "Labels block = name' # rest'"
    and st': "st' = st\<lparr>Mod := (Mod st)\<lparr>RequiredProviders := (RequiredProviders (Mod st))
               (name' \<mapsto> constraints (RequiredProviders (Mod st)) name' @
                  providerVersions (fst (PartialContent (Block.Body block) providerConfigSchema)))\<rparr>,
             diags := diags st @ providerDiags block\<rparr>"
    using case_provider_Inr by blast
  with assms(2) have name: "name' = name" by simp
  have present: "RequiredProviders (Mod st') name \<noteq> None"
    by (simp add: st' name)
  have ds: "diags st' = diags st @ contentDiags @ versionDiags content"
    by (simp add: st' providerDiags_def assms(3))
  have none: "providerVersions content = []"
    if "Attributes content ''version'' = None \<or>
        (\<exists>attr. Attributes content ''version'' = Some attr \<and>
                HasErrors (fst (DecodeExpression (Expr attr))))"
    using that by (auto simp: providerVersions_def)
  have "Mod st' = (Mod st)\<lparr>RequiredProviders := (RequiredProviders (Mod st))
                    (name \<mapsto> (case RequiredProviders (Mod st) name of
                                None \<Rightarrow> [] | Some vs \<Rightarrow> vs))\<rparr>"
    if "providerVersions content = []"
    using that by (simp add: st' name assms(3) constraints_def)
  with none run present ds assms(1) show ?thesis
    by (auto simp: loadBlock_provider)
qed

text \<open>
  In the initial state, a \<^verbatim>\<open>provider "google"\<close> block whose version is the reference
  \<^verbatim>\<open>var.v\<close> and one with no version leave the same module; the first also records the
  decoding error.
\<close>

theorem provider_block_always_registers_witness:
  "Block.Type sampleProvider = ''provider'' \<and>
   Labels sampleProvider = [''google''] \<and>
   Attributes (fst (PartialContent (Block.Body sampleProvider) providerConfigSchema)) ''version'' =
     Some \<lparr>Attribute.Name = ''version'', Expr = reference ''var'' [''v'']\<rparr> \<and>
   HasErrors (fst (DecodeExpression (reference ''var'' [''v'']))) \<and>
   loadBlock sampleEnv sampleState sampleProvider =
     Inr (sampleState
       \<lparr>Mod := (newModule ''m'')\<lparr>RequiredProviders := [''google'' \<mapsto> []]\<rparr>,
        diags := [sampleError ''Unsuitable value: var'']\<rparr>) \<and>
   loadBlock sampleEnv sampleState (sampleBlock ''provider'' [''google''] []) =
     Inr (sampleState
       \<lparr>Mod := (newModule ''m'')\<lparr>RequiredProviders := [''google'' \<mapsto> []]\<rparr>\<rparr>)"
proof -
  let ?plain = "sampleBlock ''provider'' [''google''] []"
  let ?c = "sampleContent [(''version'', reference ''var'' [''v''])] []"
  let ?a = "\<lparr>Attribute.Name = ''version'', Expr = reference ''var'' [''v'']\<rparr>"
  have ty: "Block.Type sampleProvider = ''provider''"
    and lab: "Labels sampleProvider = ''google'' # []"
    and pc: "PartialContent (Block.Body sampleProvider) providerConfigSchema = (?c, [])"
    and attr: "Attributes ?c ''version'' = Some ?a"
    and ty': "Block.Type ?plain = ''provider''"
    and lab': "Labels ?plain = ''google'' # []"
    and pc': "PartialContent (Block.Body ?plain) providerConfigSchema = (sampleContent [] [], [])"
    and attr': "Attributes (sampleContent [] []) ''version'' = None"
    by (simp_all add: sampleProvider_def sampleBlock_def sampleBody_def sampleContent_def
          sampleAttrs_def)
  have err: "HasErrors (fst (DecodeExpression (reference ''var'' [''v''])))"
    by (simp add: reference_def sampleError_def)
  have vd: "versionDiags ?c = [sampleError ''Unsuitable value: var'']"
    "versionDiags (sampleContent [] []) = []"
    by (simp_all add: versionDiags_def sampleContent_def sampleAttrs_def reference_def)
  have before: "RequiredProviders (Mod sampleState) ''google'' = None"
    "diags sampleState = []"
    by (simp_all add: sampleState_def newModule_def)
  from provider_block_always_registers [OF ty lab pc, of sampleEnv sampleState] attr err
  obtain st' where run: "loadBlock sampleEnv sampleState sampleProvider = Inr st'"
    and ds: "diags st' = [sampleError ''Unsuitable value: var'']"
    and m: "Mod st' = (Mod sampleState)\<lparr>RequiredProviders :=
              (RequiredProviders (Mod sampleState))(''google'' \<mapsto> [])\<rparr>"
    by (auto simp: vd before)
  have eval: "loadBlock sampleEnv sampleState sampleProvider =
     Inr (sampleState
       \<lparr>Mod := (newModule ''m'')\<lparr>RequiredProviders := [''google'' \<mapsto> []]\<rparr>,
        diags := [sampleError ''Unsuitable value: var'']\<rparr>)"
    by (simp add: model_defs sample_defs)
  from provider_block_always_registers [OF ty' lab' pc', of sampleEnv sampleState] attr'
  obtain st'' where run': "loadBlock sampleEnv sampleState ?plain = Inr st''"
    and m': "Mod st'' = (Mod sampleState)\<lparr>RequiredProviders :=
              (RequiredProviders (Mod sampleState))(''google'' \<mapsto> [])\<rparr>"
    by (auto simp: vd before)
  have eval': "loadBlock sampleEnv sampleState ?plain =
     Inr (sampleState
       \<lparr>Mod := (newModule ''m'')\<lparr>RequiredProviders := [''google'' \<mapsto> []]\<rparr>\<rparr>)"
    by (simp add: model_defs sample_defs)
  from pc attr have attr2: "Attributes (fst (PartialContent (Block.Body sampleProvider)
      providerConfigSchema)) ''version'' = Some ?a"
    by simp
  from run eval have st': "st' = sampleState
       \<lparr>Mod := (newModule ''m'')\<lparr>RequiredProviders := [''google'' \<mapsto> []]\<rparr>,
        diags := [sampleError ''Unsuitable value: var'']\<rparr>"
    by simp
  from run' eval' have st'': "st'' = sampleState
       \<lparr>Mod := (newModule ''m'')\<lparr>RequiredProviders := [''google'' \<mapsto> []]\<rparr>\<rparr>"
    by simp
  from m m' have same: "Mod st' = Mod st''"
    by simp
  from same st' st'' ty lab attr2 err eval eval' show ?thesis
    by (intro conjI) simp_all
qed

end
